theory Spec2Isabelle
  imports Main
begin

section \<open>Process controller of the Cloud-Hypervisor driver (src/ch/ch_process.c)\<close>

text \<open>
  A shallow embedding of \<^verbatim>\<open>ch_process.c\<close>. Every function of that file is a HOL
  function of the same name. The functions of other files (the monitor, the cgroup,
  network and process utilities, libc) are not part of this file: what they return is
  taken from a record \<open>host\<close> of parameters, one field per function, named after it.
  Every call that acts on the outside world is recorded, in order, in a list of
  \<open>event\<close>s, so that what was called, with which arguments and in which order can be
  stated. An error is a value: the error this file reports with \<^verbatim>\<open>virReportError\<close>, or
  the name of the function of another file that failed (and reported its own error).
\<close>

subsection \<open>Errors\<close>

datatype virErrorNumber =
    VIR_ERR_INTERNAL_ERROR
  | VIR_ERR_CONFIG_UNSUPPORTED
  | VIR_ERR_OPERATION_INVALID

datatype error =
    Reported virErrorNumber string   \<comment> \<open>\<^verbatim>\<open>virReportError(code, message)\<close> of this file\<close>
  | ReportedSystem int string        \<comment> \<open>\<^verbatim>\<open>virReportSystemError(errno, message)\<close> of this file\<close>
  | Failed string                    \<comment> \<open>the named function of another file returned failure\<close>

subsection \<open>Data\<close>

type_synonym virBitmap = "nat set"
type_synonym virCgroup = string

datatype virCgroupThreadName =
    VIR_CGROUP_THREAD_VCPU
  | VIR_CGROUP_THREAD_EMULATOR
  | VIR_CGROUP_THREAD_IOTHREAD

datatype virCgroupController =
    VIR_CGROUP_CONTROLLER_CPU
  | VIR_CGROUP_CONTROLLER_CPUSET

datatype virCHCapsFlags =
    CH_MULTIFD_IN_ADDNET
  | CH_CAPS_OTHER nat

record virDomainNetDef =
  ifname :: string
  queues :: nat                      \<comment> \<open>\<^verbatim>\<open>driver.virtio.queues\<close>\<close>

record virCHDriver =
  chCaps :: "virCHCapsFlags set"

datatype virDomainVirtType =
    VIR_DOMAIN_VIRT_KVM
  | VIR_DOMAIN_VIRT_HYPERV
  | VIR_DOMAIN_VIRT_OTHER string

datatype virDomainCpuPlacementMode =
    VIR_DOMAIN_CPU_PLACEMENT_MODE_STATIC
  | VIR_DOMAIN_CPU_PLACEMENT_MODE_AUTO

datatype virDomainNumatuneMemMode =
    VIR_DOMAIN_NUMATUNE_MEM_STRICT
  | VIR_DOMAIN_NUMATUNE_MEM_PREFERRED
  | VIR_DOMAIN_NUMATUNE_MEM_INTERLEAVE
  | VIR_DOMAIN_NUMATUNE_MEM_RESTRICTIVE

record virDomainThreadSchedParam =
  policy :: int
  priority :: int

record virDomainVcpuDef =
  online :: bool
  vcpu_cpumask :: "virBitmap option"        \<comment> \<open>\<^verbatim>\<open>vcpu->cpumask\<close>, \<open>None\<close> for \<^verbatim>\<open>NULL\<close>\<close>
  sched :: virDomainThreadSchedParam

record virDomainCputune =
  period :: nat                             \<comment> \<open>\<^verbatim>\<open>unsigned long long\<close>\<close>
  quota :: int                              \<comment> \<open>\<^verbatim>\<open>long long\<close>\<close>
  emulator_period :: nat
  emulator_quota :: int
  iothread_period :: nat
  iothread_quota :: int
  emulatorpin :: "virBitmap option"
  emulatorsched :: "virDomainThreadSchedParam option"

datatype virDomainChrType =
    VIR_DOMAIN_CHR_TYPE_PTY
  | VIR_DOMAIN_CHR_TYPE_UNIX
  | VIR_DOMAIN_CHR_TYPE_OTHER nat

text \<open>A character device, by its \<^verbatim>\<open>source\<close>: the type and \<^verbatim>\<open>data.file.path\<close>.\<close>

record virDomainChrDef =
  source_type :: virDomainChrType
  source_path :: "string option"

record virDomainDef =
  def_id :: int                             \<comment> \<open>\<^verbatim>\<open>def->id\<close>\<close>
  virtType :: virDomainVirtType
  nets :: "virDomainNetDef list"            \<comment> \<open>\<^verbatim>\<open>nnets\<close> is the length\<close>
  vcpus :: "virDomainVcpuDef list"          \<comment> \<open>\<^verbatim>\<open>maxvcpus\<close> is the length\<close>
  cpumask :: "virBitmap option"
  placement_mode :: virDomainCpuPlacementMode
  cputune :: virDomainCputune
  consoles :: "virDomainChrDef list"
  serials :: "virDomainChrDef list"

datatype virCHThreadType =
    virCHThreadTypeEmulator
  | virCHThreadTypeVcpu
  | virCHThreadTypeIO
  | virCHThreadTypeUnknown

record virCHMonitorThreadInfo =
  thr_type :: virCHThreadType
  emu_tid :: int                            \<comment> \<open>\<^verbatim>\<open>emuInfo.tid\<close>\<close>
  emu_thrName :: string

record virCHMonitor =
  mon_pid :: int
  socketpath :: string
  threads :: "virCHMonitorThreadInfo list"  \<comment> \<open>\<^verbatim>\<open>nthreads\<close> is the length\<close>

type_synonym virDomainRunningReason = nat

datatype virDomainShutoffReason =
    VIR_DOMAIN_SHUTOFF_FAILED
  | VIR_DOMAIN_SHUTOFF_OTHER nat

datatype virDomainStateReason =
    VIR_DOMAIN_RUNNING virDomainRunningReason
  | VIR_DOMAIN_SHUTOFF virDomainShutoffReason
  | VIR_DOMAIN_OTHER_STATE nat nat

text \<open>The domain object with its private data (\<^verbatim>\<open>virCHDomainObjPrivate\<close>).\<close>

record virDomainObj =
  pid :: int
  def :: virDomainDef
  state :: virDomainStateReason
  monitor :: "virCHMonitor option"
  machineName :: "string option"
  cgroup :: "virCgroup option"
  autoCpuset :: "virBitmap option"
  autoNodeset :: "virBitmap option"

datatype virJSONValue =
    JSON_String string
  | JSON_Object "(string \<times> virJSONValue) list"
  | JSON_Other

subsection \<open>Events\<close>

datatype event =
    E_socket int                               \<comment> \<open>\<^verbatim>\<open>socket()\<close> returned this descriptor\<close>
  | E_connect int string
  | E_close int                                \<comment> \<open>a descriptor is closed\<close>
  | E_ConnetNetworkInterfaces nat "int list"   \<comment> \<open>interface index, the tap descriptors it left in \<^verbatim>\<open>tapfds\<close>\<close>
  | E_SendMsgWithFDs int string "int list"     \<comment> \<open>socket, message, descriptors\<close>
  | E_poll int nat                             \<comment> \<open>socket, timeout in ms\<close>
  | E_recv int nat                             \<comment> \<open>socket, length asked for\<close>
  | E_CgroupNewThread "virCgroup option" virCgroupThreadName int
  | E_CgroupAddThread "virCgroup option" int
  | E_SetupCpusetCpus "virCgroup option" virBitmap
  | E_SetCpusetMems "virCgroup option" string
  | E_SetupVcpuBW "virCgroup option" nat int
  | E_CgroupRemove virCgroup
  | E_SetAffinity int virBitmap                \<comment> \<open>\<^verbatim>\<open>virProcessSetAffinity(pid, map, false)\<close>\<close>
  | E_SetScheduler int int int
  | E_MonitorNew
  | E_MonitorCreateVM
  | E_MonitorBootVM
  | E_MonitorClose
  | E_MonitorGetInfo
  | E_MonitorGetIOThreads
  | E_RefreshThreadInfo
  | E_SetupCgroup "int list"
  | E_SetupGlobalCpuCgroup
  | E_InterfaceStartDevices
  | E_InterfaceStopDevices
  | E_InterfaceDeleteDevice virDomainNetDef
  | E_CgroupRemoveCgroup "virCgroup option" "string option"
  | E_usleep nat
  | E_DEBUG_Stopping_VM int virDomainShutoffReason  \<comment> \<open>the \<^verbatim>\<open>VIR_DEBUG\<close> line at the entry of virCHProcessStop\<close>
  | E_WARN_Failed_to_remove_cgroup

subsection \<open>What the control socket answers\<close>

datatype recv_outcome =
    Recv_error int        \<comment> \<open>\<^verbatim>\<open>recv\<close> returns -1 with this errno\<close>
  | Recv_data string      \<comment> \<open>the bytes the kernel has for this call\<close>

record sock_io =
  polls :: "(int \<times> int) list"     \<comment> \<open>return value and errno of the successive \<^verbatim>\<open>poll\<close> calls\<close>
  recvs :: "recv_outcome list"     \<comment> \<open>outcome of the successive \<^verbatim>\<open>recv\<close> calls\<close>

subsection \<open>The functions of other files\<close>

text \<open>
  One field per function (or constant) that this file uses and does not define; the
  field gives what the call returns. A return code is an \<^verbatim>\<open>int\<close> as in C (negative for
  failure); where the code reads errno it comes second; a value written through a
  pointer argument comes with the return code. A field is a function of the arguments
  that tell one call from another: the index of the interface for the calls of the
  loop over the interfaces, the number of the attempt for the removal of the cgroup.
  \<open>virCHConnetNetworkInterfaces\<close> gives the return code, the descriptors it writes into
  \<^verbatim>\<open>tapfds\<close> from index 0 on, and the interface indexes it appends to \<^verbatim>\<open>nicindexes\<close>.
  \<open>virCHMonitorGetIOThreads\<close> gives the thread ids, or \<open>None\<close> for a negative return.
  \<open>WITH_SCHED_GETAFFINITY\<close> is the build option of the same name (or
  \<^verbatim>\<open>WITH_BSD_CPU_AFFINITY\<close>).
\<close>

record host =
  errno_EINTR :: int
  scanf_int_out_of_range :: "int \<Rightarrow> int"
  sys_socket :: "int \<times> int"
  virStrcpyStatic_sun_path :: "string \<Rightarrow> int"
  sys_connect :: "int \<Rightarrow> string \<Rightarrow> int \<times> int"
  virCHDomainValidateActualNetDef :: "nat \<Rightarrow> virDomainNetDef \<Rightarrow> int"
  virCHConnetNetworkInterfaces :: "nat \<Rightarrow> virDomainNetDef \<Rightarrow> int \<times> int list \<times> int list"
  virCHMonitorBuildNetJson :: "nat \<Rightarrow> virDomainNetDef \<Rightarrow> int \<times> string"
  virSocketSendMsgWithFDs :: "nat \<Rightarrow> int \<Rightarrow> string \<Rightarrow> int list \<Rightarrow> int \<times> int"
  sock_answers :: "nat \<Rightarrow> sock_io"
  virCgroupHasController :: "virCgroup option \<Rightarrow> virCgroupController \<Rightarrow> bool"
  virHostCPUHasBitmap :: bool
  virHostCPUGetOnlineBitmap :: "virBitmap option"
  virDomainNumatuneGetMode :: "int \<times> virDomainNumatuneMemMode"
  virDomainNumatuneMaybeFormatNodeset :: "virBitmap option \<Rightarrow> int \<times> string option"
  virCgroupNewThread :: "virCgroup option \<Rightarrow> virCgroupThreadName \<Rightarrow> int \<Rightarrow> int \<times> virCgroup option"
  virCgroupAddThread :: "virCgroup option \<Rightarrow> int \<Rightarrow> int"
  virDomainCgroupSetupCpusetCpus :: "virCgroup option \<Rightarrow> virBitmap \<Rightarrow> int"
  virCgroupSetCpusetMems :: "virCgroup option \<Rightarrow> string \<Rightarrow> int"
  virDomainCgroupSetupVcpuBW :: "virCgroup option \<Rightarrow> nat \<Rightarrow> int \<Rightarrow> int"
  virProcessSetAffinity :: "int \<Rightarrow> virBitmap \<Rightarrow> int"
  virProcessSetScheduler :: "int \<Rightarrow> int \<Rightarrow> int \<Rightarrow> int"
  virCHMonitorGetIOThreads :: "int list option"
  virCHDomainGetVcpuPid :: "nat \<Rightarrow> int"
  virCHDomainHasVcpuPids :: bool
  virCHMonitorGetInfo :: "int \<times> virJSONValue"
  WITH_SCHED_GETAFFINITY :: bool
  virDomainNumaGetNodeCount :: nat
  virDomainNumatuneMaybeGetNodeset :: "virBitmap option \<Rightarrow> int \<times> virBitmap option"
  virNumaNodesetToCPUset :: "virBitmap option \<Rightarrow> int \<times> virBitmap option"
  virBitmapNewCopy :: "virBitmap \<Rightarrow> virBitmap option"
  virDomainObjIsActive :: "virDomainObj \<Rightarrow> bool"
  virCapabilitiesDomainSupported :: "virDomainVirtType \<Rightarrow> bool"
  virCHMonitorNew :: "virCHMonitor option"
  virCHMonitorCreateVM :: int
  virCHDomainGetMachineName :: "string option"
  virDomainCgroupSetupCgroup :: "int list \<Rightarrow> int \<times> virCgroup option"
  virDomainInterfaceStartDevices :: int
  virCHMonitorBootVM :: int
  virCHDomainRefreshThreadInfo :: "virCHMonitorThreadInfo list"
  virDomainCgroupSetupGlobalCpuCgroup :: int
  errno_EBUSY :: int
  virDomainCgroupRemoveCgroup :: "nat \<Rightarrow> int"

subsection \<open>chSocketRecv\<close>

definition PKT_TIMEOUT_MS :: nat where
  "PKT_TIMEOUT_MS = 500"

definition NUL :: char where
  "NUL = CHR 0x00"

text \<open>A C string: the bytes of a buffer before its first NUL.\<close>

definition c_str :: "string \<Rightarrow> string" where
  "c_str buf = takeWhile (\<lambda>c. c \<noteq> NUL) buf"

text \<open>
  \<^verbatim>\<open>do { ret = poll(pfds, 1, PKT_TIMEOUT_MS); } while (ret < 0 && errno == EINTR);\<close>
  The result is the last return value and errno, with the calls made. \<open>None\<close>: the list
  of answers ended while the loop was still being interrupted; the loop has not
  returned.
\<close>

fun poll_loop :: "host \<Rightarrow> int \<Rightarrow> (int \<times> int) list \<Rightarrow> (int \<times> int \<times> event list) option" where
  "poll_loop h sock [] = None"
| "poll_loop h sock ((ret, errno) # rest) =
     (if ret < 0 \<and> errno = errno_EINTR h
      then (case poll_loop h sock rest of
              None \<Rightarrow> None
            | Some (ret', errno', tr) \<Rightarrow> Some (ret', errno', E_poll sock PKT_TIMEOUT_MS # tr))
      else Some (ret, errno, [E_poll sock PKT_TIMEOUT_MS]))"

text \<open>
  \<^verbatim>\<open>do { ret = recv(sock, buf, buf_len - 1, 0); } while (ret < 0 && errno == EINTR);\<close>
  A \<^verbatim>\<open>recv\<close> of length \<open>len\<close> copies at most \<open>len\<close> of the bytes the kernel has and
  returns their number. The result is the last return value, errno, the bytes copied
  into the buffer and the calls made.
\<close>

fun recv_loop :: "host \<Rightarrow> int \<Rightarrow> nat \<Rightarrow> recv_outcome list \<Rightarrow> (int \<times> int \<times> string \<times> event list) option" where
  "recv_loop h sock len [] = None"
| "recv_loop h sock len (Recv_error errno # rest) =
     (if errno = errno_EINTR h
      then (case recv_loop h sock len rest of
              None \<Rightarrow> None
            | Some (ret', errno', bs, tr) \<Rightarrow> Some (ret', errno', bs, E_recv sock len # tr))
      else Some (- 1, errno, [], [E_recv sock len]))"
| "recv_loop h sock len (Recv_data bs # rest) =
     Some (int (length (take len bs)), 0, take len bs, [E_recv sock len])"

text \<open>
  The result is \<^verbatim>\<open>NULL\<close> (\<open>Inl\<close>, with the error reported) or the buffer of
  \<open>buf_len\<close> bytes, zeroed by \<^verbatim>\<open>g_new0\<close> and then written by \<^verbatim>\<open>recv\<close>.
\<close>

definition chSocketRecv :: "host \<Rightarrow> int \<Rightarrow> sock_io \<Rightarrow> ((error + string) \<times> event list) option" where
  "chSocketRecv h sock io =
    (let buf_len = 1024;
         buf = replicate buf_len NUL
     in case poll_loop h sock (polls io) of
          None \<Rightarrow> None
        | Some (ret, errno, tr1) \<Rightarrow>
            if ret \<le> 0 then
              (if ret < 0
               then Some (Inl (ReportedSystem errno ''Poll on sock failed''), tr1)
               else Some (Inl (ReportedSystem errno ''Poll on sock timed out''), tr1))
            else
              (case recv_loop h sock (buf_len - 1) (recvs io) of
                 None \<Rightarrow> None
               | Some (ret, errno, bs, tr2) \<Rightarrow>
                   if ret < 0
                   then Some (Inl (ReportedSystem errno ''recv on sock failed''), tr1 @ tr2)
                   else Some (Inr (bs @ drop (length bs) buf), tr1 @ tr2)))"

subsection \<open>The status line: \<^verbatim>\<open>sscanf(response, "HTTP/1.%*d %d", &http_res)\<close>\<close>

definition isspace :: "char \<Rightarrow> bool" where
  "isspace c = (c = CHR '' '' \<or> c = CHR 0x09 \<or> c = CHR 0x0A \<or> c = CHR 0x0B \<or> c = CHR 0x0C \<or> c = CHR 0x0D)"

definition isdigit :: "char \<Rightarrow> bool" where
  "isdigit c = (48 \<le> (of_char c :: nat) \<and> (of_char c :: nat) \<le> 57)"

definition digit_val :: "char \<Rightarrow> int" where
  "digit_val c = int (of_char c) - 48"

fun scan_digits :: "int \<Rightarrow> string \<Rightarrow> int \<times> string" where
  "scan_digits acc [] = (acc, [])"
| "scan_digits acc (c # cs) =
     (if isdigit c then scan_digits (10 * acc + digit_val c) cs else (acc, c # cs))"

text \<open>
  The conversion \<^verbatim>\<open>%d\<close>: white space is skipped, then an optional sign and one or more
  decimal digits are read. The result is the number and the rest of the input, or
  \<open>None\<close> when no number stands there.
\<close>

definition scan_d :: "string \<Rightarrow> (int \<times> string) option" where
  "scan_d s =
    (let s1 = dropWhile isspace s;
         neg = (case s1 of [] \<Rightarrow> False | c # _ \<Rightarrow> c = CHR ''-'');
         s2 = (case s1 of [] \<Rightarrow> [] | c # cs \<Rightarrow> if c = CHR ''-'' \<or> c = CHR ''+'' then cs else s1)
     in case s2 of
          [] \<Rightarrow> None
        | c # _ \<Rightarrow>
            if isdigit c
            then (case scan_digits 0 s2 of (v, rest) \<Rightarrow> Some (if neg then - v else v, rest))
            else None)"

text \<open>
  What \<^verbatim>\<open>%d\<close> stores in an \<^verbatim>\<open>int\<close>: the number read when an \<^verbatim>\<open>int\<close> holds it. For a
  number out of that range the C standard leaves the stored value open; it is a
  parameter of the host.
\<close>

definition store_int :: "host \<Rightarrow> int \<Rightarrow> int" where
  "store_int h v = (if - 2147483648 \<le> v \<and> v \<le> 2147483647 then v else scanf_int_out_of_range h v)"

text \<open>
  The format \<^verbatim>\<open>HTTP/1.%*d %d\<close>: the seven characters \<^verbatim>\<open>HTTP/1.\<close> as they are, a number
  that is not stored, any white space, and the number stored in \<^verbatim>\<open>http_res\<close>. The
  result is \<open>Some http_res\<close> when \<^verbatim>\<open>sscanf\<close> returns 1, and \<open>None\<close> when it returns
  anything else.
\<close>

definition sscanf_http_status :: "host \<Rightarrow> string \<Rightarrow> int option" where
  "sscanf_http_status h response =
    (if take 7 response \<noteq> ''HTTP/1.'' then None
     else case scan_d (drop 7 response) of
            None \<Rightarrow> None
          | Some (minor, r1) \<Rightarrow>
              (case scan_d (dropWhile isspace r1) of
                 None \<Rightarrow> None
               | Some (v, r2) \<Rightarrow> Some (store_int h v)))"

subsection \<open>chProcessAddNetworkDevices\<close>

text \<open>\<^verbatim>\<open>%ld\<close> of a length, as \<^verbatim>\<open>virBufferAsprintf\<close> prints it: its decimal digits.\<close>

definition digit_char :: "nat \<Rightarrow> char" where
  "digit_char d = ''0123456789'' ! d"

function show_nat :: "nat \<Rightarrow> string" where
  "show_nat n =
     (if n < 10 then [digit_char n]
      else show_nat (n div 10) @ [digit_char (n mod 10)])"
  by pat_completeness auto
termination
  by (relation "measure (\<lambda>n. n)") auto

definition http_headers :: string where
  "http_headers =
     ''PUT /api/v1/vm.add-net HTTP/1.1'' @ [CHR 0x0D, CHR 0x0A] @
     ''Host: localhost'' @ [CHR 0x0D, CHR 0x0A] @
     ''Content-Type: application/json'' @ [CHR 0x0D, CHR 0x0A]"

text \<open>
  Modelled from the spec: the macro \<^verbatim>\<open>VIR_FORCE_CLOSE\<close> is not in this file. The loop
  \<^verbatim>\<open>VIR_FORCE_CLOSE(tapfds[j])\<close> for every \<open>j < tapfd_len\<close> is to "close the local copies
  of the tap file descriptors": every entry that holds a descriptor is closed; an entry
  still at -1 holds none.
\<close>

definition close_tapfds :: "int list \<Rightarrow> event list" where
  "close_tapfds tapfds = map E_close (filter (\<lambda>fd. 0 \<le> fd) tapfds)"

text \<open>
  The body of the loop over \<^verbatim>\<open>vmdef->nets\<close>, for the interface of index \<open>i\<close>. The result
  is \<open>Inl\<close> for \<^verbatim>\<open>return -1\<close> and \<open>Inr\<close>, with the interface indexes so far, when the
  loop goes on; with it the interface definition (its \<open>queues\<close> may have been set to 1)
  and the events.
\<close>

definition add_net :: "host \<Rightarrow> int \<Rightarrow> nat \<Rightarrow> virDomainNetDef \<Rightarrow> int list \<Rightarrow>
    ((error + int list) \<times> virDomainNetDef \<times> event list) option" where
  "add_net h mon_sockfd i net0 nicindexes =
    (let net = (if queues net0 = 0 then net0\<lparr>queues := 1\<rparr> else net0);
         tapfd_len = queues net
     in if virCHDomainValidateActualNetDef h i net < 0
        then Some (Inl (Reported VIR_ERR_INTERNAL_ERROR ''net definition failed validation''), net, [])
        else
          (case virCHConnetNetworkInterfaces h i net of (rc_conn, opened, newidx) \<Rightarrow>
            let tapfds = take tapfd_len (opened @ replicate tapfd_len (- 1));
                tr_conn = [E_ConnetNetworkInterfaces i tapfds]
            in if rc_conn < 0
               then Some (Inl (Failed ''virCHConnetNetworkInterfaces''), net, tr_conn)
               else
                 (case virCHMonitorBuildNetJson h i net of (rc_json, payload) \<Rightarrow>
                   if rc_json < 0
                   then Some (Inl (Reported VIR_ERR_INTERNAL_ERROR ''Failed to build net json''), net, tr_conn)
                   else
                     let request = http_headers @ ''Content-Length: '' @ show_nat (length payload) @
                                   [CHR 0x0D, CHR 0x0A, CHR 0x0D, CHR 0x0A] @ payload
                     in (case virSocketSendMsgWithFDs h i mon_sockfd request tapfds of (rc, saved_errno) \<Rightarrow>
                          let tr_send = tr_conn @ [E_SendMsgWithFDs mon_sockfd request tapfds] @ close_tapfds tapfds
                          in if rc < 0
                             then Some (Inl (ReportedSystem saved_errno ''Failed to send net-add request to CH''),
                                        net, tr_send)
                             else
                               (case chSocketRecv h mon_sockfd (sock_answers h i) of
                                  None \<Rightarrow> None
                                | Some (Inl e, tr_recv) \<Rightarrow> Some (Inl e, net, tr_send @ tr_recv)
                                | Some (Inr response, tr_recv) \<Rightarrow>
                                    (case sscanf_http_status h (c_str response) of
                                       None \<Rightarrow>
                                         Some (Inl (Reported VIR_ERR_INTERNAL_ERROR ''Failed to parse HTTP response code''),
                                               net, tr_send @ tr_recv)
                                     | Some http_res \<Rightarrow>
                                         if http_res \<noteq> 204 \<and> http_res \<noteq> 200
                                         then Some (Inl (Reported VIR_ERR_INTERNAL_ERROR ''Unexpected response from CH''),
                                                    net, tr_send @ tr_recv)
                                         else Some (Inr (nicindexes @ newidx), net, tr_send @ tr_recv)))))))"

text \<open>\<^verbatim>\<open>for (i = 0; i < vmdef->nnets; i++)\<close>, from index \<open>i\<close> on.\<close>

fun add_nets :: "host \<Rightarrow> int \<Rightarrow> nat \<Rightarrow> virDomainNetDef list \<Rightarrow> int list \<Rightarrow>
    ((error + int list) \<times> virDomainNetDef list \<times> event list) option" where
  "add_nets h mon_sockfd i [] nicindexes = Some (Inr nicindexes, [], [])"
| "add_nets h mon_sockfd i (net # rest) nicindexes =
     (case add_net h mon_sockfd i net nicindexes of
        None \<Rightarrow> None
      | Some (Inl e, net', tr) \<Rightarrow> Some (Inl e, net' # rest, tr)
      | Some (Inr nicindexes', net', tr) \<Rightarrow>
          (case add_nets h mon_sockfd (Suc i) rest nicindexes' of
             None \<Rightarrow> None
           | Some (r, rest', tr') \<Rightarrow> Some (r, net' # rest', tr @ tr')))"

text \<open>
  The function itself. \<^verbatim>\<open>VIR_AUTOCLOSE mon_sockfd\<close>: the socket is closed wherever the
  function returns after it was opened. The result carries the domain definition, whose
  interfaces' \<open>queues\<close> the loop may have set.
\<close>

definition chProcessAddNetworkDevices :: "host \<Rightarrow> virCHDriver \<Rightarrow> virCHMonitor \<Rightarrow> virDomainDef \<Rightarrow>
    ((error + int list) \<times> virDomainDef \<times> event list) option" where
  "chProcessAddNetworkDevices h driver mon vmdef =
    (if CH_MULTIFD_IN_ADDNET \<notin> chCaps driver
     then Some (Inl (Reported VIR_ERR_INTERNAL_ERROR ''Guest networking is not supported by this version of ch''),
                vmdef, [])
     else
       (case sys_socket h of (mon_sockfd, errno) \<Rightarrow>
         if mon_sockfd < 0
         then Some (Inl (ReportedSystem errno ''Failed to open a UNIX socket''), vmdef, [E_socket mon_sockfd])
         else if virStrcpyStatic_sun_path h (socketpath mon) < 0
         then Some (Inl (Reported VIR_ERR_INTERNAL_ERROR ''UNIX socket path too long''), vmdef,
                    [E_socket mon_sockfd, E_close mon_sockfd])
         else
           (case sys_connect h mon_sockfd (socketpath mon) of (rc, errno_c) \<Rightarrow>
             if rc = - 1
             then Some (Inl (ReportedSystem errno_c ''Failed to connect to mon socket''), vmdef,
                        [E_socket mon_sockfd, E_connect mon_sockfd (socketpath mon), E_close mon_sockfd])
             else
               (case add_nets h mon_sockfd 0 (nets vmdef) [] of
                  None \<Rightarrow> None
                | Some (r, nets', tr) \<Rightarrow>
                    Some (r, vmdef\<lparr>nets := nets'\<rparr>,
                          [E_socket mon_sockfd, E_connect mon_sockfd (socketpath mon)] @ tr @
                          [E_close mon_sockfd])))))"

subsection \<open>virCHProcessSetupPid\<close>

definition virCHProcessGetAllCpuAffinity :: "host \<Rightarrow> int \<times> virBitmap option" where
  "virCHProcessGetAllCpuAffinity h =
    (if \<not> virHostCPUHasBitmap h then (0, None)
     else case virHostCPUGetOnlineBitmap h of
            None \<Rightarrow> (- 1, None)
          | Some m \<Rightarrow> (0, Some m))"

text \<open>
  Lines 244 to 257, "Infer which cpumask shall be used": the return code of the block
  (negative for \<^verbatim>\<open>goto cleanup\<close>), \<^verbatim>\<open>use_cpumask\<close> and \<^verbatim>\<open>affinity_cpumask\<close> after it.
\<close>

definition infer_cpumask :: "host \<Rightarrow> virDomainObj \<Rightarrow> virBitmap option \<Rightarrow>
    int \<times> virBitmap option \<times> virBitmap option" where
  "infer_cpumask h vm cpumask_arg =
    (case cpumask_arg of
       Some m \<Rightarrow> (0, Some m, None)
     | None \<Rightarrow>
         if placement_mode (def vm) = VIR_DOMAIN_CPU_PLACEMENT_MODE_AUTO
         then (0, autoCpuset vm, None)
         else (case cpumask (def vm) of
                 Some m \<Rightarrow> (0, Some m, None)
               | None \<Rightarrow>
                   (case virCHProcessGetAllCpuAffinity h of (rc, hostcpumap) \<Rightarrow>
                     if rc < 0 then (- 1, None, None) else (0, None, hostcpumap))))"

text \<open>
  Lines 284 to 292, inside the per-thread cgroup: the cpuset settings, written when the
  cpuset controller is there.
\<close>

definition setup_pid_cpuset :: "host \<Rightarrow> virDomainObj \<Rightarrow> virCgroup option \<Rightarrow> virBitmap option \<Rightarrow>
    string option \<Rightarrow> (error + unit) \<times> event list" where
  "setup_pid_cpuset h vm cg use_cpumask mem_mask =
    (if virCgroupHasController h (cgroup vm) VIR_CGROUP_CONTROLLER_CPUSET then
       (case (case use_cpumask of
                None \<Rightarrow> (0, [])
              | Some m \<Rightarrow> (virDomainCgroupSetupCpusetCpus h cg m, [E_SetupCpusetCpus cg m])) of
          (rc_cpus, tr_cpus) \<Rightarrow>
            if rc_cpus < 0 then (Inl (Failed ''virDomainCgroupSetupCpusetCpus''), tr_cpus)
            else (case mem_mask of
                    None \<Rightarrow> (Inr (), tr_cpus)
                  | Some mm \<Rightarrow>
                      if virCgroupSetCpusetMems h cg mm < 0
                      then (Inl (Failed ''virCgroupSetCpusetMems''), tr_cpus @ [E_SetCpusetMems cg mm])
                      else (Inr (), tr_cpus @ [E_SetCpusetMems cg mm])))
     else (Inr (), []))"

text \<open>
  Lines 264 to 296, the cgroup block: the result, the per-thread \<^verbatim>\<open>cgroup\<close> variable
  (\<open>None\<close> for \<^verbatim>\<open>NULL\<close>) and the events.
\<close>

definition setup_pid_cgroup :: "host \<Rightarrow> virDomainObj \<Rightarrow> int \<Rightarrow> virCgroupThreadName \<Rightarrow> int \<Rightarrow>
    virBitmap option \<Rightarrow> nat \<Rightarrow> int \<Rightarrow> (error + unit) \<times> virCgroup option \<times> event list" where
  "setup_pid_cgroup h vm pid' nameval id' use_cpumask period' quota' =
    (if virCgroupHasController h (cgroup vm) VIR_CGROUP_CONTROLLER_CPU \<or>
        virCgroupHasController h (cgroup vm) VIR_CGROUP_CONTROLLER_CPUSET
     then
       (case (if fst (virDomainNumatuneGetMode h) = 0 \<and>
                 (snd (virDomainNumatuneGetMode h) = VIR_DOMAIN_NUMATUNE_MEM_STRICT \<or>
                  snd (virDomainNumatuneGetMode h) = VIR_DOMAIN_NUMATUNE_MEM_RESTRICTIVE)
              then virDomainNumatuneMaybeFormatNodeset h (autoNodeset vm)
              else (0, None)) of
          (rc_mem, mem_mask) \<Rightarrow>
            if rc_mem < 0 then (Inl (Failed ''virDomainNumatuneMaybeFormatNodeset''), None, [])
            else
              (case virCgroupNewThread h (cgroup vm) nameval id' of (rc_new, cg) \<Rightarrow>
                if rc_new < 0
                then (Inl (Failed ''virCgroupNewThread''), cg, [E_CgroupNewThread (cgroup vm) nameval id'])
                else if virCgroupAddThread h cg pid' < 0
                then (Inl (Failed ''virCgroupAddThread''), cg,
                      [E_CgroupNewThread (cgroup vm) nameval id', E_CgroupAddThread cg pid'])
                else
                  (case setup_pid_cpuset h vm cg use_cpumask mem_mask of
                     (Inl e, tr_set) \<Rightarrow>
                       (Inl e, cg, [E_CgroupNewThread (cgroup vm) nameval id', E_CgroupAddThread cg pid'] @ tr_set)
                   | (Inr u, tr_set) \<Rightarrow>
                       if virDomainCgroupSetupVcpuBW h cg period' quota' < 0
                       then (Inl (Failed ''virDomainCgroupSetupVcpuBW''), cg,
                             [E_CgroupNewThread (cgroup vm) nameval id', E_CgroupAddThread cg pid'] @ tr_set @
                             [E_SetupVcpuBW cg period' quota'])
                       else (Inr (), cg,
                             [E_CgroupNewThread (cgroup vm) nameval id', E_CgroupAddThread cg pid'] @ tr_set @
                             [E_SetupVcpuBW cg period' quota']))))
     else (Inr (), None, []))"

text \<open>The label \<^verbatim>\<open>cleanup\<close> on failure: \<^verbatim>\<open>if (ret < 0 && cgroup) virCgroupRemove(cgroup)\<close>.\<close>

definition setup_pid_cleanup :: "virCgroup option \<Rightarrow> event list" where
  "setup_pid_cleanup cg = (case cg of None \<Rightarrow> [] | Some c \<Rightarrow> [E_CgroupRemove c])"

definition virCHProcessSetupPid :: "host \<Rightarrow> virDomainObj \<Rightarrow> int \<Rightarrow> virCgroupThreadName \<Rightarrow> int \<Rightarrow>
    virBitmap option \<Rightarrow> nat \<Rightarrow> int \<Rightarrow> virDomainThreadSchedParam option \<Rightarrow> (error + unit) \<times> event list" where
  "virCHProcessSetupPid h vm pid' nameval id' cpumask_arg period' quota' sched' =
    (if (period' \<noteq> 0 \<or> quota' \<noteq> 0) \<and>
        \<not> virCgroupHasController h (cgroup vm) VIR_CGROUP_CONTROLLER_CPU
     then (Inl (Reported VIR_ERR_CONFIG_UNSUPPORTED ''cgroup cpu is required for scheduler tuning''), [])
     else
       (case infer_cpumask h vm cpumask_arg of (rc_infer, use_cpumask, hostcpumap) \<Rightarrow>
         if rc_infer < 0 then (Inl (Failed ''virCHProcessGetAllCpuAffinity''), [])
         else
           (case setup_pid_cgroup h vm pid' nameval id' use_cpumask period' quota' of
              (Inl e, cg, tr_cg) \<Rightarrow> (Inl e, tr_cg @ setup_pid_cleanup cg)
            | (Inr u, cg, tr_cg) \<Rightarrow>
                let affinity_cpumask = (case hostcpumap of None \<Rightarrow> use_cpumask | Some m \<Rightarrow> Some m);
                    tr_aff = (case affinity_cpumask of None \<Rightarrow> [] | Some m \<Rightarrow> [E_SetAffinity pid' m])
                in if (case affinity_cpumask of None \<Rightarrow> False | Some m \<Rightarrow> virProcessSetAffinity h pid' m < 0)
                   then (Inl (Failed ''virProcessSetAffinity''), tr_cg @ tr_aff @ setup_pid_cleanup cg)
                   else
                     (case sched' of
                        None \<Rightarrow> (Inr (), tr_cg @ tr_aff)
                      | Some sp \<Rightarrow>
                          if nameval \<noteq> VIR_CGROUP_THREAD_EMULATOR
                          then (if virProcessSetScheduler h pid' (policy sp) (priority sp) < 0
                                then (Inl (Failed ''virProcessSetScheduler''),
                                      tr_cg @ tr_aff @ [E_SetScheduler pid' (policy sp) (priority sp)] @
                                      setup_pid_cleanup cg)
                                else (Inr (), tr_cg @ tr_aff @ [E_SetScheduler pid' (policy sp) (priority sp)]))
                          else (Inr (), tr_cg @ tr_aff)))))"

subsection \<open>The threads of the VMM\<close>

text \<open>
  \<^verbatim>\<open>for (...) { if (f(x) < 0) return -1; } return 0;\<close> over the elements of a list, in
  order.
\<close>

fun for_each :: "('a \<Rightarrow> (error + unit) \<times> event list) \<Rightarrow> 'a list \<Rightarrow> (error + unit) \<times> event list" where
  "for_each f [] = (Inr (), [])"
| "for_each f (x # xs) =
     (case f x of
        (Inl e, tr) \<Rightarrow> (Inl e, tr)
      | (Inr u, tr) \<Rightarrow> (case for_each f xs of (r, tr') \<Rightarrow> (r, tr @ tr')))"

definition virCHProcessSetupIOThread :: "host \<Rightarrow> virDomainObj \<Rightarrow> int \<Rightarrow> (error + unit) \<times> event list" where
  "virCHProcessSetupIOThread h vm iothread_id =
     virCHProcessSetupPid h vm iothread_id VIR_CGROUP_THREAD_IOTHREAD iothread_id
       (autoCpuset vm)
       (iothread_period (cputune (def vm)))
       (iothread_quota (cputune (def vm)))
       None"

definition virCHProcessSetupIOThreads :: "host \<Rightarrow> virDomainObj \<Rightarrow> (error + unit) \<times> event list" where
  "virCHProcessSetupIOThreads h vm =
    (case virCHMonitorGetIOThreads h of
       None \<Rightarrow> (Inl (Failed ''virCHMonitorGetIOThreads''), [E_MonitorGetIOThreads])
     | Some iothreads \<Rightarrow>
         (case for_each (virCHProcessSetupIOThread h vm) iothreads of
            (r, tr) \<Rightarrow> (r, E_MonitorGetIOThreads # tr)))"

definition virCHProcessSetupEmulatorThread :: "host \<Rightarrow> virDomainObj \<Rightarrow> virCHMonitorThreadInfo \<Rightarrow>
    (error + unit) \<times> event list" where
  "virCHProcessSetupEmulatorThread h vm emuthread =
     virCHProcessSetupPid h vm (emu_tid emuthread) VIR_CGROUP_THREAD_EMULATOR 0
       (emulatorpin (cputune (def vm)))
       (emulator_period (cputune (def vm)))
       (emulator_quota (cputune (def vm)))
       (emulatorsched (cputune (def vm)))"

text \<open>
  The loop over \<^verbatim>\<open>priv->monitor->threads\<close>; \<open>mon\<close> is the monitor \<^verbatim>\<open>priv->monitor\<close> points
  to.
\<close>

definition virCHProcessSetupEmulatorThreads :: "host \<Rightarrow> virDomainObj \<Rightarrow> virCHMonitor \<Rightarrow>
    (error + unit) \<times> event list" where
  "virCHProcessSetupEmulatorThreads h vm mon =
     for_each
       (\<lambda>thd. if thr_type thd = virCHThreadTypeEmulator
              then virCHProcessSetupEmulatorThread h vm thd
              else (Inr (), []))
       (threads mon)"

text \<open>
  \<^verbatim>\<open>vcpuid\<close> is below \<^verbatim>\<open>maxvcpus\<close> wherever this file calls the function (the loop of
  virCHProcessSetupVcpus).
\<close>

definition virCHProcessSetupVcpu :: "host \<Rightarrow> virDomainObj \<Rightarrow> nat \<Rightarrow> (error + unit) \<times> event list" where
  "virCHProcessSetupVcpu h vm vcpuid =
    (let vcpupid = virCHDomainGetVcpuPid h vcpuid;
         vcpu = vcpus (def vm) ! vcpuid
     in virCHProcessSetupPid h vm vcpupid VIR_CGROUP_THREAD_VCPU (int vcpuid)
          (vcpu_cpumask vcpu)
          (period (cputune (def vm)))
          (quota (cputune (def vm)))
          (Some (sched vcpu)))"

text \<open>
  Modelled from the spec: \<^verbatim>\<open>virBitmapEqual\<close> is not in this file. A mask is "an opaque set
  of CPU indices"; two masks are equal when both are absent or both are the same set.
\<close>

definition virBitmapEqual :: "virBitmap option \<Rightarrow> virBitmap option \<Rightarrow> bool" where
  "virBitmapEqual b1 b2 = (b1 = b2)"

definition virCHProcessSetupVcpus :: "host \<Rightarrow> virDomainObj \<Rightarrow> (error + unit) \<times> event list" where
  "virCHProcessSetupVcpus h vm =
    (let maxvcpus = length (vcpus (def vm))
     in if (period (cputune (def vm)) \<noteq> 0 \<or> quota (cputune (def vm)) \<noteq> 0) \<and>
           \<not> virCgroupHasController h (cgroup vm) VIR_CGROUP_CONTROLLER_CPU
        then (Inl (Reported VIR_ERR_CONFIG_UNSUPPORTED ''cgroup cpu is required for scheduler tuning''), [])
        else if \<not> virCHDomainHasVcpuPids h
        then
          for_each
            (\<lambda>i. let vcpu = vcpus (def vm) ! i
                 in if \<not> online vcpu then (Inr (), [])
                    else if vcpu_cpumask vcpu \<noteq> None \<and>
                            \<not> virBitmapEqual (cpumask (def vm)) (vcpu_cpumask vcpu)
                    then (Inl (Reported VIR_ERR_OPERATION_INVALID ''cpu affinity is not supported''), [])
                    else (Inr (), []))
            [0 ..< maxvcpus]
        else
          for_each
            (\<lambda>i. let vcpu = vcpus (def vm) ! i
                 in if \<not> online vcpu then (Inr (), [])
                    else virCHProcessSetupVcpu h vm i)
            [0 ..< maxvcpus])"

subsection \<open>virCHProcessUpdateInfo\<close>

text \<open>
  Modelled from the spec: the JSON accessors are not in this file. The info query
  returns "a JSON-like document": a member of an object is looked up by its key
  (\<^verbatim>\<open>NULL\<close> when the value is not an object or has no such member), and a string value
  gives its text (\<^verbatim>\<open>NULL\<close> for any other value).
\<close>

definition virJSONValueObjectGet :: "virJSONValue \<Rightarrow> string \<Rightarrow> virJSONValue option" where
  "virJSONValueObjectGet object key =
    (case object of JSON_Object members \<Rightarrow> map_of members key | _ \<Rightarrow> None)"

definition virJSONValueGetString :: "virJSONValue \<Rightarrow> string option" where
  "virJSONValueGetString v = (case v of JSON_String s \<Rightarrow> Some s | _ \<Rightarrow> None)"

text \<open>
  \<^verbatim>\<open>chr->source->data.file.path = g_strdup(path)\<close> on the first device of a list (the
  caller has checked that there is one).
\<close>

definition set_first_path :: "string \<Rightarrow> virDomainChrDef list \<Rightarrow> virDomainChrDef list" where
  "set_first_path path chrs =
    (case chrs of [] \<Rightarrow> [] | chr # rest \<Rightarrow> chr\<lparr>source_path := Some path\<rparr> # rest)"

text \<open>
  The function returns nothing; where it reports an error it leaves the domain as it
  is. \<open>config\<close> is \<open>None\<close> for \<^verbatim>\<open>NULL\<close>.
\<close>

definition virCHProcessUpdateConsoleDevice :: "virDomainObj \<Rightarrow> virJSONValue option \<Rightarrow> string \<Rightarrow> virDomainObj" where
  "virCHProcessUpdateConsoleDevice vm config device =
    (case config of
       None \<Rightarrow> vm
     | Some cfg \<Rightarrow>
         if device = ''serial'' \<and>
            (case serials (def vm) of [] \<Rightarrow> False | s # _ \<Rightarrow> source_type s = VIR_DOMAIN_CHR_TYPE_UNIX)
         then vm
         else
           (case virJSONValueObjectGet cfg device of
              None \<Rightarrow> vm
            | Some dev \<Rightarrow>
                (case virJSONValueObjectGet dev ''file'' of
                   None \<Rightarrow> vm
                 | Some file \<Rightarrow>
                     (case virJSONValueGetString file of
                        None \<Rightarrow> vm
                      | Some path \<Rightarrow>
                          if device = ''console''
                          then vm\<lparr>def := (def vm)\<lparr>consoles := set_first_path path (consoles (def vm))\<rparr>\<rparr>
                          else if device = ''serial''
                          then vm\<lparr>def := (def vm)\<lparr>serials := set_first_path path (serials (def vm))\<rparr>\<rparr>
                          else vm))))"

definition virCHProcessUpdateConsole :: "virDomainObj \<Rightarrow> virJSONValue \<Rightarrow> virDomainObj" where
  "virCHProcessUpdateConsole vm info =
    (case virJSONValueObjectGet info ''config'' of
       None \<Rightarrow> vm
     | Some config \<Rightarrow>
         (let vm1 = (if length (consoles (def vm)) > 0
                     then virCHProcessUpdateConsoleDevice vm (Some config) ''console''
                     else vm)
          in if length (serials (def vm1)) > 0
             then virCHProcessUpdateConsoleDevice vm1 (Some config) ''serial''
             else vm1))"

definition virCHProcessUpdateInfo :: "host \<Rightarrow> virDomainObj \<Rightarrow> int \<times> virDomainObj \<times> event list" where
  "virCHProcessUpdateInfo h vm =
    (case virCHMonitorGetInfo h of (rc, info) \<Rightarrow>
      if rc < 0 then (- 1, vm, [E_MonitorGetInfo])
      else (0, virCHProcessUpdateConsole vm info, [E_MonitorGetInfo]))"

subsection \<open>virCHProcessInitCpuAffinity\<close>

text \<open>
  The function has two bodies; the build (\<^verbatim>\<open>WITH_SCHED_GETAFFINITY\<close> or
  \<^verbatim>\<open>WITH_BSD_CPU_AFFINITY\<close>) chooses. The second returns 0.
\<close>

definition virCHProcessInitCpuAffinity :: "host \<Rightarrow> virDomainObj \<Rightarrow> (error + unit) \<times> event list" where
  "virCHProcessInitCpuAffinity h vm =
    (if \<not> WITH_SCHED_GETAFFINITY h then (Inr (), [])
     else if pid vm = 0
     then (Inl (Reported VIR_ERR_INTERNAL_ERROR ''Cannot setup CPU affinity until process is started''), [])
     else
       (case (if virDomainNumaGetNodeCount h \<le> 1 \<and>
                 fst (virDomainNumatuneGetMode h) = 0 \<and>
                 snd (virDomainNumatuneGetMode h) = VIR_DOMAIN_NUMATUNE_MEM_STRICT
              then (case virDomainNumatuneMaybeGetNodeset h (autoNodeset vm) of (rc, nodeset) \<Rightarrow>
                     if rc < 0 then Inl (Failed ''virDomainNumatuneMaybeGetNodeset'')
                     else (case virNumaNodesetToCPUset h nodeset of (rc2, cpuset) \<Rightarrow>
                            if rc2 < 0 then Inl (Failed ''virNumaNodesetToCPUset'') else Inr cpuset))
              else (case emulatorpin (cputune (def vm)) of
                      Some pin \<Rightarrow>
                        (case virBitmapNewCopy h pin of
                           None \<Rightarrow> Inl (Failed ''virBitmapNewCopy'')
                         | Some c \<Rightarrow> Inr (Some c))
                    | None \<Rightarrow>
                        (case virCHProcessGetAllCpuAffinity h of (rc, m) \<Rightarrow>
                          if rc < 0 then Inl (Failed ''virCHProcessGetAllCpuAffinity'') else Inr m))) of
          Inl e \<Rightarrow> (Inl e, [])
        | Inr cpumapToSet \<Rightarrow>
            (case cpumapToSet of
               None \<Rightarrow> (Inr (), [])
             | Some m \<Rightarrow>
                 if virProcessSetAffinity h (pid vm) m < 0
                 then (Inl (Failed ''virProcessSetAffinity''), [E_SetAffinity (pid vm) m])
                 else (Inr (), [E_SetAffinity (pid vm) m]))))"

subsection \<open>virCHProcessStartValidate\<close>

definition virCHProcessStartValidate :: "host \<Rightarrow> virCHDriver \<Rightarrow> virDomainObj \<Rightarrow> error + unit" where
  "virCHProcessStartValidate h driver vm =
    (if virtType (def vm) = VIR_DOMAIN_VIRT_KVM then
       (if \<not> virCapabilitiesDomainSupported h VIR_DOMAIN_VIRT_KVM
        then Inl (Reported VIR_ERR_CONFIG_UNSUPPORTED ''Domain requires KVM, but it is not available'')
        else Inr ())
     else if virtType (def vm) = VIR_DOMAIN_VIRT_HYPERV then
       (if \<not> virCapabilitiesDomainSupported h VIR_DOMAIN_VIRT_HYPERV
        then Inl (Reported VIR_ERR_CONFIG_UNSUPPORTED ''Domain requires MSHV device, but it is not available'')
        else Inr ())
     else Inl (Reported VIR_ERR_CONFIG_UNSUPPORTED ''virt type is not supported''))"

subsection \<open>virCHProcessStop\<close>

text \<open>
  Modelled from the spec: \<^verbatim>\<open>virDomainObjSetState\<close> is not in this file. It "marks domain
  state" with the state and the reason given.
\<close>

definition virDomainObjSetState :: "virDomainObj \<Rightarrow> virDomainStateReason \<Rightarrow> virDomainObj" where
  "virDomainObjSetState vm st = vm\<lparr>state := st\<rparr>"

text \<open>
  The label \<^verbatim>\<open>retry\<close>, entered with \<^verbatim>\<open>retries\<close> retries made so far. The host's answer to
  \<^verbatim>\<open>virDomainCgroupRemoveCgroup\<close> is taken by the number of the attempt.
  \<^verbatim>\<open>g_usleep(200*1000)\<close> sleeps 200000 microseconds.
\<close>

function cgroup_remove_retry :: "host \<Rightarrow> virCgroup option \<Rightarrow> string option \<Rightarrow> nat \<Rightarrow> event list" where
  "cgroup_remove_retry h cg mn retries =
    (let ret = virDomainCgroupRemoveCgroup h retries
     in E_CgroupRemoveCgroup cg mn #
        (if ret < 0
         then (if ret = - errno_EBUSY h \<and> retries < 5
               then E_usleep (200 * 1000) # cgroup_remove_retry h cg mn (Suc retries)
               else [E_WARN_Failed_to_remove_cgroup])
         else []))"
  by pat_completeness auto
termination
  by (relation "measure (\<lambda>(h, cg, mn, retries). 5 - retries)") auto

definition virCHProcessStop :: "host \<Rightarrow> virCHDriver \<Rightarrow> virDomainObj \<Rightarrow> virDomainShutoffReason \<Rightarrow>
    int \<times> virDomainObj \<times> event list" where
  "virCHProcessStop h driver vm reason =
    (let tr_debug = [E_DEBUG_Stopping_VM (pid vm) reason];
         tr_mon = (case monitor vm of None \<Rightarrow> [] | Some mon \<Rightarrow> [E_MonitorClose]);
         vm1 = vm\<lparr>monitor := None\<rparr>;
         tr_net = E_InterfaceStopDevices # map E_InterfaceDeleteDevice (nets (def vm1));
         tr_cg = cgroup_remove_retry h (cgroup vm1) (machineName vm1) 0;
         vm2 = vm1\<lparr>pid := 0, def := (def vm1)\<lparr>def_id := - 1\<rparr>, machineName := None\<rparr>
     in (0, virDomainObjSetState vm2 (VIR_DOMAIN_SHUTOFF reason), tr_debug @ tr_mon @ tr_net @ tr_cg))"

subsection \<open>virCHProcessStart\<close>

text \<open>
  The label \<^verbatim>\<open>cleanup\<close>, reached by \<^verbatim>\<open>goto\<close> with \<^verbatim>\<open>ret\<close> still -1:
  \<^verbatim>\<open>if (ret) virCHProcessStop(driver, vm, VIR_DOMAIN_SHUTOFF_FAILED); return ret;\<close>
  \<open>e\<close> is the error reported before the jump and \<open>tr\<close> the events so far.
\<close>

definition start_cleanup :: "host \<Rightarrow> virCHDriver \<Rightarrow> virDomainObj \<Rightarrow> error \<Rightarrow> event list \<Rightarrow>
    (error + unit) \<times> virDomainObj \<times> event list" where
  "start_cleanup h driver vm e tr =
    (case virCHProcessStop h driver vm VIR_DOMAIN_SHUTOFF_FAILED of
       (rc, vm', tr_stop) \<Rightarrow> (Inl e, vm', tr @ tr_stop))"

text \<open>
  Lines 767 to 789, after the boot: the threads are placed, the info is updated (its
  return value is not looked at) and the state is set. \<open>mon\<close> is the monitor
  \<^verbatim>\<open>priv->monitor\<close> points to.
\<close>

definition start_place_threads :: "host \<Rightarrow> virCHDriver \<Rightarrow> virDomainObj \<Rightarrow> virCHMonitor \<Rightarrow>
    virDomainRunningReason \<Rightarrow> event list \<Rightarrow> (error + unit) \<times> virDomainObj \<times> event list" where
  "start_place_threads h driver vm0 mon0 reason tr0 =
    (let mon = mon0\<lparr>threads := virCHDomainRefreshThreadInfo h\<rparr>;
         vm = vm0\<lparr>monitor := Some mon\<rparr>;
         tr1 = tr0 @ [E_RefreshThreadInfo]
     in case virCHProcessSetupEmulatorThreads h vm mon of
          (Inl e, tr_emu) \<Rightarrow> start_cleanup h driver vm e (tr1 @ tr_emu)
        | (Inr u, tr_emu) \<Rightarrow>
            (case virCHProcessSetupIOThreads h vm of
               (Inl e, tr_io) \<Rightarrow> start_cleanup h driver vm e (tr1 @ tr_emu @ tr_io)
             | (Inr u, tr_io) \<Rightarrow>
                 if virDomainCgroupSetupGlobalCpuCgroup h < 0
                 then start_cleanup h driver vm (Failed ''virDomainCgroupSetupGlobalCpuCgroup'')
                        (tr1 @ tr_emu @ tr_io @ [E_SetupGlobalCpuCgroup])
                 else
                   (case virCHProcessSetupVcpus h vm of
                      (Inl e, tr_vcpu) \<Rightarrow>
                        start_cleanup h driver vm e (tr1 @ tr_emu @ tr_io @ [E_SetupGlobalCpuCgroup] @ tr_vcpu)
                    | (Inr u, tr_vcpu) \<Rightarrow>
                        (case virCHProcessUpdateInfo h vm of (rc_info, vm', tr_info) \<Rightarrow>
                          (Inr (), virDomainObjSetState vm' (VIR_DOMAIN_RUNNING reason),
                           tr1 @ tr_emu @ tr_io @ [E_SetupGlobalCpuCgroup] @ tr_vcpu @ tr_info)))))"

text \<open>
  Lines 734 to 765, with a monitor at hand: the process id is taken from it, the network
  devices are added, the cgroup is made, the affinity is set, the host side of the
  interfaces is brought up and the guest is booted.
\<close>

definition start_with_monitor :: "host \<Rightarrow> virCHDriver \<Rightarrow> virDomainObj \<Rightarrow> virCHMonitor \<Rightarrow>
    virDomainRunningReason \<Rightarrow> event list \<Rightarrow> ((error + unit) \<times> virDomainObj \<times> event list) option" where
  "start_with_monitor h driver vm0 mon reason tr0 =
    (let vm1 = vm0\<lparr>pid := mon_pid mon,
                   def := (def vm0)\<lparr>def_id := mon_pid mon\<rparr>,
                   machineName := virCHDomainGetMachineName h\<rparr>
     in case chProcessAddNetworkDevices h driver mon (def vm1) of
          None \<Rightarrow> None
        | Some (Inl e, def2, tr_net) \<Rightarrow>
            Some (start_cleanup h driver (vm1\<lparr>def := def2\<rparr>)
                    (Reported VIR_ERR_INTERNAL_ERROR ''Failed while adding guest interfaces'') (tr0 @ tr_net))
        | Some (Inr nicindexes, def2, tr_net) \<Rightarrow>
            (case virDomainCgroupSetupCgroup h nicindexes of (rc_cg, cg) \<Rightarrow>
              let vm2 = vm1\<lparr>def := def2, cgroup := cg\<rparr>;
                  tr2 = tr0 @ tr_net @ [E_SetupCgroup nicindexes]
              in if rc_cg < 0
                 then Some (start_cleanup h driver vm2 (Failed ''virDomainCgroupSetupCgroup'') tr2)
                 else
                   (case virCHProcessInitCpuAffinity h vm2 of
                      (Inl e, tr_aff) \<Rightarrow> Some (start_cleanup h driver vm2 e (tr2 @ tr_aff))
                    | (Inr u, tr_aff) \<Rightarrow>
                        if virDomainInterfaceStartDevices h < 0
                        then Some (Inl (Failed ''virDomainInterfaceStartDevices''), vm2,
                                   tr2 @ tr_aff @ [E_InterfaceStartDevices])
                        else if virCHMonitorBootVM h < 0
                        then Some (start_cleanup h driver vm2
                                     (Reported VIR_ERR_INTERNAL_ERROR ''failed to boot guest VM'')
                                     (tr2 @ tr_aff @ [E_InterfaceStartDevices, E_MonitorBootVM]))
                        else Some (start_place_threads h driver vm2 mon reason
                                     (tr2 @ tr_aff @ [E_InterfaceStartDevices, E_MonitorBootVM])))))"

definition virCHProcessStart :: "host \<Rightarrow> virCHDriver \<Rightarrow> virDomainObj \<Rightarrow> virDomainRunningReason \<Rightarrow>
    ((error + unit) \<times> virDomainObj \<times> event list) option" where
  "virCHProcessStart h driver vm reason =
    (if virDomainObjIsActive h vm
     then Some (Inl (Reported VIR_ERR_OPERATION_INVALID ''VM is already active''), vm, [])
     else
       (case virCHProcessStartValidate h driver vm of
          Inl e \<Rightarrow> Some (Inl e, vm, [])
        | Inr u \<Rightarrow>
            (case monitor vm of
               Some mon \<Rightarrow> start_with_monitor h driver vm mon reason []
             | None \<Rightarrow>
                 (case virCHMonitorNew h of
                    None \<Rightarrow>
                      Some (start_cleanup h driver vm
                              (Reported VIR_ERR_INTERNAL_ERROR ''failed to create connection to CH socket'')
                              [E_MonitorNew])
                  | Some mon \<Rightarrow>
                      if virCHMonitorCreateVM h < 0
                      then Some (start_cleanup h driver (vm\<lparr>monitor := Some mon\<rparr>)
                                   (Reported VIR_ERR_INTERNAL_ERROR ''failed to create guest VM'')
                                   [E_MonitorNew, E_MonitorCreateVM])
                      else start_with_monitor h driver (vm\<lparr>monitor := Some mon\<rparr>) mon reason
                             [E_MonitorNew, E_MonitorCreateVM]))))"

subsection \<open>Reading results and events\<close>

text \<open>
  The status code read from the response to the request for interface \<open>i\<close>: \<open>None\<close>
  when chSocketRecv gives no response or \<^verbatim>\<open>sscanf\<close> reads no code from it.
\<close>

definition response_status :: "host \<Rightarrow> int \<Rightarrow> nat \<Rightarrow> int option" where
  "response_status h sock i =
    (case chSocketRecv h sock (sock_answers h i) of
       Some (Inr response, tr) \<Rightarrow> sscanf_http_status h (c_str response)
     | _ \<Rightarrow> None)"

text \<open>The masks written to a cpuset cgroup, and the affinity calls, of a list of events.\<close>

definition cpuset_calls :: "event list \<Rightarrow> virBitmap list" where
  "cpuset_calls tr = concat (map (\<lambda>e. case e of E_SetupCpusetCpus cg m \<Rightarrow> [m] | _ \<Rightarrow> []) tr)"

definition affinity_calls :: "event list \<Rightarrow> (int \<times> virBitmap) list" where
  "affinity_calls tr = concat (map (\<lambda>e. case e of E_SetAffinity p m \<Rightarrow> [(p, m)] | _ \<Rightarrow> []) tr)"

text \<open>
  The number of calls of \<^verbatim>\<open>virDomainCgroupRemoveCgroup\<close>, the sleeps in microseconds, and
  the reasons virCHProcessStop was entered with, of a list of events.
\<close>

definition remove_attempts :: "event list \<Rightarrow> nat" where
  "remove_attempts tr =
     length (filter (\<lambda>e. case e of E_CgroupRemoveCgroup cg mn \<Rightarrow> True | _ \<Rightarrow> False) tr)"

definition sleeps :: "event list \<Rightarrow> nat list" where
  "sleeps tr = concat (map (\<lambda>e. case e of E_usleep us \<Rightarrow> [us] | _ \<Rightarrow> []) tr)"

definition stop_calls :: "event list \<Rightarrow> virDomainShutoffReason list" where
  "stop_calls tr = concat (map (\<lambda>e. case e of E_DEBUG_Stopping_VM p r \<Rightarrow> [r] | _ \<Rightarrow> []) tr)"

text \<open>
  The mask of a placement as the specification resolves it, in priority order, first
  match wins: the mask given for the thread; in automatic placement mode the automatic
  mask; the mask of the whole domain; otherwise all online host CPUs.
\<close>

definition spec_resolved_cpumask :: "host \<Rightarrow> virDomainObj \<Rightarrow> virBitmap option \<Rightarrow> virBitmap option" where
  "spec_resolved_cpumask h vm cpumask_arg =
    (case cpumask_arg of
       Some m \<Rightarrow> Some m
     | None \<Rightarrow>
         if placement_mode (def vm) = VIR_DOMAIN_CPU_PLACEMENT_MODE_AUTO then autoCpuset vm
         else (case cpumask (def vm) of
                 Some m \<Rightarrow> Some m
               | None \<Rightarrow> virHostCPUGetOnlineBitmap h))"

subsection \<open>A host where every call succeeds, and a domain to start on it\<close>

definition mon_ok :: virCHMonitor where
  "mon_ok = \<lparr>mon_pid = 4242, socketpath = ''/run/ch.sock'', threads = []\<rparr>"

definition host_ok :: host where
  "host_ok = \<lparr>
     errno_EINTR = 4,
     scanf_int_out_of_range = (\<lambda>v. - 1),
     sys_socket = (3, 0),
     virStrcpyStatic_sun_path = (\<lambda>path. if length path < 108 then 0 else - 1),
     sys_connect = (\<lambda>fd path. (0, 0)),
     virCHDomainValidateActualNetDef = (\<lambda>i net. 0),
     virCHConnetNetworkInterfaces = (\<lambda>i net. (0, [7, 8, 9, 10], [int i + 2])),
     virCHMonitorBuildNetJson = (\<lambda>i net. (0, ''{}'')),
     virSocketSendMsgWithFDs = (\<lambda>i fd msg fds. (int (length msg), 0)),
     sock_answers = (\<lambda>i. \<lparr>polls = [(1, 0)], recvs = [Recv_data ''HTTP/1.1 204 No Content'']\<rparr>),
     virCgroupHasController = (\<lambda>cg c. cg \<noteq> None),
     virHostCPUHasBitmap = True,
     virHostCPUGetOnlineBitmap = Some {0, 1, 2, 3},
     virDomainNumatuneGetMode = (- 1, VIR_DOMAIN_NUMATUNE_MEM_STRICT),
     virDomainNumatuneMaybeFormatNodeset = (\<lambda>nodeset. (0, None)),
     virCgroupNewThread = (\<lambda>cg nameval n. (0, Some ''thread'')),
     virCgroupAddThread = (\<lambda>cg p. 0),
     virDomainCgroupSetupCpusetCpus = (\<lambda>cg m. 0),
     virCgroupSetCpusetMems = (\<lambda>cg m. 0),
     virDomainCgroupSetupVcpuBW = (\<lambda>cg p q. 0),
     virProcessSetAffinity = (\<lambda>p m. 0),
     virProcessSetScheduler = (\<lambda>p pol pri. 0),
     virCHMonitorGetIOThreads = Some [],
     virCHDomainGetVcpuPid = (\<lambda>i. 0),
     virCHDomainHasVcpuPids = False,
     virCHMonitorGetInfo = (0, JSON_Object []),
     WITH_SCHED_GETAFFINITY = True,
     virDomainNumaGetNodeCount = 0,
     virDomainNumatuneMaybeGetNodeset = (\<lambda>nodeset. (0, None)),
     virNumaNodesetToCPUset = (\<lambda>nodeset. (0, None)),
     virBitmapNewCopy = (\<lambda>m. Some m),
     virDomainObjIsActive = (\<lambda>vm. def_id (def vm) \<noteq> - 1),
     virCapabilitiesDomainSupported = (\<lambda>t. True),
     virCHMonitorNew = Some mon_ok,
     virCHMonitorCreateVM = 0,
     virCHDomainGetMachineName = Some ''ch-1-vm'',
     virDomainCgroupSetupCgroup = (\<lambda>nicindexes. (0, Some ''machine'')),
     virDomainInterfaceStartDevices = 0,
     virCHMonitorBootVM = 0,
     virCHDomainRefreshThreadInfo = [],
     virDomainCgroupSetupGlobalCpuCgroup = 0,
     errno_EBUSY = 16,
     virDomainCgroupRemoveCgroup = (\<lambda>attempt. 0)
   \<rparr>"

definition driver_ok :: virCHDriver where
  "driver_ok = \<lparr>chCaps = {CH_MULTIFD_IN_ADDNET}\<rparr>"

definition def_ok :: virDomainDef where
  "def_ok = \<lparr>
     def_id = - 1,
     virtType = VIR_DOMAIN_VIRT_KVM,
     nets = [],
     vcpus = [],
     cpumask = None,
     placement_mode = VIR_DOMAIN_CPU_PLACEMENT_MODE_STATIC,
     cputune = \<lparr>period = 0, quota = 0, emulator_period = 0, emulator_quota = 0,
                iothread_period = 0, iothread_quota = 0, emulatorpin = None, emulatorsched = None\<rparr>,
     consoles = [],
     serials = []
   \<rparr>"

definition vm_ok :: virDomainObj where
  "vm_ok = \<lparr>
     pid = 0,
     def = def_ok,
     state = VIR_DOMAIN_SHUTOFF (VIR_DOMAIN_SHUTOFF_OTHER 0),
     monitor = None,
     machineName = None,
     cgroup = None,
     autoCpuset = None,
     autoNodeset = None
   \<rparr>"

subsection \<open>Answers of the control socket\<close>

text \<open>The first \<^verbatim>\<open>poll\<close> is interrupted by a signal, the second finds the socket readable.\<close>

definition io_interrupted :: sock_io where
  "io_interrupted = \<lparr>polls = [(- 1, 4), (1, 0)], recvs = [Recv_data ''HTTP/1.1 204 No Content'']\<rparr>"

text \<open>The first \<^verbatim>\<open>poll\<close> is interrupted by a signal, the second times out.\<close>

definition io_timeout :: sock_io where
  "io_timeout = \<lparr>polls = [(- 1, 4), (0, 0)], recvs = [Recv_data ''HTTP/1.1 204 No Content'']\<rparr>"

text \<open>A response of 2015 bytes.\<close>

definition io_long :: sock_io where
  "io_long = \<lparr>polls = [(1, 0)], recvs = [Recv_data (''HTTP/1.1 200 OK'' @ replicate 2000 (CHR ''x''))]\<rparr>"

subsection \<open>Domains with network interfaces\<close>

definition def_two_nets :: virDomainDef where
  "def_two_nets = def_ok\<lparr>nets := [\<lparr>ifname = ''tap0'', queues = 2\<rparr>, \<lparr>ifname = ''tap1'', queues = 0\<rparr>]\<rparr>"

text \<open>The VMM answers the second request with status 500.\<close>

definition host_500 :: host where
  "host_500 = host_ok\<lparr>sock_answers :=
     (\<lambda>i. if i = 1
          then \<lparr>polls = [(1, 0)], recvs = [Recv_data ''HTTP/1.1 500 Internal Server Error'']\<rparr>
          else \<lparr>polls = [(1, 0)], recvs = [Recv_data ''HTTP/1.1 204 No Content'']\<rparr>)\<rparr>"

text \<open>The request body of the first interface cannot be built.\<close>

definition host_json_fails :: host where
  "host_json_fails = host_ok\<lparr>virCHMonitorBuildNetJson := (\<lambda>i net. (- 1, []))\<rparr>"

subsection \<open>A started domain\<close>

text \<open>The domain after its cgroup was made: both controllers are there on \<open>host_ok\<close>.\<close>

definition vm_cgroup :: virDomainObj where
  "vm_cgroup = vm_ok\<lparr>pid := 4242, monitor := Some mon_ok, cgroup := Some ''machine''\<rparr>"

subsection \<open>Hosts for the stop\<close>

text \<open>The removal of the cgroup always answers \<^verbatim>\<open>-EBUSY\<close>.\<close>

definition host_busy :: host where
  "host_busy = host_ok\<lparr>virDomainCgroupRemoveCgroup := (\<lambda>attempt. - 16)\<rparr>"

text \<open>A running domain with two interfaces, and the same domain after a stop.\<close>

definition vm_two_nets :: virDomainObj where
  "vm_two_nets = vm_cgroup\<lparr>def := def_two_nets\<lparr>def_id := 4242\<rparr>, machineName := Some ''ch-1-vm'',
                            state := VIR_DOMAIN_RUNNING 1\<rparr>"

definition vm_stopped :: virDomainObj where
  "vm_stopped = vm_ok\<lparr>def := def_two_nets, cgroup := Some ''machine'',
                       state := VIR_DOMAIN_SHUTOFF (VIR_DOMAIN_SHUTOFF_OTHER 1)\<rparr>"

subsection \<open>Domains with vCPUs\<close>

definition vcpu_plain :: virDomainVcpuDef where
  "vcpu_plain = \<lparr>online = True, vcpu_cpumask = None, sched = \<lparr>policy = 0, priority = 0\<rparr>\<rparr>"

text \<open>The second vCPU asks for the CPUs \<open>{1}\<close>; the domain has no mask of its own.\<close>

definition vm_pinned_vcpu :: virDomainObj where
  "vm_pinned_vcpu = vm_ok\<lparr>def := def_ok\<lparr>vcpus := [vcpu_plain, vcpu_plain\<lparr>vcpu_cpumask := Some {1}\<rparr>]\<rparr>\<rparr>"

text \<open>No vCPU asks for a mask; the domain has a period, and no cgroup.\<close>

definition vm_period :: virDomainObj where
  "vm_period = vm_ok\<lparr>def := def_ok\<lparr>vcpus := [vcpu_plain],
     cputune := (cputune def_ok)\<lparr>period := 100000\<rparr>\<rparr>\<rparr>"

subsection \<open>Hosts and domains for the start\<close>

text \<open>The boot command fails.\<close>

definition host_boot_fails :: host where
  "host_boot_fails = host_ok\<lparr>virCHMonitorBootVM := - 1\<rparr>"

text \<open>The host has no KVM.\<close>

definition host_no_kvm :: host where
  "host_no_kvm = host_ok\<lparr>virCapabilitiesDomainSupported := (\<lambda>t. False)\<rparr>"

text \<open>The info query fails.\<close>

definition host_info_fails :: host where
  "host_info_fails = host_ok\<lparr>virCHMonitorGetInfo := (- 1, JSON_Other)\<rparr>"

text \<open>A running domain.\<close>

definition vm_active :: virDomainObj where
  "vm_active = vm_cgroup\<lparr>def := def_ok\<lparr>def_id := 4242\<rparr>, state := VIR_DOMAIN_RUNNING 1\<rparr>"

text \<open>Bringing up the host side of the interfaces fails.\<close>

definition host_ifup_fails :: host where
  "host_ifup_fails = host_ok\<lparr>virDomainInterfaceStartDevices := - 1\<rparr>"

text \<open>The events of a start on \<open>host_ok\<close> up to bringing up the interfaces.\<close>

definition tr_until_ifup :: "event list" where
  "tr_until_ifup =
     [E_MonitorNew, E_MonitorCreateVM, E_socket 3, E_connect 3 ''/run/ch.sock'', E_close 3,
      E_SetupCgroup [], E_SetAffinity 4242 {0, 1, 2, 3}, E_InterfaceStartDevices]"

text \<open>The events of virCHProcessStop on \<open>host_ok\<close>, called by a failed start.\<close>

definition tr_stop_failed :: "event list" where
  "tr_stop_failed =
     [E_DEBUG_Stopping_VM 4242 VIR_DOMAIN_SHUTOFF_FAILED, E_MonitorClose, E_InterfaceStopDevices,
      E_CgroupRemoveCgroup (Some ''machine'') (Some ''ch-1-vm'')]"

section \<open>Properties\<close>

declare show_nat.simps [simp del]

subsection \<open>The receive loop\<close>

lemma poll_loop_interrupted:
  "list_all (\<lambda>(r, e). r < 0 \<and> e = errno_EINTR h) pre \<Longrightarrow>
   \<not> (ret < 0 \<and> errno = errno_EINTR h) \<Longrightarrow>
   poll_loop h sock (pre @ (ret, errno) # rest) =
     Some (ret, errno, replicate (Suc (length pre)) (E_poll sock 500))"
  by (induction pre) (auto simp: PKT_TIMEOUT_MS_def)

lemma recv_loop_data:
  "recv_loop h sock len rs = Some (ret, errno, bs', tr) \<Longrightarrow> 0 \<le> ret \<Longrightarrow>
   \<exists>k bs rest. rs = replicate k (Recv_error (errno_EINTR h)) @ Recv_data bs # rest \<and>
     bs' = take len bs \<and> tr = replicate (Suc k) (E_recv sock len)"
proof (induction rs arbitrary: tr)
  case Nil
  then show ?case by simp
next
  case (Cons r rs)
  show ?case
  proof (cases r)
    case (Recv_error e)
    with Cons.prems obtain tr' where e: "e = errno_EINTR h"
      and rec: "recv_loop h sock len rs = Some (ret, errno, bs', tr')"
      and tr: "tr = E_recv sock len # tr'"
      by (auto split: if_splits option.splits)
    from Cons.IH [OF rec Cons.prems(2)] obtain k bs rest where
      "rs = replicate k (Recv_error (errno_EINTR h)) @ Recv_data bs # rest"
      "bs' = take len bs" "tr' = replicate (Suc k) (E_recv sock len)"
      by blast
    with Recv_error e tr
    have "r # rs = replicate (Suc k) (Recv_error (errno_EINTR h)) @ Recv_data bs # rest \<and>
      bs' = take len bs \<and> tr = replicate (Suc (Suc k)) (E_recv sock len)"
      by simp
    then show ?thesis by blast
  next
    case (Recv_data bs)
    with Cons.prems
    have "r # rs = replicate 0 (Recv_error (errno_EINTR h)) @ Recv_data bs # rs \<and>
      bs' = take len bs \<and> tr = replicate (Suc 0) (E_recv sock len)"
      by auto
    then show ?thesis by blast
  qed
qed

lemma c_str_append_NUL: "c_str (bs @ replicate n NUL) = c_str bs"
  by (induction bs) (auto simp: c_str_def; cases n; simp)+

lemma length_c_str: "length (c_str bs) \<le> length bs"
  by (simp add: c_str_def length_takeWhile_le)

lemma sscanf_empty: "sscanf_http_status h [] = None"
  by (simp add: sscanf_http_status_def)

text \<open>
  C6, as the code has it. Every \<^verbatim>\<open>poll\<close> waits for readability for at most 500 ms.
  The \<^verbatim>\<open>poll\<close> is called again while it returns a negative value with errno
  \<^verbatim>\<open>EINTR\<close>, and only then. The first result that is not such an interruption decides:
  when it is 0 (the timeout) or negative, chSocketRecv reports a system error and
  returns \<^verbatim>\<open>NULL\<close>; no data reaches the caller, \<^verbatim>\<open>recv\<close> is not called, \<^verbatim>\<open>poll\<close> is
  not called again.
\<close>

theorem chSocketRecv_poll_failure:
  assumes "polls io = pre @ (ret, errno) # rest"
      and "list_all (\<lambda>(r, e). r < 0 \<and> e = errno_EINTR h) pre"
      and "\<not> (ret < 0 \<and> errno = errno_EINTR h)"
      and "ret \<le> 0"
  shows "chSocketRecv h sock io =
           Some (Inl (ReportedSystem errno
                       (if ret < 0 then ''Poll on sock failed'' else ''Poll on sock timed out'')),
                 replicate (Suc (length pre)) (E_poll sock 500))"
  using assms by (simp add: chSocketRecv_def poll_loop_interrupted)

text \<open>
  C6, witness: one interruption, then the timeout. Two calls of \<^verbatim>\<open>poll\<close>, no \<^verbatim>\<open>recv\<close>,
  the result is \<^verbatim>\<open>NULL\<close>.
\<close>

theorem chSocketRecv_poll_failure_witness:
  "polls io_timeout = [(- 1, 4)] @ (0, 0) # [] \<and>
   list_all (\<lambda>(r, e). r < 0 \<and> e = errno_EINTR host_ok) [(- 1 :: int, 4)] \<and>
   chSocketRecv host_ok 3 io_timeout =
     Some (Inl (ReportedSystem 0 ''Poll on sock timed out''), [E_poll 3 500, E_poll 3 500])"
  using chSocketRecv_poll_failure [of io_timeout "[(- 1, 4)]" 0 0 "[]" host_ok 3]
  by (simp add: io_timeout_def host_ok_def)

text \<open>
  C6, counterexample to "a negative poll result is a hard failure, with no retry of the
  poll": the first \<^verbatim>\<open>poll\<close> returns -1 with errno \<^verbatim>\<open>EINTR\<close> (4 on this host); \<^verbatim>\<open>poll\<close> is
  called a second time, and the response is returned to the caller.
\<close>

theorem chSocketRecv_poll_retried_counterexample:
  "polls io_interrupted = [(- 1, 4), (1, 0)] \<and>
   chSocketRecv host_ok 3 io_interrupted =
     Some (Inr (''HTTP/1.1 204 No Content'' @ replicate 1001 NUL),
           [E_poll 3 500, E_poll 3 500, E_recv 3 1023])"
  by (simp add: chSocketRecv_def io_interrupted_def host_ok_def PKT_TIMEOUT_MS_def)

text \<open>
  C9. Wherever chSocketRecv returns a buffer, exactly one \<^verbatim>\<open>recv\<close> succeeded, the last
  one (the calls before it were interrupted), each asked for 1023 bytes; the buffer of
  1024 bytes holds the first 1023 bytes of what the kernel had, followed by NUL bytes,
  so that the string the caller reads has at most 1023 bytes: a longer response is cut
  there, with no error. When the socket is readable and the first \<^verbatim>\<open>recv\<close> delivers
  \<open>bs\<close>, the buffer is returned after that one call, also when \<open>bs\<close> is empty: the
  result is then the empty string, not \<^verbatim>\<open>NULL\<close>, and no status code can be read from
  it.
\<close>

theorem chSocketRecv_one_recv:
  "(chSocketRecv h sock io = Some (Inr buf, tr) \<longrightarrow>
      (\<exists>k bs rest tr_poll.
         recvs io = replicate k (Recv_error (errno_EINTR h)) @ Recv_data bs # rest \<and>
         tr = tr_poll @ replicate (Suc k) (E_recv sock 1023) \<and>
         buf = take 1023 bs @ replicate (1024 - length (take 1023 bs)) NUL \<and>
         c_str buf = c_str (take 1023 bs) \<and>
         length (c_str buf) \<le> 1023)) \<and>
   (poll_loop h sock (polls io) = Some (ret, errno, tr_poll) \<and> 0 < ret \<and>
    recvs io = Recv_data bs # rest \<longrightarrow>
      chSocketRecv h sock io =
        Some (Inr (take 1023 bs @ replicate (1024 - length (take 1023 bs)) NUL),
              tr_poll @ [E_recv sock 1023])) \<and>
   sscanf_http_status h
     (c_str (take 1023 [] @ replicate (1024 - length (take 1023 ([] :: string))) NUL)) = None"
proof (intro conjI impI)
  assume a: "chSocketRecv h sock io = Some (Inr buf, tr)"
  then obtain ret1 e1 tr1 where p: "poll_loop h sock (polls io) = Some (ret1, e1, tr1)"
    and pos: "0 < ret1"
    by (auto simp: chSocketRecv_def split: option.splits if_splits)
  with a obtain ret2 e2 bs' tr2 where
    r: "recv_loop h sock 1023 (recvs io) = Some (ret2, e2, bs', tr2)"
    and nonneg: "0 \<le> ret2"
    and buf: "buf = bs' @ drop (length bs') (replicate 1024 NUL)"
    and tr: "tr = tr1 @ tr2"
    by (auto simp: chSocketRecv_def split: option.splits if_splits)
  from recv_loop_data [OF r nonneg] obtain k bs rest where
    rs: "recvs io = replicate k (Recv_error (errno_EINTR h)) @ Recv_data bs # rest"
    and bs': "bs' = take 1023 bs" and tr2: "tr2 = replicate (Suc k) (E_recv sock 1023)"
    by blast
  have buf': "buf = take 1023 bs @ replicate (1024 - length (take 1023 bs)) NUL"
    using buf bs' by simp
  have c: "c_str buf = c_str (take 1023 bs)"
    unfolding buf' by (rule c_str_append_NUL)
  have "length (c_str (take 1023 bs)) \<le> length (take 1023 bs)"
    by (rule length_c_str)
  then have l: "length (c_str buf) \<le> 1023"
    using c by simp
  from rs tr tr2 buf' c l
  show "\<exists>k bs rest tr_poll.
         recvs io = replicate k (Recv_error (errno_EINTR h)) @ Recv_data bs # rest \<and>
         tr = tr_poll @ replicate (Suc k) (E_recv sock 1023) \<and>
         buf = take 1023 bs @ replicate (1024 - length (take 1023 bs)) NUL \<and>
         c_str buf = c_str (take 1023 bs) \<and>
         length (c_str buf) \<le> 1023"
    by blast
next
  assume "poll_loop h sock (polls io) = Some (ret, errno, tr_poll) \<and> 0 < ret \<and>
    recvs io = Recv_data bs # rest"
  then show "chSocketRecv h sock io =
        Some (Inr (take 1023 bs @ replicate (1024 - length (take 1023 bs)) NUL),
              tr_poll @ [E_recv sock 1023])"
    by (simp add: chSocketRecv_def)
next
  show "sscanf_http_status h
     (c_str (take 1023 [] @ replicate (1024 - length (take 1023 ([] :: string))) NUL)) = None"
    by (simp add: c_str_def sscanf_empty)
qed

text \<open>
  C9, witness: of a response of 2015 bytes the caller gets the first 1023, after one
  \<^verbatim>\<open>recv\<close>.
\<close>

theorem chSocketRecv_one_recv_witness:
  "chSocketRecv host_ok 3 io_long =
     Some (Inr (''HTTP/1.1 200 OK'' @ replicate 1008 (CHR ''x'') @ [NUL]),
           [E_poll 3 500, E_recv 3 1023])"
  using chSocketRecv_one_recv [of host_ok 3 io_long _ _ 1 0 "[E_poll 3 500]"
      "''HTTP/1.1 200 OK'' @ replicate 2000 (CHR ''x'')" "[]"]
  by (simp add: io_long_def host_ok_def PKT_TIMEOUT_MS_def)

subsection \<open>Adding the network devices\<close>

lemma add_net_Inr:
  "add_net h s i net nic = Some (Inr nic', net', tr) \<Longrightarrow>
   response_status h s i = Some 200 \<or> response_status h s i = Some 204"
  by (auto simp: add_net_def response_status_def Let_def
           split: prod.splits if_splits option.splits sum.splits)

lemma add_nets_Inr:
  "add_nets h s i ns nic = Some (Inr nic', ns', tr) \<Longrightarrow> j < length ns \<Longrightarrow>
   response_status h s (i + j) = Some 200 \<or> response_status h s (i + j) = Some 204"
proof (induction ns arbitrary: i nic ns' tr j)
  case Nil
  then show ?case by simp
next
  case (Cons n ns)
  from Cons.prems(1) obtain nic1 n1 tr1 ns1 tr2 where
    one: "add_net h s i n nic = Some (Inr nic1, n1, tr1)"
    and rest: "add_nets h s (Suc i) ns nic1 = Some (Inr nic', ns1, tr2)"
    by (auto split: option.splits sum.splits prod.splits)
  show ?case
  proof (cases j)
    case 0
    with add_net_Inr [OF one] show ?thesis by simp
  next
    case (Suc j')
    with Cons.prems(2) have "j' < length ns" by simp
    from Cons.IH [OF rest this] Suc show ?thesis by simp
  qed
qed

lemmas eval_net = chProcessAddNetworkDevices_def add_net_def chSocketRecv_def sscanf_http_status_def
  scan_d_def isspace_def isdigit_def digit_val_def store_int_def c_str_def NUL_def PKT_TIMEOUT_MS_def
  close_tapfds_def http_headers_def response_status_def Let_def digit_char_def

lemma add_network_devices_status:
  assumes "chProcessAddNetworkDevices h driver mon vmdef = Some (r, vmdef', tr)"
  shows "((\<exists>nicindexes. r = Inr nicindexes) \<longrightarrow>
            (\<forall>i < length (nets vmdef).
               response_status h (fst (sys_socket h)) i = Some 200 \<or>
               response_status h (fst (sys_socket h)) i = Some 204)) \<and>
         ((\<exists>i < length (nets vmdef).
             response_status h (fst (sys_socket h)) i \<noteq> Some 200 \<and>
             response_status h (fst (sys_socket h)) i \<noteq> Some 204) \<longrightarrow>
            (\<exists>e. r = Inl e))"
proof -
  have ok: "\<forall>i < length (nets vmdef).
               response_status h (fst (sys_socket h)) i = Some 200 \<or>
               response_status h (fst (sys_socket h)) i = Some 204"
    if "r = Inr nicindexes" for nicindexes
  proof (intro allI impI)
    fix i assume i: "i < length (nets vmdef)"
    from assms that obtain nets' tr' where
      "add_nets h (fst (sys_socket h)) 0 (nets vmdef) [] = Some (Inr nicindexes, nets', tr')"
      by (auto simp: chProcessAddNetworkDevices_def split: if_splits prod.splits option.splits)
    from add_nets_Inr [OF this i]
    show "response_status h (fst (sys_socket h)) i = Some 200 \<or>
          response_status h (fst (sys_socket h)) i = Some 204"
      by simp
  qed
  show ?thesis
  proof (cases r)
    case (Inl e)
    then show ?thesis by simp
  next
    case (Inr nicindexes)
    with ok [OF Inr] show ?thesis by auto
  qed
qed

lemma poll_loop_returns:
  "\<exists>p \<in> set ps. \<not> (fst p < 0 \<and> snd p = errno_EINTR h) \<Longrightarrow> poll_loop h sock ps \<noteq> None"
proof (induction ps)
  case Nil
  then show ?case by simp
next
  case (Cons p ps)
  obtain r e where p: "p = (r, e)" by (cases p)
  show ?case
  proof (cases "r < 0 \<and> e = errno_EINTR h")
    case True
    with Cons.prems p have "\<exists>p \<in> set ps. \<not> (fst p < 0 \<and> snd p = errno_EINTR h)"
      by auto
    from Cons.IH [OF this] True p show ?thesis by auto
  next
    case False
    with p show ?thesis by auto
  qed
qed

lemma recv_loop_returns:
  "\<exists>r \<in> set rs. r \<noteq> Recv_error (errno_EINTR h) \<Longrightarrow> recv_loop h sock len rs \<noteq> None"
proof (induction rs)
  case Nil
  then show ?case by simp
next
  case (Cons r rs)
  show ?case
  proof (cases "r = Recv_error (errno_EINTR h)")
    case True
    with Cons.prems have "\<exists>r \<in> set rs. r \<noteq> Recv_error (errno_EINTR h)"
      by auto
    from Cons.IH [OF this] True show ?thesis by auto
  next
    case False
    then show ?thesis by (cases r) auto
  qed
qed

lemma chSocketRecv_returns:
  assumes "\<exists>p \<in> set (polls io). \<not> (fst p < 0 \<and> snd p = errno_EINTR h)"
      and "\<exists>r \<in> set (recvs io). r \<noteq> Recv_error (errno_EINTR h)"
  shows "chSocketRecv h sock io \<noteq> None"
  using poll_loop_returns [OF assms(1), of sock] recv_loop_returns [OF assms(2), of sock 1023]
  by (auto simp: chSocketRecv_def split: if_splits)

lemma add_net_returns:
  "chSocketRecv h s (sock_answers h i) \<noteq> None \<Longrightarrow> add_net h s i net nic \<noteq> None"
  by (auto simp: add_net_def Let_def split: prod.splits if_splits option.splits sum.splits)

lemma add_nets_returns:
  "(\<And>j. j < length ns \<Longrightarrow> chSocketRecv h s (sock_answers h (i + j)) \<noteq> None) \<Longrightarrow>
   add_nets h s i ns nic \<noteq> None"
proof (induction ns arbitrary: i nic)
  case Nil
  then show ?case by simp
next
  case (Cons n ns)
  from Cons.prems [of 0] have "add_net h s i n nic \<noteq> None"
    by (simp add: add_net_returns)
  then obtain r n1 tr1 where one: "add_net h s i n nic = Some (r, n1, tr1)"
    by auto
  have rest: "add_nets h s (Suc i) ns nic' \<noteq> None" for nic'
  proof (rule Cons.IH)
    fix j assume "j < length ns"
    with Cons.prems [of "Suc j"] show "chSocketRecv h s (sock_answers h (Suc i + j)) \<noteq> None"
      by simp
  qed
  show ?case
  proof (cases r)
    case (Inl e)
    with one show ?thesis by simp
  next
    case (Inr nic1)
    with one rest [of nic1] show ?thesis by auto
  qed
qed

lemma chProcessAddNetworkDevices_returns:
  assumes "\<forall>i < length (nets vmdef). chSocketRecv h (fst (sys_socket h)) (sock_answers h i) \<noteq> None"
  shows "chProcessAddNetworkDevices h driver mon vmdef \<noteq> None"
proof -
  have "add_nets h (fst (sys_socket h)) 0 (nets vmdef) [] \<noteq> None"
    by (rule add_nets_returns) (use assms in simp)
  then show ?thesis
    by (auto simp: chProcessAddNetworkDevices_def split: prod.splits)
qed


text \<open>
  C3. The call returns whenever, for every interface, the \<^verbatim>\<open>poll\<close> and the \<^verbatim>\<open>recv\<close> are
  not interrupted for ever. Whenever it returns, it returns success only if, for every
  interface of the domain, a response was received whose status line gave \<^verbatim>\<open>sscanf\<close> a
  code, and that code is 200 or 204. Hence one interface whose response carries any
  other code, or no code that can be read, makes the whole call return failure.
\<close>

theorem chProcessAddNetworkDevices_status:
  "((\<forall>i < length (nets vmdef).
       (\<exists>p \<in> set (polls (sock_answers h i)). \<not> (fst p < 0 \<and> snd p = errno_EINTR h)) \<and>
       (\<exists>r \<in> set (recvs (sock_answers h i)). r \<noteq> Recv_error (errno_EINTR h))) \<longrightarrow>
    (\<exists>res. chProcessAddNetworkDevices h driver mon vmdef = Some res)) \<and>
   (\<forall>r vmdef' tr.
      chProcessAddNetworkDevices h driver mon vmdef = Some (r, vmdef', tr) \<longrightarrow>
        ((\<exists>nicindexes. r = Inr nicindexes) \<longrightarrow>
           (\<forall>i < length (nets vmdef).
              response_status h (fst (sys_socket h)) i = Some 200 \<or>
              response_status h (fst (sys_socket h)) i = Some 204)) \<and>
        ((\<exists>i < length (nets vmdef).
            response_status h (fst (sys_socket h)) i \<noteq> Some 200 \<and>
            response_status h (fst (sys_socket h)) i \<noteq> Some 204) \<longrightarrow>
           (\<exists>e. r = Inl e)))"
proof (intro conjI impI allI)
  assume "\<forall>i < length (nets vmdef).
       (\<exists>p \<in> set (polls (sock_answers h i)). \<not> (fst p < 0 \<and> snd p = errno_EINTR h)) \<and>
       (\<exists>r \<in> set (recvs (sock_answers h i)). r \<noteq> Recv_error (errno_EINTR h))"
  then have "\<forall>i < length (nets vmdef).
      chSocketRecv h (fst (sys_socket h)) (sock_answers h i) \<noteq> None"
    by (simp add: chSocketRecv_returns)
  from chProcessAddNetworkDevices_returns [OF this]
  show "\<exists>res. chProcessAddNetworkDevices h driver mon vmdef = Some res"
    by auto
next
  fix r vmdef' tr i
  assume run: "chProcessAddNetworkDevices h driver mon vmdef = Some (r, vmdef', tr)"
    and "\<exists>nicindexes. r = Inr nicindexes" and "i < length (nets vmdef)"
  with add_network_devices_status [OF run]
  show "response_status h (fst (sys_socket h)) i = Some 200 \<or>
        response_status h (fst (sys_socket h)) i = Some 204"
    by blast
next
  fix r vmdef' tr
  assume run: "chProcessAddNetworkDevices h driver mon vmdef = Some (r, vmdef', tr)"
    and "\<exists>i < length (nets vmdef).
            response_status h (fst (sys_socket h)) i \<noteq> Some 200 \<and>
            response_status h (fst (sys_socket h)) i \<noteq> Some 204"
  with add_network_devices_status [OF run] show "\<exists>e. r = Inl e"
    by blast
qed

text \<open>
  C3, witness: two interfaces, both answered with 204, and the call succeeds; with 500
  for the second interface the call fails with "Unexpected response from CH".
\<close>

theorem chProcessAddNetworkDevices_status_witness:
  "chProcessAddNetworkDevices host_ok driver_ok mon_ok def_two_nets =
     Some (Inr [2, 3],
           def_ok\<lparr>nets := [\<lparr>ifname = ''tap0'', queues = 2\<rparr>, \<lparr>ifname = ''tap1'', queues = 1\<rparr>]\<rparr>,
           [E_socket 3, E_connect 3 ''/run/ch.sock'',
            E_ConnetNetworkInterfaces 0 [7, 8],
            E_SendMsgWithFDs 3
              (http_headers @ ''Content-Length: 2'' @ [CHR 0x0D, CHR 0x0A, CHR 0x0D, CHR 0x0A] @ ''{}'') [7, 8],
            E_close 7, E_close 8, E_poll 3 500, E_recv 3 1023,
            E_ConnetNetworkInterfaces 1 [7],
            E_SendMsgWithFDs 3
              (http_headers @ ''Content-Length: 2'' @ [CHR 0x0D, CHR 0x0A, CHR 0x0D, CHR 0x0A] @ ''{}'') [7],
            E_close 7, E_poll 3 500, E_recv 3 1023,
            E_close 3]) \<and>
   response_status host_ok 3 0 = Some 204 \<and>
   response_status host_ok 3 1 = Some 204 \<and>
   response_status host_500 3 1 = Some 500 \<and>
   chProcessAddNetworkDevices host_500 driver_ok mon_ok def_two_nets =
     Some (Inl (Reported VIR_ERR_INTERNAL_ERROR ''Unexpected response from CH''),
           def_ok\<lparr>nets := [\<lparr>ifname = ''tap0'', queues = 2\<rparr>, \<lparr>ifname = ''tap1'', queues = 1\<rparr>]\<rparr>,
           [E_socket 3, E_connect 3 ''/run/ch.sock'',
            E_ConnetNetworkInterfaces 0 [7, 8],
            E_SendMsgWithFDs 3
              (http_headers @ ''Content-Length: 2'' @ [CHR 0x0D, CHR 0x0A, CHR 0x0D, CHR 0x0A] @ ''{}'') [7, 8],
            E_close 7, E_close 8, E_poll 3 500, E_recv 3 1023,
            E_ConnetNetworkInterfaces 1 [7],
            E_SendMsgWithFDs 3
              (http_headers @ ''Content-Length: 2'' @ [CHR 0x0D, CHR 0x0A, CHR 0x0D, CHR 0x0A] @ ''{}'') [7],
            E_close 7, E_poll 3 500, E_recv 3 1023,
            E_close 3])"
  using chProcessAddNetworkDevices_status [where h = host_ok and driver = driver_ok and mon = mon_ok
          and vmdef = def_two_nets]
        chProcessAddNetworkDevices_status [where h = host_500 and driver = driver_ok and mon = mon_ok
          and vmdef = def_two_nets]
  by (simp add: eval_net host_ok_def host_500_def driver_ok_def mon_ok_def def_two_nets_def def_ok_def
        show_nat.simps)

text \<open>
  Where the request is sent: when the interface passes validation, its tap descriptors
  are connected and the request body is built, the message carries as many descriptors
  as the interface has queue pairs (one when none is configured), and the local copies
  are closed right after the send, whatever the send returns.
\<close>

lemma add_net_transfer:
  assumes "add_net h s i net nic = Some (r, net', tr)"
      and "0 \<le> virCHDomainValidateActualNetDef h i net'"
      and "0 \<le> fst (virCHConnetNetworkInterfaces h i net')"
      and "0 \<le> fst (virCHMonitorBuildNetJson h i net')"
  shows "queues net' = (if queues net = 0 then 1 else queues net) \<and>
         (\<exists>tapfds request rest.
            length tapfds = queues net' \<and>
            tr = [E_ConnetNetworkInterfaces i tapfds, E_SendMsgWithFDs s request tapfds] @
                 close_tapfds tapfds @ rest)"
proof -
  let ?net = "if queues net = 0 then net\<lparr>queues := 1\<rparr> else net"
  have net': "net' = ?net"
    using assms(1) unfolding add_net_def Let_def
    by (auto split: if_splits prod.splits option.splits sum.splits)
  have q: "queues net' = (if queues net = 0 then 1 else queues net)"
    by (simp add: net')
  obtain rc_conn opened newidx
    where conn: "virCHConnetNetworkInterfaces h i ?net = (rc_conn, opened, newidx)"
    by (cases "virCHConnetNetworkInterfaces h i ?net") auto
  obtain rc_json payload where json: "virCHMonitorBuildNetJson h i ?net = (rc_json, payload)"
    by (cases "virCHMonitorBuildNetJson h i ?net") auto
  define tapfds where "tapfds = take (queues ?net) (opened @ replicate (queues ?net) (- 1))"
  define request where "request = http_headers @ ''Content-Length: '' @ show_nat (length payload) @
                  [CHR 0x0D, CHR 0x0A, CHR 0x0D, CHR 0x0A] @ payload"
  have len: "length tapfds = queues net'"
    by (simp add: net' tapfds_def)
  from assms(2,3,4)
  have ok: "\<not> virCHDomainValidateActualNetDef h i ?net < 0" "\<not> rc_conn < 0" "\<not> rc_json < 0"
    using conn json by (simp_all add: net')
  have "\<exists>rest. tr = [E_ConnetNetworkInterfaces i tapfds, E_SendMsgWithFDs s request tapfds] @
                 close_tapfds tapfds @ rest"
    using assms(1)
    unfolding add_net_def Let_def conn json prod.case tapfds_def [symmetric] request_def [symmetric]
    using ok
    by (auto split: if_splits prod.splits option.splits sum.splits)
  with q len show ?thesis by blast
qed

text \<open>
  C5, the code at the failing input. The first interface asks for two queue pairs; its
  two tap descriptors, 7 and 8, are connected, then \<^verbatim>\<open>virCHMonitorBuildNetJson\<close> fails.
  The function returns at line 599: the monitor socket 3 is closed, the descriptors 7
  and 8 are not.
\<close>

theorem chProcessAddNetworkDevices_leaks_tapfds:
  "chProcessAddNetworkDevices host_json_fails driver_ok mon_ok def_two_nets =
     Some (Inl (Reported VIR_ERR_INTERNAL_ERROR ''Failed to build net json''),
           def_two_nets,
           [E_socket 3, E_connect 3 ''/run/ch.sock'', E_ConnetNetworkInterfaces 0 [7, 8], E_close 3])"
  by (simp add: eval_net host_ok_def host_json_fails_def driver_ok_def mon_ok_def def_two_nets_def
        def_ok_def)

subsection \<open>Placing a thread\<close>

lemma cpuset_calls_simps [simp]:
  "cpuset_calls [] = []"
  "cpuset_calls (e # tr) = (case e of E_SetupCpusetCpus cg m \<Rightarrow> [m] | _ \<Rightarrow> []) @ cpuset_calls tr"
  "cpuset_calls (tr @ tr') = cpuset_calls tr @ cpuset_calls tr'"
  by (simp_all add: cpuset_calls_def)

lemma affinity_calls_simps [simp]:
  "affinity_calls [] = []"
  "affinity_calls (e # tr) = (case e of E_SetAffinity p m \<Rightarrow> [(p, m)] | _ \<Rightarrow> []) @ affinity_calls tr"
  "affinity_calls (tr @ tr') = affinity_calls tr @ affinity_calls tr'"
  by (simp_all add: affinity_calls_def)

lemma setup_pid_cleanup_calls [simp]:
  "cpuset_calls (setup_pid_cleanup cg) = []"
  "affinity_calls (setup_pid_cleanup cg) = []"
  by (simp_all add: setup_pid_cleanup_def split: option.splits)

lemma setup_pid_cpuset_calls:
  "setup_pid_cpuset h vm cg use mm = (r, tr) \<Longrightarrow>
   affinity_calls tr = [] \<and>
   cpuset_calls tr =
     (if virCgroupHasController h (cgroup vm) VIR_CGROUP_CONTROLLER_CPUSET
      then (case use of None \<Rightarrow> [] | Some m \<Rightarrow> [m]) else [])"
  by (auto simp: setup_pid_cpuset_def split: if_splits option.splits)

lemma setup_pid_cgroup_calls:
  assumes "setup_pid_cgroup h vm p nameval i use per quo = (r, cg, tr)"
  shows "affinity_calls tr = [] \<and>
         set (cpuset_calls tr) \<subseteq> set_option use \<and>
         (r = Inr () \<longrightarrow>
            cpuset_calls tr =
              (if virCgroupHasController h (cgroup vm) VIR_CGROUP_CONTROLLER_CPUSET
               then (case use of None \<Rightarrow> [] | Some m \<Rightarrow> [m]) else []))"
proof (cases "setup_pid_cpuset h vm (snd (virCgroupNewThread h (cgroup vm) nameval i)) use
                (snd (if fst (virDomainNumatuneGetMode h) = 0 \<and>
                 (snd (virDomainNumatuneGetMode h) = VIR_DOMAIN_NUMATUNE_MEM_STRICT \<or>
                  snd (virDomainNumatuneGetMode h) = VIR_DOMAIN_NUMATUNE_MEM_RESTRICTIVE)
              then virDomainNumatuneMaybeFormatNodeset h (autoNodeset vm)
              else (0, None)))")
  case (Pair r' tr')
  from setup_pid_cpuset_calls [OF Pair] assms Pair show ?thesis
    by (auto simp: setup_pid_cgroup_def split: if_splits prod.splits sum.splits option.splits)
qed


lemma infer_cpumask_result:
  assumes "infer_cpumask h vm arg = (rc, use, hostcpumap)"
  shows "use = (case arg of
            Some m \<Rightarrow> Some m
          | None \<Rightarrow> if placement_mode (def vm) = VIR_DOMAIN_CPU_PLACEMENT_MODE_AUTO
                    then autoCpuset vm else cpumask (def vm)) \<and>
   (0 \<le> rc \<longrightarrow>
      hostcpumap =
        (if use = None \<and> placement_mode (def vm) \<noteq> VIR_DOMAIN_CPU_PLACEMENT_MODE_AUTO
         then snd (virCHProcessGetAllCpuAffinity h) else None))"
proof (cases arg)
  case (Some m)
  with assms show ?thesis
    by (auto simp: infer_cpumask_def)
next
  case None
  show ?thesis
  proof (cases "cpumask (def vm)")
    case (Some m)
    show ?thesis
    proof (cases "placement_mode (def vm) = VIR_DOMAIN_CPU_PLACEMENT_MODE_AUTO")
      case True
      with None assms have "use = autoCpuset vm" and "hostcpumap = None"
        by (simp_all add: infer_cpumask_def)
      with None True show ?thesis by simp
    next
      case False
      with None Some assms have "use = Some m" and "hostcpumap = None"
        by (simp_all add: infer_cpumask_def)
      with None Some False show ?thesis by simp
    qed
  next
    case no_mask: None
    with None assms show ?thesis
      by (auto simp: infer_cpumask_def split: if_splits prod.splits)
  qed
qed

text \<open>
  C4, as the code has it. Let \<open>use\<close> be the first of: the mask given for the thread;
  in automatic placement mode the automatic mask of the domain (which may be absent);
  the mask of the whole domain. Let \<open>aff\<close> be \<open>use\<close> when there is one, and
  otherwise, outside automatic placement mode, the online CPUs of the host (when the
  host has such a map). Then every mask written to the cpuset cgroup is \<open>use\<close> and
  every affinity call is for this thread with \<open>aff\<close>. When the function succeeds, the
  cpuset cgroup was written exactly when the cpuset controller is there and \<open>use\<close>
  is present (so never with the online CPUs of the host), and the affinity was set
  exactly once, to \<open>aff\<close>, when \<open>aff\<close> is present; with a mask given for the thread,
  the affinity set is exactly that mask.
\<close>

theorem virCHProcessSetupPid_masks:
  assumes "virCHProcessSetupPid h vm p nameval i arg per quo sp = (r, tr)"
  shows "let use = (case arg of
                      Some m \<Rightarrow> Some m
                    | None \<Rightarrow> if placement_mode (def vm) = VIR_DOMAIN_CPU_PLACEMENT_MODE_AUTO
                              then autoCpuset vm else cpumask (def vm));
             aff = (case use of
                      Some m \<Rightarrow> Some m
                    | None \<Rightarrow> if placement_mode (def vm) = VIR_DOMAIN_CPU_PLACEMENT_MODE_AUTO
                              then None
                              else if virHostCPUHasBitmap h then virHostCPUGetOnlineBitmap h else None)
         in set (cpuset_calls tr) \<subseteq> set_option use \<and>
            set (affinity_calls tr) \<subseteq> {p} \<times> set_option aff \<and>
            (r = Inr () \<longrightarrow>
               cpuset_calls tr =
                 (if virCgroupHasController h (cgroup vm) VIR_CGROUP_CONTROLLER_CPUSET
                  then (case use of None \<Rightarrow> [] | Some m \<Rightarrow> [m]) else []) \<and>
               affinity_calls tr = (case aff of None \<Rightarrow> [] | Some m \<Rightarrow> [(p, m)])) \<and>
            (\<forall>m. arg = Some m \<and> r = Inr () \<longrightarrow> affinity_calls tr = [(p, m)])"
proof (cases "(per \<noteq> 0 \<or> quo \<noteq> 0) \<and> \<not> virCgroupHasController h (cgroup vm) VIR_CGROUP_CONTROLLER_CPU")
  case True
  with assms have "r = Inl (Reported VIR_ERR_CONFIG_UNSUPPORTED ''cgroup cpu is required for scheduler tuning'')"
    and "tr = []"
    by (auto simp: virCHProcessSetupPid_def)
  then show ?thesis by (simp add: Let_def)
next
  case guard: False
  obtain rc use hostcpumap where inf: "infer_cpumask h vm arg = (rc, use, hostcpumap)"
    by (cases "infer_cpumask h vm arg") auto
  note use = infer_cpumask_result [OF inf]
  show ?thesis
  proof (cases "rc < 0")
    case True
    with assms guard inf have "r = Inl (Failed ''virCHProcessGetAllCpuAffinity'')" and "tr = []"
      by (auto simp: virCHProcessSetupPid_def)
    then show ?thesis by (simp add: Let_def)
  next
    case False
    obtain r_cg cg tr_cg where cgr: "setup_pid_cgroup h vm p nameval i use per quo = (r_cg, cg, tr_cg)"
      by (cases "setup_pid_cgroup h vm p nameval i use per quo") auto
    note calls = setup_pid_cgroup_calls [OF cgr]
    from False use have host: "hostcpumap =
        (if use = None \<and> placement_mode (def vm) \<noteq> VIR_DOMAIN_CPU_PLACEMENT_MODE_AUTO
         then snd (virCHProcessGetAllCpuAffinity h) else None)"
      by simp
    show ?thesis
    proof (cases r_cg)
      case (Inl e)
      with assms guard inf False cgr have "r = Inl e" and "tr = tr_cg @ setup_pid_cleanup cg"
        by (auto simp: virCHProcessSetupPid_def)
      with calls use show ?thesis by (simp add: Let_def)
    next
      case (Inr u)
      define affm where "affm = (case hostcpumap of None \<Rightarrow> use | Some m \<Rightarrow> Some m)"
      have getall: "snd (virCHProcessGetAllCpuAffinity h) =
          (if virHostCPUHasBitmap h then virHostCPUGetOnlineBitmap h else None)"
        by (simp add: virCHProcessGetAllCpuAffinity_def split: option.splits)
      have affm: "affm = (case use of
                      Some m \<Rightarrow> Some m
                    | None \<Rightarrow> if placement_mode (def vm) = VIR_DOMAIN_CPU_PLACEMENT_MODE_AUTO
                              then None
                              else if virHostCPUHasBitmap h then virHostCPUGetOnlineBitmap h else None)"
        unfolding affm_def host getall by (cases use) (simp_all split: option.splits)
      from assms guard inf False cgr Inr
      have form: "\<exists>tail. tr = tr_cg @ (case affm of None \<Rightarrow> [] | Some m \<Rightarrow> [E_SetAffinity p m]) @ tail \<and>
                   affinity_calls tail = [] \<and> cpuset_calls tail = []"
        by (auto simp: virCHProcessSetupPid_def Let_def affm_def split: option.splits if_splits)
      then obtain tail where tr: "tr = tr_cg @ (case affm of None \<Rightarrow> [] | Some m \<Rightarrow> [E_SetAffinity p m]) @ tail"
        and tail: "affinity_calls tail = []" "cpuset_calls tail = []"
        by blast
      have a: "affinity_calls tr = (case affm of None \<Rightarrow> [] | Some m \<Rightarrow> [(p, m)])"
        using tr tail calls by (simp split: option.splits)
      have c: "cpuset_calls tr = cpuset_calls tr_cg"
        using tr tail by (simp split: option.splits)
      have c_ok: "cpuset_calls tr =
                 (if virCgroupHasController h (cgroup vm) VIR_CGROUP_CONTROLLER_CPUSET
                  then (case use of None \<Rightarrow> [] | Some m \<Rightarrow> [m]) else [])"
        using c calls Inr by simp
      have use_eq: "use = (case arg of
            Some m \<Rightarrow> Some m
          | None \<Rightarrow> if placement_mode (def vm) = VIR_DOMAIN_CPU_PLACEMENT_MODE_AUTO
                    then autoCpuset vm else cpumask (def vm))"
        using use by simp
      have sub_c: "set (cpuset_calls tr) \<subseteq> set_option use"
        using c calls by simp
      have sub_a: "set (affinity_calls tr) \<subseteq> {p} \<times> set_option affm"
        using a by (cases affm) simp_all
      have arg_a: "affinity_calls tr = [(p, m)]" if "arg = Some m" for m
        using a affm use_eq that by simp
      from sub_c sub_a a c_ok arg_a show ?thesis
        unfolding Let_def use_eq [symmetric] affm [symmetric] by blast
    qed
  qed
qed

text \<open>
  C4, witness: the mask \<open>{2, 3}\<close> given for a vCPU thread is written to the cpuset
  cgroup and set as the affinity of the thread.
\<close>

theorem virCHProcessSetupPid_masks_witness:
  "virCHProcessSetupPid host_ok vm_cgroup 101 VIR_CGROUP_THREAD_VCPU 0 (Some {2, 3}) 0 0 None =
     (Inr (),
      [E_CgroupNewThread (Some ''machine'') VIR_CGROUP_THREAD_VCPU 0,
       E_CgroupAddThread (Some ''thread'') 101,
       E_SetupCpusetCpus (Some ''thread'') {2, 3},
       E_SetupVcpuBW (Some ''thread'') 0 0,
       E_SetAffinity 101 {2, 3}]) \<and>
   cpuset_calls (snd (virCHProcessSetupPid host_ok vm_cgroup 101 VIR_CGROUP_THREAD_VCPU 0 (Some {2, 3}) 0 0 None))
     = [{2, 3}] \<and>
   affinity_calls (snd (virCHProcessSetupPid host_ok vm_cgroup 101 VIR_CGROUP_THREAD_VCPU 0 (Some {2, 3}) 0 0 None))
     = [(101, {2, 3})]"
  using virCHProcessSetupPid_masks [of host_ok vm_cgroup 101 VIR_CGROUP_THREAD_VCPU 0 "Some {2, 3}" 0 0 None
          "Inr ()"]
  by (simp add: virCHProcessSetupPid_def infer_cpumask_def setup_pid_cgroup_def setup_pid_cpuset_def
        host_ok_def vm_cgroup_def vm_ok_def def_ok_def Let_def)

text \<open>
  C4, counterexample to "the mask applied, both to the cpuset cgroup when available
  and to the affinity call, is ... (4) otherwise all online host CPUs": no mask for the
  thread, static placement, no mask of the domain, the cpuset controller is there and
  the host's online CPUs are \<open>{0, 1, 2, 3}\<close>. The call succeeds, the affinity is set to
  \<open>{0, 1, 2, 3}\<close>, and nothing is written to the cpuset cgroup.
\<close>

theorem virCHProcessSetupPid_cpuset_counterexample:
  "spec_resolved_cpumask host_ok vm_cgroup None = Some {0, 1, 2, 3} \<and>
   virCgroupHasController host_ok (cgroup vm_cgroup) VIR_CGROUP_CONTROLLER_CPUSET \<and>
   virCHProcessSetupPid host_ok vm_cgroup 101 VIR_CGROUP_THREAD_VCPU 0 None 0 0 None =
     (Inr (),
      [E_CgroupNewThread (Some ''machine'') VIR_CGROUP_THREAD_VCPU 0,
       E_CgroupAddThread (Some ''thread'') 101,
       E_SetupVcpuBW (Some ''thread'') 0 0,
       E_SetAffinity 101 {0, 1, 2, 3}]) \<and>
   cpuset_calls (snd (virCHProcessSetupPid host_ok vm_cgroup 101 VIR_CGROUP_THREAD_VCPU 0 None 0 0 None)) = []"
  by (simp add: virCHProcessSetupPid_def infer_cpumask_def setup_pid_cgroup_def setup_pid_cpuset_def
        virCHProcessGetAllCpuAffinity_def spec_resolved_cpumask_def
        host_ok_def vm_cgroup_def vm_ok_def def_ok_def Let_def)

text \<open>
  C7, as the code has it. virCHProcessSetupPid fails with the error
  \<^verbatim>\<open>VIR_ERR_CONFIG_UNSUPPORTED\<close>, "cgroup cpu is required for scheduler tuning", exactly
  when the period is not 0 or the quota is not 0 while the top-level cgroup of the
  domain lacks the CPU controller. So it does not fail this way when both are 0, and
  it does for every other pair, also one with a quota below 0 or a period of 0.
\<close>

theorem virCHProcessSetupPid_config_unsupported:
  "fst (virCHProcessSetupPid h vm p nameval i arg per quo sp) =
     Inl (Reported VIR_ERR_CONFIG_UNSUPPORTED ''cgroup cpu is required for scheduler tuning'') \<longleftrightarrow>
   (per \<noteq> 0 \<or> quo \<noteq> 0) \<and> \<not> virCgroupHasController h (cgroup vm) VIR_CGROUP_CONTROLLER_CPU"
proof (cases "(per \<noteq> 0 \<or> quo \<noteq> 0) \<and> \<not> virCgroupHasController h (cgroup vm) VIR_CGROUP_CONTROLLER_CPU")
  case True
  then show ?thesis by (auto simp: virCHProcessSetupPid_def)
next
  case False
  obtain r_cg cg tr_cg where cgr:
    "setup_pid_cgroup h vm p nameval i (fst (snd (infer_cpumask h vm arg))) per quo = (r_cg, cg, tr_cg)"
    by (cases "setup_pid_cgroup h vm p nameval i (fst (snd (infer_cpumask h vm arg))) per quo") auto
  have "r_cg \<noteq> Inl (Reported VIR_ERR_CONFIG_UNSUPPORTED ''cgroup cpu is required for scheduler tuning'')"
    using cgr
    by (auto simp: setup_pid_cgroup_def setup_pid_cpuset_def
             split: if_splits prod.splits sum.splits option.splits)
  with False cgr show ?thesis
    by (auto simp: virCHProcessSetupPid_def Let_def split: prod.splits sum.splits option.splits if_splits)
qed

text \<open>
  C7, witness: without the CPU controller a period of 100000 with a quota of 50000 is
  refused and the pair 0, 0 is not; with the controller the first pair is not refused.
\<close>

theorem virCHProcessSetupPid_config_unsupported_witness:
  "fst (virCHProcessSetupPid host_ok vm_ok 101 VIR_CGROUP_THREAD_VCPU 0 None 100000 50000 None) =
     Inl (Reported VIR_ERR_CONFIG_UNSUPPORTED ''cgroup cpu is required for scheduler tuning'') \<and>
   fst (virCHProcessSetupPid host_ok vm_ok 101 VIR_CGROUP_THREAD_VCPU 0 None 0 0 None) \<noteq>
     Inl (Reported VIR_ERR_CONFIG_UNSUPPORTED ''cgroup cpu is required for scheduler tuning'') \<and>
   fst (virCHProcessSetupPid host_ok vm_cgroup 101 VIR_CGROUP_THREAD_VCPU 0 None 100000 50000 None) \<noteq>
     Inl (Reported VIR_ERR_CONFIG_UNSUPPORTED ''cgroup cpu is required for scheduler tuning'')"
  using virCHProcessSetupPid_config_unsupported [of host_ok vm_ok 101 VIR_CGROUP_THREAD_VCPU 0 None 100000 50000 None]
        virCHProcessSetupPid_config_unsupported [of host_ok vm_ok 101 VIR_CGROUP_THREAD_VCPU 0 None 0 0 None]
        virCHProcessSetupPid_config_unsupported [of host_ok vm_cgroup 101 VIR_CGROUP_THREAD_VCPU 0 None 100000 50000 None]
  by (simp add: host_ok_def vm_ok_def vm_cgroup_def)

text \<open>
  C7, counterexample to "does not fail this way when bandwidth is unset (quota \<open>\<le> 0\<close>
  or period \<open>= 0\<close>)": without the CPU controller the pairs (period 100000, quota -1)
  and (period 0, quota 50000) are both refused with \<^verbatim>\<open>VIR_ERR_CONFIG_UNSUPPORTED\<close>.
\<close>

theorem virCHProcessSetupPid_unset_bandwidth_counterexample:
  "virCHProcessSetupPid host_ok vm_ok 101 VIR_CGROUP_THREAD_VCPU 0 None 100000 (- 1) None =
     (Inl (Reported VIR_ERR_CONFIG_UNSUPPORTED ''cgroup cpu is required for scheduler tuning''), []) \<and>
   virCHProcessSetupPid host_ok vm_ok 101 VIR_CGROUP_THREAD_VCPU 0 None 0 50000 None =
     (Inl (Reported VIR_ERR_CONFIG_UNSUPPORTED ''cgroup cpu is required for scheduler tuning''), [])"
  by (simp add: virCHProcessSetupPid_def host_ok_def vm_ok_def)

subsection \<open>Stopping\<close>

declare cgroup_remove_retry.simps [simp del]

lemma remove_attempts_simps [simp]:
  "remove_attempts [] = 0"
  "remove_attempts (e # tr) = (case e of E_CgroupRemoveCgroup cg mn \<Rightarrow> 1 | _ \<Rightarrow> 0) + remove_attempts tr"
  "remove_attempts (tr @ tr') = remove_attempts tr + remove_attempts tr'"
  by (simp_all add: remove_attempts_def split: event.splits)

lemma sleeps_simps [simp]:
  "sleeps [] = []"
  "sleeps (e # tr) = (case e of E_usleep us \<Rightarrow> [us] | _ \<Rightarrow> []) @ sleeps tr"
  "sleeps (tr @ tr') = sleeps tr @ sleeps tr'"
  by (simp_all add: sleeps_def)

lemma stop_calls_simps [simp]:
  "stop_calls [] = []"
  "stop_calls (e # tr) = (case e of E_DEBUG_Stopping_VM p r \<Rightarrow> [r] | _ \<Rightarrow> []) @ stop_calls tr"
  "stop_calls (tr @ tr') = stop_calls tr @ stop_calls tr'"
  by (simp_all add: stop_calls_def)

lemma replicate_5: "replicate 5 x = [x, x, x, x, x]"
  by (simp add: numeral_eq_Suc)

lemma cgroup_remove_retry_counts:
  "retries \<le> 5 \<Longrightarrow>
   \<exists>n \<le> 5 - retries.
     remove_attempts (cgroup_remove_retry h cg mn retries) = Suc n \<and>
     sleeps (cgroup_remove_retry h cg mn retries) = replicate n 200000 \<and>
     stop_calls (cgroup_remove_retry h cg mn retries) = [] \<and>
     E_MonitorClose \<notin> set (cgroup_remove_retry h cg mn retries) \<and>
     cgroup_remove_retry h cg mn retries \<noteq> []"
proof (induction h cg mn retries rule: cgroup_remove_retry.induct)
  case (1 h cg mn retries)
  show ?case
  proof (cases "virDomainCgroupRemoveCgroup h retries < 0 \<and>
                virDomainCgroupRemoveCgroup h retries = - errno_EBUSY h \<and> retries < 5")
    case True
    then have eq: "cgroup_remove_retry h cg mn retries =
        E_CgroupRemoveCgroup cg mn # E_usleep 200000 # cgroup_remove_retry h cg mn (Suc retries)"
      by (subst cgroup_remove_retry.simps) simp
    from True have "Suc retries \<le> 5" by simp
    from "1.IH" [OF refl _ _ this] True
    obtain n where n: "n \<le> 5 - Suc retries"
      "remove_attempts (cgroup_remove_retry h cg mn (Suc retries)) = Suc n"
      "sleeps (cgroup_remove_retry h cg mn (Suc retries)) = replicate n 200000"
      "stop_calls (cgroup_remove_retry h cg mn (Suc retries)) = []"
      "E_MonitorClose \<notin> set (cgroup_remove_retry h cg mn (Suc retries))"
      by auto
    from True have "retries < 5" by simp
    with n have "Suc n \<le> 5 - retries \<and>
      remove_attempts (cgroup_remove_retry h cg mn retries) = Suc (Suc n) \<and>
      sleeps (cgroup_remove_retry h cg mn retries) = replicate (Suc n) 200000 \<and>
      stop_calls (cgroup_remove_retry h cg mn retries) = [] \<and>
      E_MonitorClose \<notin> set (cgroup_remove_retry h cg mn retries) \<and>
      cgroup_remove_retry h cg mn retries \<noteq> []"
      unfolding eq by simp
    then show ?thesis by blast
  next
    case False
    then have "cgroup_remove_retry h cg mn retries = [E_CgroupRemoveCgroup cg mn] \<or>
        cgroup_remove_retry h cg mn retries = [E_CgroupRemoveCgroup cg mn, E_WARN_Failed_to_remove_cgroup]"
      by (subst (1 2) cgroup_remove_retry.simps) (auto simp: Let_def)
    then have "0 \<le> 5 - retries \<and>
      remove_attempts (cgroup_remove_retry h cg mn retries) = Suc 0 \<and>
      sleeps (cgroup_remove_retry h cg mn retries) = replicate 0 200000 \<and>
      stop_calls (cgroup_remove_retry h cg mn retries) = [] \<and>
      E_MonitorClose \<notin> set (cgroup_remove_retry h cg mn retries) \<and>
      cgroup_remove_retry h cg mn retries \<noteq> []"
      by auto
    then show ?thesis by blast
  qed
qed

lemma cgroup_remove_retry_busy:
  assumes "\<And>k. k \<le> 5 \<Longrightarrow> virDomainCgroupRemoveCgroup h k = - errno_EBUSY h" and "0 < errno_EBUSY h"
  shows "cgroup_remove_retry h cg mn 0 =
    [E_CgroupRemoveCgroup cg mn, E_usleep 200000,
     E_CgroupRemoveCgroup cg mn, E_usleep 200000,
     E_CgroupRemoveCgroup cg mn, E_usleep 200000,
     E_CgroupRemoveCgroup cg mn, E_usleep 200000,
     E_CgroupRemoveCgroup cg mn, E_usleep 200000,
     E_CgroupRemoveCgroup cg mn, E_WARN_Failed_to_remove_cgroup]"
proof -
  have step: "cgroup_remove_retry h cg mn k =
      E_CgroupRemoveCgroup cg mn # E_usleep 200000 # cgroup_remove_retry h cg mn (Suc k)"
    if "k < 5" for k
    using that assms(1) [of k] assms(2) by (subst cgroup_remove_retry.simps) simp
  have last: "cgroup_remove_retry h cg mn 5 = [E_CgroupRemoveCgroup cg mn, E_WARN_Failed_to_remove_cgroup]"
    using assms(1) [of 5] assms(2) by (subst cgroup_remove_retry.simps) simp
  have "cgroup_remove_retry h cg mn 0 =
      E_CgroupRemoveCgroup cg mn # E_usleep 200000 #
      E_CgroupRemoveCgroup cg mn # E_usleep 200000 #
      E_CgroupRemoveCgroup cg mn # E_usleep 200000 #
      E_CgroupRemoveCgroup cg mn # E_usleep 200000 #
      E_CgroupRemoveCgroup cg mn # E_usleep 200000 #
      cgroup_remove_retry h cg mn (Suc (Suc (Suc (Suc (Suc 0)))))"
    by (simp add: step)
  also have "Suc (Suc (Suc (Suc (Suc 0)))) = 5" by simp
  finally show ?thesis by (simp add: last)
qed

lemma sleeps_map_delete [simp]: "sleeps (map E_InterfaceDeleteDevice ns) = []"
  by (induction ns) simp_all

lemma remove_attempts_map_delete [simp]: "remove_attempts (map E_InterfaceDeleteDevice ns) = 0"
  by (induction ns) simp_all

lemma virCHProcessStop_eq:
  "virCHProcessStop h driver vm reason =
     (0,
      vm\<lparr>monitor := None, pid := 0, def := (def vm)\<lparr>def_id := - 1\<rparr>, machineName := None,
         state := VIR_DOMAIN_SHUTOFF reason\<rparr>,
      E_DEBUG_Stopping_VM (pid vm) reason #
      (case monitor vm of None \<Rightarrow> [] | Some mon \<Rightarrow> [E_MonitorClose]) @
      E_InterfaceStopDevices # map E_InterfaceDeleteDevice (nets (def vm)) @
      cgroup_remove_retry h (cgroup vm) (machineName vm) 0)"
  by (simp add: virCHProcessStop_def virDomainObjSetState_def Let_def)

lemma virCHProcessStop_retries:
  assumes "virCHProcessStop h driver vm reason = (rc, vm', tr)"
  shows "remove_attempts tr = Suc (length (sleeps tr)) \<and>
         length (sleeps tr) \<le> 5 \<and>
         sleeps tr = replicate (length (sleeps tr)) 200000 \<and>
         ((\<forall>k \<le> 5. virDomainCgroupRemoveCgroup h k = - errno_EBUSY h) \<and> 0 < errno_EBUSY h \<longrightarrow>
            remove_attempts tr = 6 \<and> sleeps tr = replicate 5 200000 \<and>
            last tr = E_WARN_Failed_to_remove_cgroup)"
proof -
  define tr_cg where "tr_cg = cgroup_remove_retry h (cgroup vm) (machineName vm) 0"
  define tr_pre where "tr_pre = E_DEBUG_Stopping_VM (pid vm) reason #
      (case monitor vm of None \<Rightarrow> [] | Some mon \<Rightarrow> [E_MonitorClose]) @
      E_InterfaceStopDevices # map E_InterfaceDeleteDevice (nets (def vm))"
  have tr: "tr = tr_pre @ tr_cg"
    using assms by (simp add: virCHProcessStop_eq tr_cg_def tr_pre_def)
  have pre_sleeps: "sleeps tr_pre = []" and pre_rm: "remove_attempts tr_pre = 0"
    by (simp_all add: tr_pre_def split: option.splits)
  from cgroup_remove_retry_counts [of 0 h "cgroup vm" "machineName vm"]
  obtain n where n: "n \<le> 5" "remove_attempts tr_cg = Suc n" "sleeps tr_cg = replicate n 200000"
    "tr_cg \<noteq> []"
    unfolding tr_cg_def by auto
  have busy: "remove_attempts tr_cg = 6 \<and> sleeps tr_cg = replicate 5 200000 \<and>
      last tr_cg = E_WARN_Failed_to_remove_cgroup"
    if "\<forall>k \<le> 5. virDomainCgroupRemoveCgroup h k = - errno_EBUSY h" and "0 < errno_EBUSY h"
  proof -
    from that have "tr_cg =
      [E_CgroupRemoveCgroup (cgroup vm) (machineName vm), E_usleep 200000,
       E_CgroupRemoveCgroup (cgroup vm) (machineName vm), E_usleep 200000,
       E_CgroupRemoveCgroup (cgroup vm) (machineName vm), E_usleep 200000,
       E_CgroupRemoveCgroup (cgroup vm) (machineName vm), E_usleep 200000,
       E_CgroupRemoveCgroup (cgroup vm) (machineName vm), E_usleep 200000,
       E_CgroupRemoveCgroup (cgroup vm) (machineName vm), E_WARN_Failed_to_remove_cgroup]"
      unfolding tr_cg_def by (intro cgroup_remove_retry_busy) auto
    then show ?thesis
      by (simp add: replicate_5)
  qed
  have 1: "remove_attempts (tr_pre @ tr_cg) = Suc (length (sleeps (tr_pre @ tr_cg)))"
    using n pre_sleeps pre_rm by simp
  have 2: "length (sleeps (tr_pre @ tr_cg)) \<le> 5"
    using n pre_sleeps by simp
  have 3: "sleeps (tr_pre @ tr_cg) = replicate (length (sleeps (tr_pre @ tr_cg))) 200000"
    using n pre_sleeps by simp
  have 4: "remove_attempts (tr_pre @ tr_cg) = 6 \<and> sleeps (tr_pre @ tr_cg) = replicate 5 200000 \<and>
          last (tr_pre @ tr_cg) = E_WARN_Failed_to_remove_cgroup"
    if "(\<forall>k \<le> 5. virDomainCgroupRemoveCgroup h k = - errno_EBUSY h) \<and> 0 < errno_EBUSY h"
    using busy that n(4) pre_sleeps pre_rm by simp
  show ?thesis
    unfolding tr using 1 2 3 4 by blast
qed

text \<open>
  C2. virCHProcessStop returns 0 for every host, domain and reason. After it the process
  id is 0, \<^verbatim>\<open>def->id\<close> is -1, there is no monitor and no machine name, and the state is
  Shutoff with the reason given. The removal of the cgroup is tried once and, while it
  answers \<^verbatim>\<open>-EBUSY\<close>, again after a sleep of 200000 microseconds, at most 5 times: at
  most 6 attempts and 5 sleeps. When all 6 attempts answer \<^verbatim>\<open>-EBUSY\<close> the last event is
  the warning "Failed to remove cgroup", and the domain is Shutoff all the same. A
  second stop of the stopped domain, on any host and with any reason, returns 0 and
  closes no monitor, and it runs the teardown again: the debug line, the interfaces
  stopped and each one deleted, the cgroup removed with the same retries. It sets the
  state to Shutoff with its own reason, so the domain is left as it was exactly when the
  reason is the same.
\<close>

theorem virCHProcessStop_never_fails:
  "case virCHProcessStop h driver vm reason of
     (rc, vm', tr) \<Rightarrow>
       rc = 0 \<and> pid vm' = 0 \<and> def_id (def vm') = - 1 \<and>
       state vm' = VIR_DOMAIN_SHUTOFF reason \<and> monitor vm' = None \<and> machineName vm' = None \<and>
       remove_attempts tr = Suc (length (sleeps tr)) \<and>
       length (sleeps tr) \<le> 5 \<and>
       sleeps tr = replicate (length (sleeps tr)) 200000 \<and>
       ((\<forall>k \<le> 5. virDomainCgroupRemoveCgroup h k = - errno_EBUSY h) \<and> 0 < errno_EBUSY h \<longrightarrow>
          remove_attempts tr = 6 \<and> sleeps tr = replicate 5 200000 \<and>
          last tr = E_WARN_Failed_to_remove_cgroup) \<and>
       (case virCHProcessStop h' driver vm' reason' of
          (rc2, vm2, tr2) \<Rightarrow>
            rc2 = 0 \<and>
            vm2 = vm'\<lparr>state := VIR_DOMAIN_SHUTOFF reason'\<rparr> \<and>
            (vm2 = vm') = (reason' = reason) \<and>
            tr2 = E_DEBUG_Stopping_VM 0 reason' # E_InterfaceStopDevices #
                  map E_InterfaceDeleteDevice (nets (def vm)) @
                  cgroup_remove_retry h' (cgroup vm) None 0 \<and>
            E_MonitorClose \<notin> set tr2 \<and>
            remove_attempts tr2 = Suc (length (sleeps tr2)) \<and>
            length (sleeps tr2) \<le> 5 \<and>
            sleeps tr2 = replicate (length (sleeps tr2)) 200000 \<and>
            ((\<forall>k \<le> 5. virDomainCgroupRemoveCgroup h' k = - errno_EBUSY h') \<and> 0 < errno_EBUSY h' \<longrightarrow>
               remove_attempts tr2 = 6 \<and> sleeps tr2 = replicate 5 200000 \<and>
               last tr2 = E_WARN_Failed_to_remove_cgroup))"
proof -
  define vm' where "vm' = vm\<lparr>monitor := None, pid := 0, def := (def vm)\<lparr>def_id := - 1\<rparr>,
      machineName := None, state := VIR_DOMAIN_SHUTOFF reason\<rparr>"
  define tr where "tr = E_DEBUG_Stopping_VM (pid vm) reason #
      (case monitor vm of None \<Rightarrow> [] | Some mon \<Rightarrow> [E_MonitorClose]) @
      E_InterfaceStopDevices # map E_InterfaceDeleteDevice (nets (def vm)) @
      cgroup_remove_retry h (cgroup vm) (machineName vm) 0"
  define vm2 where "vm2 = vm'\<lparr>state := VIR_DOMAIN_SHUTOFF reason'\<rparr>"
  define tr2 where "tr2 = E_DEBUG_Stopping_VM 0 reason' # E_InterfaceStopDevices #
      map E_InterfaceDeleteDevice (nets (def vm)) @ cgroup_remove_retry h' (cgroup vm) None 0"
  have stop1: "virCHProcessStop h driver vm reason = (0, vm', tr)"
    by (simp add: virCHProcessStop_eq vm'_def tr_def)
  have stop2: "virCHProcessStop h' driver vm' reason' = (0, vm2, tr2)"
    by (simp add: virCHProcessStop_eq vm'_def vm2_def tr2_def)
  have fields: "pid vm' = 0 \<and> def_id (def vm') = - 1 \<and> state vm' = VIR_DOMAIN_SHUTOFF reason \<and>
      monitor vm' = None \<and> machineName vm' = None"
    by (simp add: vm'_def)
  have "state vm2 = VIR_DOMAIN_SHUTOFF reason'"
    by (simp add: vm2_def)
  moreover have "vm2 = vm'" if "reason' = reason"
    using that by (simp add: vm2_def vm'_def)
  ultimately have same: "(vm2 = vm') = (reason' = reason)"
    using fields by auto
  have close_map: "E_MonitorClose \<notin> set (map E_InterfaceDeleteDevice ns)" for ns
    by (induction ns) simp_all
  from cgroup_remove_retry_counts [of 0 h' "cgroup vm" None]
  have "E_MonitorClose \<notin> set (cgroup_remove_retry h' (cgroup vm) None 0)"
    by auto
  then have close2: "E_MonitorClose \<notin> set tr2"
    using close_map by (simp add: tr2_def)
  note r1 = virCHProcessStop_retries [OF stop1]
  note r2 = virCHProcessStop_retries [OF stop2]
  show ?thesis
    unfolding stop1 prod.case stop2
    using fields r1 r2 same close2 by (simp add: vm2_def tr2_def)
qed

text \<open>
  C2, witness: the removal of the cgroup is busy for ever. Six attempts, five sleeps,
  the warning, and the domain is Shutoff. A second stop with the same reason, on a host
  where the removal succeeds, leaves the domain as it is and runs the teardown again.
\<close>

theorem virCHProcessStop_never_fails_witness:
  "virCHProcessStop host_busy driver_ok vm_two_nets (VIR_DOMAIN_SHUTOFF_OTHER 1) =
     (0, vm_stopped,
      [E_DEBUG_Stopping_VM 4242 (VIR_DOMAIN_SHUTOFF_OTHER 1), E_MonitorClose, E_InterfaceStopDevices,
       E_InterfaceDeleteDevice \<lparr>ifname = ''tap0'', queues = 2\<rparr>,
       E_InterfaceDeleteDevice \<lparr>ifname = ''tap1'', queues = 0\<rparr>,
       E_CgroupRemoveCgroup (Some ''machine'') (Some ''ch-1-vm''), E_usleep 200000,
       E_CgroupRemoveCgroup (Some ''machine'') (Some ''ch-1-vm''), E_usleep 200000,
       E_CgroupRemoveCgroup (Some ''machine'') (Some ''ch-1-vm''), E_usleep 200000,
       E_CgroupRemoveCgroup (Some ''machine'') (Some ''ch-1-vm''), E_usleep 200000,
       E_CgroupRemoveCgroup (Some ''machine'') (Some ''ch-1-vm''), E_usleep 200000,
       E_CgroupRemoveCgroup (Some ''machine'') (Some ''ch-1-vm''), E_WARN_Failed_to_remove_cgroup]) \<and>
   virCHProcessStop host_ok driver_ok vm_stopped (VIR_DOMAIN_SHUTOFF_OTHER 1) =
     (0, vm_stopped,
      [E_DEBUG_Stopping_VM 0 (VIR_DOMAIN_SHUTOFF_OTHER 1), E_InterfaceStopDevices,
       E_InterfaceDeleteDevice \<lparr>ifname = ''tap0'', queues = 2\<rparr>,
       E_InterfaceDeleteDevice \<lparr>ifname = ''tap1'', queues = 0\<rparr>,
       E_CgroupRemoveCgroup (Some ''machine'') None])"
  using virCHProcessStop_never_fails [where h = host_busy and driver = driver_ok and vm = vm_two_nets
          and reason = "VIR_DOMAIN_SHUTOFF_OTHER 1" and h' = host_ok
          and reason' = "VIR_DOMAIN_SHUTOFF_OTHER 1"]
  by (simp add: virCHProcessStop_def virDomainObjSetState_def Let_def cgroup_remove_retry.simps
        host_busy_def host_ok_def vm_two_nets_def vm_stopped_def vm_cgroup_def vm_ok_def
        def_two_nets_def def_ok_def mon_ok_def)

text \<open>
  C2, counterexample to "a repeated stop on an already-stopped VM is a no-op": the
  domain \<open>vm_stopped\<close> is what a stop leaves. Stopped again while the removal of the cgroup
  is busy, its interfaces are stopped and deleted again and the cgroup removal is tried
  six times with five sleeps of 200 ms and the warning; stopped again with another
  reason, its state changes from Shutoff(Other 1) to Shutoff(Failed).
\<close>

theorem virCHProcessStop_repeated_counterexample:
  "fst (snd (virCHProcessStop host_busy driver_ok vm_two_nets (VIR_DOMAIN_SHUTOFF_OTHER 1))) = vm_stopped \<and>
   virCHProcessStop host_busy driver_ok vm_stopped (VIR_DOMAIN_SHUTOFF_OTHER 1) =
     (0, vm_stopped,
      [E_DEBUG_Stopping_VM 0 (VIR_DOMAIN_SHUTOFF_OTHER 1), E_InterfaceStopDevices,
       E_InterfaceDeleteDevice \<lparr>ifname = ''tap0'', queues = 2\<rparr>,
       E_InterfaceDeleteDevice \<lparr>ifname = ''tap1'', queues = 0\<rparr>,
       E_CgroupRemoveCgroup (Some ''machine'') None, E_usleep 200000,
       E_CgroupRemoveCgroup (Some ''machine'') None, E_usleep 200000,
       E_CgroupRemoveCgroup (Some ''machine'') None, E_usleep 200000,
       E_CgroupRemoveCgroup (Some ''machine'') None, E_usleep 200000,
       E_CgroupRemoveCgroup (Some ''machine'') None, E_usleep 200000,
       E_CgroupRemoveCgroup (Some ''machine'') None, E_WARN_Failed_to_remove_cgroup]) \<and>
   state (fst (snd (virCHProcessStop host_busy driver_ok vm_stopped VIR_DOMAIN_SHUTOFF_FAILED))) =
     VIR_DOMAIN_SHUTOFF VIR_DOMAIN_SHUTOFF_FAILED \<and>
   state vm_stopped = VIR_DOMAIN_SHUTOFF (VIR_DOMAIN_SHUTOFF_OTHER 1) \<and>
   fst (snd (virCHProcessStop host_busy driver_ok vm_stopped VIR_DOMAIN_SHUTOFF_FAILED)) \<noteq> vm_stopped"
  by (simp add: virCHProcessStop_def virDomainObjSetState_def Let_def cgroup_remove_retry.simps
        host_busy_def host_ok_def vm_two_nets_def vm_stopped_def vm_cgroup_def vm_ok_def
        def_two_nets_def def_ok_def mon_ok_def)


subsection \<open>The vCPUs without thread ids\<close>

lemma for_each_check:
  assumes "\<And>x. f x = (Inr (), []) \<or> f x = (Inl e, [])"
  shows "for_each f xs = (if \<exists>x \<in> set xs. f x = (Inl e, []) then (Inl e, []) else (Inr (), []))"
proof (induction xs)
  case Nil
  then show ?case by simp
next
  case (Cons x xs)
  from assms [of x] show ?case
  proof
    assume "f x = (Inr (), [])"
    with Cons show ?thesis by auto
  next
    assume "f x = (Inl e, [])"
    then show ?thesis by simp
  qed
qed

lemma ex_upt_nth: "(\<exists>i \<in> set [0 ..< length xs]. P (xs ! i)) \<longleftrightarrow> (\<exists>x \<in> set xs. P x)"
proof
  assume "\<exists>i \<in> set [0 ..< length xs]. P (xs ! i)"
  then obtain i where "i < length xs" and "P (xs ! i)" by auto
  then have "xs ! i \<in> set xs" and "P (xs ! i)" by simp_all
  then show "\<exists>x \<in> set xs. P x" by blast
next
  assume "\<exists>x \<in> set xs. P x"
  then obtain x where "x \<in> set xs" and "P x" by blast
  then obtain i where "i < length xs" and "xs ! i = x" by (auto simp: in_set_conv_nth)
  with \<open>P x\<close> have "i \<in> set [0 ..< length xs]" and "P (xs ! i)" by simp_all
  then show "\<exists>i \<in> set [0 ..< length xs]. P (xs ! i)" by blast
qed

lemma virCHProcessSetupVcpus_no_pids:
  assumes "\<not> virCHDomainHasVcpuPids h"
  shows "virCHProcessSetupVcpus h vm =
    (if (period (cputune (def vm)) \<noteq> 0 \<or> quota (cputune (def vm)) \<noteq> 0) \<and>
        \<not> virCgroupHasController h (cgroup vm) VIR_CGROUP_CONTROLLER_CPU
     then (Inl (Reported VIR_ERR_CONFIG_UNSUPPORTED ''cgroup cpu is required for scheduler tuning''), [])
     else if \<exists>vcpu \<in> set (vcpus (def vm)).
               online vcpu \<and> vcpu_cpumask vcpu \<noteq> None \<and> vcpu_cpumask vcpu \<noteq> cpumask (def vm)
     then (Inl (Reported VIR_ERR_OPERATION_INVALID ''cpu affinity is not supported''), [])
     else (Inr (), []))"
proof -
  let ?e = "Reported VIR_ERR_OPERATION_INVALID ''cpu affinity is not supported''"
  let ?f = "\<lambda>i. let vcpu = vcpus (def vm) ! i
                 in if \<not> online vcpu then (Inr (), [])
                    else if vcpu_cpumask vcpu \<noteq> None \<and>
                            \<not> virBitmapEqual (cpumask (def vm)) (vcpu_cpumask vcpu)
                    then (Inl ?e, [])
                    else (Inr (), [])"
  have shape: "?f i = (Inr (), []) \<or> ?f i = (Inl ?e, [])" for i
    by (simp add: Let_def)
  have bad: "(\<exists>i \<in> set [0 ..< length (vcpus (def vm))]. ?f i = (Inl ?e, [])) \<longleftrightarrow>
      (\<exists>vcpu \<in> set (vcpus (def vm)).
         online vcpu \<and> vcpu_cpumask vcpu \<noteq> None \<and> vcpu_cpumask vcpu \<noteq> cpumask (def vm))"
  proof -
    have f_bad: "?f i = (Inl ?e, []) \<longleftrightarrow>
        online (vcpus (def vm) ! i) \<and> vcpu_cpumask (vcpus (def vm) ! i) \<noteq> None \<and>
        vcpu_cpumask (vcpus (def vm) ! i) \<noteq> cpumask (def vm)" for i
      by (auto simp: Let_def virBitmapEqual_def)
    show ?thesis
      unfolding f_bad
      by (rule ex_upt_nth [where P = "\<lambda>vcpu. online vcpu \<and> vcpu_cpumask vcpu \<noteq> None \<and>
            vcpu_cpumask vcpu \<noteq> cpumask (def vm)"])
  qed
  have "for_each ?f [0 ..< length (vcpus (def vm))] =
      (if \<exists>vcpu \<in> set (vcpus (def vm)).
         online vcpu \<and> vcpu_cpumask vcpu \<noteq> None \<and> vcpu_cpumask vcpu \<noteq> cpumask (def vm)
       then (Inl ?e, []) else (Inr (), []))"
    unfolding for_each_check [where f = ?f and e = ?e, OF shape] bad ..
  with assms show ?thesis
    by (simp add: virCHProcessSetupVcpus_def Let_def)
qed


subsection \<open>No step of the start stops the domain by itself\<close>

lemma setup_pid_cpuset_quiet:
  "setup_pid_cpuset h vm cg use mm = (r, tr) \<Longrightarrow>
   stop_calls tr = [] \<and> r \<noteq> Inl (Failed ''virDomainInterfaceStartDevices'')"
  by (auto simp: setup_pid_cpuset_def split: if_splits option.splits)

lemma setup_pid_cgroup_quiet:
  assumes "setup_pid_cgroup h vm p nameval i use per quo = (r, cg, tr)"
  shows "stop_calls tr = [] \<and> r \<noteq> Inl (Failed ''virDomainInterfaceStartDevices'')"
proof (cases "setup_pid_cpuset h vm (snd (virCgroupNewThread h (cgroup vm) nameval i)) use
                (snd (if fst (virDomainNumatuneGetMode h) = 0 \<and>
                 (snd (virDomainNumatuneGetMode h) = VIR_DOMAIN_NUMATUNE_MEM_STRICT \<or>
                  snd (virDomainNumatuneGetMode h) = VIR_DOMAIN_NUMATUNE_MEM_RESTRICTIVE)
              then virDomainNumatuneMaybeFormatNodeset h (autoNodeset vm)
              else (0, None)))")
  case (Pair r' tr')
  from setup_pid_cpuset_quiet [OF Pair] assms Pair show ?thesis
    by (auto simp: setup_pid_cgroup_def split: if_splits prod.splits sum.splits option.splits)
qed

lemma setup_pid_cleanup_quiet [simp]: "stop_calls (setup_pid_cleanup cg) = []"
  by (simp add: setup_pid_cleanup_def split: option.splits)

lemma virCHProcessSetupPid_quiet:
  assumes "virCHProcessSetupPid h vm p nameval i arg per quo sp = (r, tr)"
  shows "stop_calls tr = [] \<and> r \<noteq> Inl (Failed ''virDomainInterfaceStartDevices'')"
proof -
  obtain r_cg cg tr_cg where cgr:
    "setup_pid_cgroup h vm p nameval i (fst (snd (infer_cpumask h vm arg))) per quo = (r_cg, cg, tr_cg)"
    by (cases "setup_pid_cgroup h vm p nameval i (fst (snd (infer_cpumask h vm arg))) per quo") auto
  from setup_pid_cgroup_quiet [OF cgr] assms cgr show ?thesis
    by (auto simp: virCHProcessSetupPid_def Let_def split: if_splits prod.splits sum.splits option.splits)
qed

lemma for_each_quiet:
  assumes "\<And>x r tr. f x = (r, tr) \<Longrightarrow>
             stop_calls tr = [] \<and> r \<noteq> Inl (Failed ''virDomainInterfaceStartDevices'')"
      and "for_each f xs = (r, tr)"
  shows "stop_calls tr = [] \<and> r \<noteq> Inl (Failed ''virDomainInterfaceStartDevices'')"
  using assms(2)
proof (induction xs arbitrary: r tr)
  case Nil
  then show ?case by auto
next
  case (Cons x xs)
  obtain r1 tr1 where one: "f x = (r1, tr1)" by (cases "f x") auto
  obtain r2 tr2 where rest: "for_each f xs = (r2, tr2)" by (cases "for_each f xs") auto
  from assms(1) [OF one] Cons.IH [OF rest] Cons.prems one rest show ?case
    by (auto split: sum.splits)
qed

lemma virCHProcessSetupEmulatorThreads_quiet:
  assumes "virCHProcessSetupEmulatorThreads h vm mon = (r, tr)"
  shows "stop_calls tr = [] \<and> r \<noteq> Inl (Failed ''virDomainInterfaceStartDevices'')"
proof (rule for_each_quiet [OF _ assms [unfolded virCHProcessSetupEmulatorThreads_def]])
  fix x r' tr'
  assume "(if thr_type x = virCHThreadTypeEmulator then virCHProcessSetupEmulatorThread h vm x
           else (Inr (), [])) = (r', tr')"
  then show "stop_calls tr' = [] \<and> r' \<noteq> Inl (Failed ''virDomainInterfaceStartDevices'')"
    by (auto simp: virCHProcessSetupEmulatorThread_def split: if_splits
             dest: virCHProcessSetupPid_quiet)
qed

lemma virCHProcessSetupIOThreads_quiet:
  assumes "virCHProcessSetupIOThreads h vm = (r, tr)"
  shows "stop_calls tr = [] \<and> r \<noteq> Inl (Failed ''virDomainInterfaceStartDevices'')"
proof (cases "virCHMonitorGetIOThreads h")
  case None
  with assms show ?thesis by (auto simp: virCHProcessSetupIOThreads_def)
next
  case (Some ids)
  obtain r' tr' where fe: "for_each (virCHProcessSetupIOThread h vm) ids = (r', tr')"
    by (cases "for_each (virCHProcessSetupIOThread h vm) ids") auto
  have "stop_calls tr' = [] \<and> r' \<noteq> Inl (Failed ''virDomainInterfaceStartDevices'')"
    by (rule for_each_quiet [OF _ fe])
       (auto simp: virCHProcessSetupIOThread_def dest: virCHProcessSetupPid_quiet)
  with assms Some fe show ?thesis by (auto simp: virCHProcessSetupIOThreads_def)
qed

lemma virCHProcessSetupVcpus_quiet:
  assumes "virCHProcessSetupVcpus h vm = (r, tr)"
  shows "stop_calls tr = [] \<and> r \<noteq> Inl (Failed ''virDomainInterfaceStartDevices'')"
proof (cases "virCHDomainHasVcpuPids h")
  case False
  from assms show ?thesis
    unfolding virCHProcessSetupVcpus_no_pids [OF False] by (auto split: if_splits)
next
  case True
  let ?f = "\<lambda>i. if \<not> online (vcpus (def vm) ! i) then (Inr (), [])
                else virCHProcessSetupVcpu h vm i"
  show ?thesis
  proof (cases "(period (cputune (def vm)) \<noteq> 0 \<or> quota (cputune (def vm)) \<noteq> 0) \<and>
        \<not> virCgroupHasController h (cgroup vm) VIR_CGROUP_CONTROLLER_CPU")
    case guard: True
    with assms show ?thesis by (auto simp: virCHProcessSetupVcpus_def Let_def)
  next
    case guard: False
    with assms True have fe: "for_each ?f [0 ..< length (vcpus (def vm))] = (r, tr)"
      by (auto simp: virCHProcessSetupVcpus_def split: if_splits)
    show ?thesis
    proof (rule for_each_quiet [OF _ fe])
      fix x r' tr'
      assume "?f x = (r', tr')"
      then show "stop_calls tr' = [] \<and> r' \<noteq> Inl (Failed ''virDomainInterfaceStartDevices'')"
        using virCHProcessSetupPid_quiet
        by (auto simp: virCHProcessSetupVcpu_def Let_def split: if_splits)
    qed
  qed
qed

lemma virCHProcessInitCpuAffinity_quiet:
  "virCHProcessInitCpuAffinity h vm = (r, tr) \<Longrightarrow>
   stop_calls tr = [] \<and> r \<noteq> Inl (Failed ''virDomainInterfaceStartDevices'')"
  by (auto simp: virCHProcessInitCpuAffinity_def split: if_splits prod.splits sum.splits option.splits)

lemma poll_loop_quiet: "poll_loop h sock ps = Some (ret, errno, tr) \<Longrightarrow> stop_calls tr = []"
  by (induction ps arbitrary: tr) (auto split: if_splits option.splits)

lemma recv_loop_quiet: "recv_loop h sock len rs = Some (ret, errno, bs, tr) \<Longrightarrow> stop_calls tr = []"
proof (induction rs arbitrary: tr)
  case Nil
  then show ?case by simp
next
  case (Cons r rs)
  then show ?case by (cases r) (auto split: if_splits option.splits)
qed

lemma chSocketRecv_quiet:
  assumes "chSocketRecv h sock io = Some (r, tr)"
  shows "stop_calls tr = []"
proof -
  from assms obtain ret errno tr1 where p: "poll_loop h sock (polls io) = Some (ret, errno, tr1)"
    by (auto simp: chSocketRecv_def split: option.splits)
  note q1 = poll_loop_quiet [OF p]
  show ?thesis
  proof (cases "ret \<le> 0")
    case True
    with assms p q1 show ?thesis
      by (auto simp: chSocketRecv_def split: if_splits)
  next
    case False
    with assms p obtain ret2 errno2 bs tr2 where
      r: "recv_loop h sock 1023 (recvs io) = Some (ret2, errno2, bs, tr2)"
      by (auto simp: chSocketRecv_def split: option.splits)
    note q2 = recv_loop_quiet [OF r]
    from assms p r False q1 q2 show ?thesis
      by (auto simp: chSocketRecv_def split: if_splits)
  qed
qed

lemma close_tapfds_quiet [simp]: "stop_calls (close_tapfds fds) = []"
  by (induction fds) (simp_all add: close_tapfds_def)

lemma add_net_quiet:
  assumes "add_net h s i net nic = Some (r, net', tr)"
  shows "stop_calls tr = []"
proof (cases "chSocketRecv h s (sock_answers h i)")
  case None
  with assms show ?thesis
    by (auto simp: add_net_def Let_def split: prod.splits if_splits)
next
  case (Some res)
  obtain r' tr' where res: "res = (r', tr')" by (cases res)
  from chSocketRecv_quiet [OF Some [unfolded res]] assms Some res show ?thesis
    by (auto simp: add_net_def Let_def split: prod.splits if_splits option.splits sum.splits)
qed

lemma add_nets_quiet: "add_nets h s i ns nic = Some (r, ns', tr) \<Longrightarrow> stop_calls tr = []"
proof (induction ns arbitrary: i nic r ns' tr)
  case Nil
  then show ?case by simp
next
  case (Cons n ns)
  from Cons.prems obtain r1 n1 tr1 where one: "add_net h s i n nic = Some (r1, n1, tr1)"
    by (auto split: option.splits)
  note q1 = add_net_quiet [OF one]
  show ?case
  proof (cases r1)
    case (Inl e)
    with Cons.prems one q1 show ?thesis by auto
  next
    case (Inr nic1)
    with Cons.prems one obtain r2 ns2 tr2 where
      rest: "add_nets h s (Suc i) ns nic1 = Some (r2, ns2, tr2)" and tr: "tr = tr1 @ tr2"
      by (auto split: option.splits)
    from Cons.IH [OF rest] q1 tr show ?thesis by simp
  qed
qed

lemma chProcessAddNetworkDevices_quiet:
  assumes "chProcessAddNetworkDevices h driver mon vmdef = Some (r, vmdef', tr)"
  shows "stop_calls tr = [] \<and> vmdef' = vmdef\<lparr>nets := nets vmdef'\<rparr>"
proof (cases "add_nets h (fst (sys_socket h)) 0 (nets vmdef) []")
  case None
  with assms show ?thesis
    by (auto simp: chProcessAddNetworkDevices_def split: if_splits prod.splits)
next
  case (Some res)
  obtain r' ns' tr' where res: "res = (r', ns', tr')" by (cases res)
  from add_nets_quiet [OF Some [unfolded res]] assms Some res show ?thesis
    by (auto simp: chProcessAddNetworkDevices_def split: if_splits prod.splits)
qed

subsection \<open>Starting\<close>

lemma stop_calls_map_delete [simp]: "stop_calls (map E_InterfaceDeleteDevice ns) = []"
  by (induction ns) simp_all

lemma virCHProcessStop_result:
  "virCHProcessStop h driver vm reason = (rc, vm', tr) \<Longrightarrow>
   stop_calls tr = [reason] \<and> state vm' = VIR_DOMAIN_SHUTOFF reason \<and> pid vm' = 0 \<and>
   def_id (def vm') = - 1 \<and> monitor vm' = None"
  using cgroup_remove_retry_counts [of 0 h "cgroup vm" "machineName vm"]
  by (auto simp: virCHProcessStop_def virDomainObjSetState_def Let_def split: option.splits)

lemma start_cleanup_result:
  assumes "start_cleanup h driver vm e tr = (r, vm', tr')"
  shows "r = Inl e \<and> stop_calls tr' = stop_calls tr @ [VIR_DOMAIN_SHUTOFF_FAILED] \<and>
         state vm' = VIR_DOMAIN_SHUTOFF VIR_DOMAIN_SHUTOFF_FAILED \<and> pid vm' = 0 \<and>
         def_id (def vm') = - 1 \<and> monitor vm' = None"
proof -
  obtain rc vm1 tr1 where s: "virCHProcessStop h driver vm VIR_DOMAIN_SHUTOFF_FAILED = (rc, vm1, tr1)"
    by (cases "virCHProcessStop h driver vm VIR_DOMAIN_SHUTOFF_FAILED") auto
  from virCHProcessStop_result [OF s] assms s show ?thesis
    by (auto simp: start_cleanup_def)
qed

lemma virCHProcessUpdateInfo_quiet:
  "virCHProcessUpdateInfo h vm = (rc, vm', tr) \<Longrightarrow> stop_calls tr = []"
  by (auto simp: virCHProcessUpdateInfo_def split: prod.splits if_splits)

lemma start_place_threads_result:
  assumes "start_place_threads h driver vm0 mon0 reason tr0 = (r, vm', tr')"
      and "stop_calls tr0 = []"
  shows "case r of
           Inl e \<Rightarrow>
             e \<noteq> Failed ''virDomainInterfaceStartDevices'' \<and>
             stop_calls tr' = [VIR_DOMAIN_SHUTOFF_FAILED] \<and>
             state vm' = VIR_DOMAIN_SHUTOFF VIR_DOMAIN_SHUTOFF_FAILED \<and> pid vm' = 0 \<and>
             def_id (def vm') = - 1 \<and> monitor vm' = None
         | Inr u \<Rightarrow>
             stop_calls tr' = [] \<and> state vm' = VIR_DOMAIN_RUNNING reason \<and>
             fst (virCHProcessSetupVcpus h
                    (vm0\<lparr>monitor := Some (mon0\<lparr>threads := virCHDomainRefreshThreadInfo h\<rparr>)\<rparr>)) = Inr ()"
proof -
  let ?mon = "mon0\<lparr>threads := virCHDomainRefreshThreadInfo h\<rparr>"
  let ?vm = "vm0\<lparr>monitor := Some ?mon\<rparr>"
  obtain r_emu tr_emu where emu: "virCHProcessSetupEmulatorThreads h ?vm ?mon = (r_emu, tr_emu)"
    by (cases "virCHProcessSetupEmulatorThreads h ?vm ?mon") auto
  obtain r_io tr_io where io: "virCHProcessSetupIOThreads h ?vm = (r_io, tr_io)"
    by (cases "virCHProcessSetupIOThreads h ?vm") auto
  obtain r_v tr_v where v: "virCHProcessSetupVcpus h ?vm = (r_v, tr_v)"
    by (cases "virCHProcessSetupVcpus h ?vm") auto
  obtain rc_i vm_i tr_i where ui: "virCHProcessUpdateInfo h ?vm = (rc_i, vm_i, tr_i)"
    by (cases "virCHProcessUpdateInfo h ?vm") auto
  note q = virCHProcessSetupEmulatorThreads_quiet [OF emu] virCHProcessSetupIOThreads_quiet [OF io]
    virCHProcessSetupVcpus_quiet [OF v] virCHProcessUpdateInfo_quiet [OF ui]
  note defs = start_place_threads_def Let_def emu io v ui
  show ?thesis
  proof (cases r_emu)
    case (Inl e)
    with assms(1) have "start_cleanup h driver ?vm e ((tr0 @ [E_RefreshThreadInfo]) @ tr_emu) = (r, vm', tr')"
      by (simp add: defs)
    from start_cleanup_result [OF this] q Inl assms(2) show ?thesis by auto
  next
    case emu_ok: (Inr u)
    show ?thesis
    proof (cases r_io)
      case (Inl e)
      with assms(1) emu_ok
      have "start_cleanup h driver ?vm e ((tr0 @ [E_RefreshThreadInfo]) @ tr_emu @ tr_io) = (r, vm', tr')"
        by (simp add: defs)
      from start_cleanup_result [OF this] q Inl assms(2) show ?thesis by auto
    next
      case io_ok: (Inr u)
      show ?thesis
      proof (cases "virDomainCgroupSetupGlobalCpuCgroup h < 0")
        case True
        with assms(1) emu_ok io_ok
        have "start_cleanup h driver ?vm (Failed ''virDomainCgroupSetupGlobalCpuCgroup'')
                    ((tr0 @ [E_RefreshThreadInfo]) @ tr_emu @ tr_io @ [E_SetupGlobalCpuCgroup]) = (r, vm', tr')"
          by (simp add: defs)
        from start_cleanup_result [OF this] q assms(2) show ?thesis by auto
      next
        case False
        show ?thesis
        proof (cases r_v)
          case (Inl e)
          with assms(1) emu_ok io_ok False
          have "start_cleanup h driver ?vm e
                     ((tr0 @ [E_RefreshThreadInfo]) @ tr_emu @ tr_io @ [E_SetupGlobalCpuCgroup] @ tr_v) = (r, vm', tr')"
            by (simp add: defs)
          from start_cleanup_result [OF this] q Inl assms(2) show ?thesis by auto
        next
          case (Inr u)
          with assms(1) emu_ok io_ok False
          have "r = Inr ()" "vm' = virDomainObjSetState vm_i (VIR_DOMAIN_RUNNING reason)"
            "tr' = (tr0 @ [E_RefreshThreadInfo]) @ tr_emu @ tr_io @ [E_SetupGlobalCpuCgroup] @ tr_v @ tr_i"
            by (simp_all add: defs)
          with q assms(2) v Inr show ?thesis
            by (simp add: virDomainObjSetState_def)
        qed
      qed
    qed
  qed
qed


lemma start_with_monitor_result:
  assumes "start_with_monitor h driver vm0 mon reason tr0 = Some (r, vm', tr')"
      and "stop_calls tr0 = []"
  shows "case r of
           Inl e \<Rightarrow>
             if e = Failed ''virDomainInterfaceStartDevices''
             then stop_calls tr' = [] \<and> virDomainInterfaceStartDevices h < 0 \<and>
                  last tr' = E_InterfaceStartDevices \<and>
                  state vm' = state vm0 \<and> monitor vm' = monitor vm0 \<and> pid vm' = mon_pid mon
             else stop_calls tr' = [VIR_DOMAIN_SHUTOFF_FAILED] \<and>
                  state vm' = VIR_DOMAIN_SHUTOFF VIR_DOMAIN_SHUTOFF_FAILED \<and> pid vm' = 0 \<and>
                  def_id (def vm') = - 1 \<and> monitor vm' = None
         | Inr u \<Rightarrow>
             stop_calls tr' = [] \<and> state vm' = VIR_DOMAIN_RUNNING reason \<and>
             (\<exists>vmx. vcpus (def vmx) = vcpus (def vm0) \<and> cpumask (def vmx) = cpumask (def vm0) \<and>
                    cputune (def vmx) = cputune (def vm0) \<and>
                    fst (virCHProcessSetupVcpus h vmx) = Inr ())"
proof -
  let ?def1 = "(def vm0)\<lparr>def_id := mon_pid mon\<rparr>"
  from assms(1) obtain r_n def2 tr_n where
    net: "chProcessAddNetworkDevices h driver mon ?def1 = Some (r_n, def2, tr_n)"
    by (auto simp: start_with_monitor_def Let_def split: option.splits)
  from chProcessAddNetworkDevices_quiet [OF net]
  have q_n: "stop_calls tr_n = []" and def2: "def2 = ?def1\<lparr>nets := nets def2\<rparr>"
    by simp_all
  note defs = start_with_monitor_def Let_def net
  show ?thesis
  proof (cases r_n)
    case (Inl e)
    with assms(1) have "start_cleanup h driver (vm0\<lparr>pid := mon_pid mon, machineName := virCHDomainGetMachineName h, def := def2\<rparr>)
        (Reported VIR_ERR_INTERNAL_ERROR ''Failed while adding guest interfaces'') (tr0 @ tr_n) = (r, vm', tr')"
      by (simp add: defs)
    from start_cleanup_result [OF this] q_n assms(2) show ?thesis by auto
  next
    case net_ok: (Inr nicindexes)
    obtain rc_cg cg where cgr: "virDomainCgroupSetupCgroup h nicindexes = (rc_cg, cg)"
      by (cases "virDomainCgroupSetupCgroup h nicindexes") auto
    let ?vm2 = "vm0\<lparr>pid := mon_pid mon, machineName := virCHDomainGetMachineName h,
                    def := def2, cgroup := cg\<rparr>"
    let ?tr2 = "tr0 @ tr_n @ [E_SetupCgroup nicindexes]"
    have q2: "stop_calls ?tr2 = []"
      using q_n assms(2) by simp
    show ?thesis
    proof (cases "rc_cg < 0")
      case True
      with assms(1) net_ok cgr
      have "start_cleanup h driver ?vm2 (Failed ''virDomainCgroupSetupCgroup'') ?tr2 = (r, vm', tr')"
        by (simp add: defs)
      from start_cleanup_result [OF this] q2 show ?thesis by auto
    next
      case cg_ok: False
      obtain r_a tr_a where aff: "virCHProcessInitCpuAffinity h ?vm2 = (r_a, tr_a)"
        by (cases "virCHProcessInitCpuAffinity h ?vm2") auto
      note q_a = virCHProcessInitCpuAffinity_quiet [OF aff]
      show ?thesis
      proof (cases r_a)
        case (Inl e)
        with assms(1) net_ok cgr cg_ok aff
        have "start_cleanup h driver ?vm2 e (?tr2 @ tr_a) = (r, vm', tr')"
          by (simp add: defs)
        from start_cleanup_result [OF this] q2 q_a Inl show ?thesis by auto
      next
        case aff_ok: (Inr u)
        show ?thesis
        proof (cases "virDomainInterfaceStartDevices h < 0")
          case True
          with assms(1) net_ok cgr cg_ok aff aff_ok
          have "r = Inl (Failed ''virDomainInterfaceStartDevices'')" "vm' = ?vm2"
            "tr' = ?tr2 @ tr_a @ [E_InterfaceStartDevices]"
            by (simp_all add: defs)
          with q2 q_a True show ?thesis by simp
        next
          case up: False
          show ?thesis
          proof (cases "virCHMonitorBootVM h < 0")
            case True
            with assms(1) net_ok cgr cg_ok aff aff_ok up
            have "start_cleanup h driver ?vm2
                    (Reported VIR_ERR_INTERNAL_ERROR ''failed to boot guest VM'')
                    (?tr2 @ tr_a @ [E_InterfaceStartDevices, E_MonitorBootVM]) = (r, vm', tr')"
              by (simp add: defs)
            from start_cleanup_result [OF this] q2 q_a show ?thesis by auto
          next
            case False
            with assms(1) net_ok cgr cg_ok aff aff_ok up
            have place: "start_place_threads h driver ?vm2 mon reason
                    (?tr2 @ tr_a @ [E_InterfaceStartDevices, E_MonitorBootVM]) = (r, vm', tr')"
              by (simp add: defs)
            have q3: "stop_calls (?tr2 @ tr_a @ [E_InterfaceStartDevices, E_MonitorBootVM]) = []"
              using q2 q_a by simp
            note res = start_place_threads_result [OF place q3]
            show ?thesis
            proof (cases r)
              case (Inl e)
              with res show ?thesis by simp
            next
              case (Inr u)
              let ?vmx = "?vm2\<lparr>monitor := Some (mon\<lparr>threads := virCHDomainRefreshThreadInfo h\<rparr>)\<rparr>"
              from def2 have "vcpus def2 = vcpus (def vm0)" "cpumask def2 = cpumask (def vm0)"
                "cputune def2 = cputune (def vm0)"
                by (metis virDomainDef.select_convs(4) virDomainDef.select_convs(5)
                      virDomainDef.select_convs(7) virDomainDef.surjective virDomainDef.update_convs(1)
                      virDomainDef.update_convs(3))+
              then have eqs: "vcpus (def ?vmx) = vcpus (def vm0) \<and> cpumask (def ?vmx) = cpumask (def vm0) \<and>
                    cputune (def ?vmx) = cputune (def vm0)"
                by simp
              from res Inr have a: "stop_calls tr' = []" "state vm' = VIR_DOMAIN_RUNNING reason"
                "fst (virCHProcessSetupVcpus h ?vmx) = Inr ()"
                by simp_all
              from eqs a(3) have "\<exists>vmx. vcpus (def vmx) = vcpus (def vm0) \<and>
                    cpumask (def vmx) = cpumask (def vm0) \<and>
                    cputune (def vmx) = cputune (def vm0) \<and>
                    fst (virCHProcessSetupVcpus h vmx) = Inr ()"
                by (intro exI [of _ ?vmx]) simp
              with a Inr show ?thesis by simp
            qed
          qed
        qed
      qed
    qed
  qed
qed


text \<open>
  C1, as the code has it. A failing return of virCHProcessStart is of one of three
  kinds. (a) The domain is already active, or virCHProcessStartValidate fails: the
  function returns at once, nothing was done, virCHProcessStop is not called.
  (b) \<^verbatim>\<open>virDomainInterfaceStartDevices\<close> fails: the function returns at line 759,
  virCHProcessStop is not called, the domain keeps its state and its monitor.
  (c) Every other failure: virCHProcessStop is called exactly once, with the reason
  \<^verbatim>\<open>VIR_DOMAIN_SHUTOFF_FAILED\<close>, and the domain is left Shutoff with that reason, with
  process id 0, \<^verbatim>\<open>def->id\<close> -1 and no monitor.
\<close>

theorem virCHProcessStart_failure:
  assumes "virCHProcessStart h driver vm reason = Some (Inl e, vm', tr)"
  shows "if virDomainObjIsActive h vm \<or> isl (virCHProcessStartValidate h driver vm)
         then stop_calls tr = [] \<and> vm' = vm \<and> tr = []
         else if e = Failed ''virDomainInterfaceStartDevices''
         then stop_calls tr = [] \<and> virDomainInterfaceStartDevices h < 0 \<and>
              last tr = E_InterfaceStartDevices \<and> state vm' = state vm \<and> monitor vm' \<noteq> None
         else stop_calls tr = [VIR_DOMAIN_SHUTOFF_FAILED] \<and>
              state vm' = VIR_DOMAIN_SHUTOFF VIR_DOMAIN_SHUTOFF_FAILED \<and> pid vm' = 0 \<and>
              def_id (def vm') = - 1 \<and> monitor vm' = None"
proof (cases "virDomainObjIsActive h vm \<or> isl (virCHProcessStartValidate h driver vm)")
  case True
  with assms show ?thesis
    by (auto simp: virCHProcessStart_def isl_def split: sum.splits if_splits)
next
  case False
  then have pre: "\<not> virDomainObjIsActive h vm" "virCHProcessStartValidate h driver vm = Inr ()"
    by (cases "virCHProcessStartValidate h driver vm"; simp)+
  show ?thesis
  proof (cases "monitor vm")
    case (Some mon)
    with assms pre have "start_with_monitor h driver vm mon reason [] = Some (Inl e, vm', tr)"
      by (simp add: virCHProcessStart_def)
    from start_with_monitor_result [OF this] False Some show ?thesis
      by (auto split: if_splits)
  next
    case None
    show ?thesis
    proof (cases "virCHMonitorNew h")
      case no_mon: None
      with assms pre None have "start_cleanup h driver vm
          (Reported VIR_ERR_INTERNAL_ERROR ''failed to create connection to CH socket'')
          [E_MonitorNew] = (Inl e, vm', tr)"
        by (simp add: virCHProcessStart_def)
      from start_cleanup_result [OF this] False show ?thesis by auto
    next
      case (Some mon)
      show ?thesis
      proof (cases "virCHMonitorCreateVM h < 0")
        case True
        with assms pre None Some have "start_cleanup h driver (vm\<lparr>monitor := Some mon\<rparr>)
            (Reported VIR_ERR_INTERNAL_ERROR ''failed to create guest VM'')
            [E_MonitorNew, E_MonitorCreateVM] = (Inl e, vm', tr)"
          by (simp add: virCHProcessStart_def)
        from start_cleanup_result [OF this] False show ?thesis by auto
      next
        case created: False
        with assms pre None Some
        have "start_with_monitor h driver (vm\<lparr>monitor := Some mon\<rparr>) mon reason
                [E_MonitorNew, E_MonitorCreateVM] = Some (Inl e, vm', tr)"
          by (simp add: virCHProcessStart_def)
        from start_with_monitor_result [OF this] False show ?thesis
          by (auto split: if_splits)
      qed
    qed
  qed
qed

subsection \<open>The info query touches nothing else\<close>

lemmas branch_cong = if_cong option.case_cong prod.case_cong sum.case_cong

lemma poll_loop_info [simp]:
  "poll_loop (h\<lparr>virCHMonitorGetInfo := g\<rparr>) sock ps = poll_loop h sock ps"
  by (induction ps) auto

lemma recv_loop_info [simp]:
  "recv_loop (h\<lparr>virCHMonitorGetInfo := g\<rparr>) sock len rs = recv_loop h sock len rs"
proof (induction rs)
  case Nil
  then show ?case by simp
next
  case (Cons r rs)
  then show ?case by (cases r) auto
qed

lemma chSocketRecv_info [simp]:
  "chSocketRecv (h\<lparr>virCHMonitorGetInfo := g\<rparr>) sock io = chSocketRecv h sock io"
  by (simp add: chSocketRecv_def cong: branch_cong)

lemma sscanf_http_status_info [simp]:
  "sscanf_http_status (h\<lparr>virCHMonitorGetInfo := g\<rparr>) s = sscanf_http_status h s"
  by (simp add: sscanf_http_status_def store_int_def cong: branch_cong)

lemma add_net_info [simp]:
  "add_net (h\<lparr>virCHMonitorGetInfo := g\<rparr>) s i net nic = add_net h s i net nic"
  by (simp add: add_net_def Let_def cong: branch_cong)

lemma add_nets_info [simp]:
  "add_nets (h\<lparr>virCHMonitorGetInfo := g\<rparr>) s i ns nic = add_nets h s i ns nic"
  by (induction ns arbitrary: i nic) (simp_all cong: branch_cong)

lemma chProcessAddNetworkDevices_info [simp]:
  "chProcessAddNetworkDevices (h\<lparr>virCHMonitorGetInfo := g\<rparr>) driver mon vmdef =
   chProcessAddNetworkDevices h driver mon vmdef"
  by (simp add: chProcessAddNetworkDevices_def cong: branch_cong)

lemma virCHProcessGetAllCpuAffinity_info [simp]:
  "virCHProcessGetAllCpuAffinity (h\<lparr>virCHMonitorGetInfo := g\<rparr>) = virCHProcessGetAllCpuAffinity h"
  by (simp add: virCHProcessGetAllCpuAffinity_def cong: branch_cong)

lemma virCHProcessSetupPid_info [simp]:
  "virCHProcessSetupPid (h\<lparr>virCHMonitorGetInfo := g\<rparr>) vm p nameval i arg per quo sp =
   virCHProcessSetupPid h vm p nameval i arg per quo sp"
  by (simp add: virCHProcessSetupPid_def infer_cpumask_def setup_pid_cgroup_def setup_pid_cpuset_def
        Let_def cong: branch_cong)

lemma virCHProcessSetupEmulatorThreads_info [simp]:
  "virCHProcessSetupEmulatorThreads (h\<lparr>virCHMonitorGetInfo := g\<rparr>) vm mon =
   virCHProcessSetupEmulatorThreads h vm mon"
  by (simp add: virCHProcessSetupEmulatorThreads_def virCHProcessSetupEmulatorThread_def
        cong: branch_cong)

lemma virCHProcessSetupIOThreads_info [simp]:
  "virCHProcessSetupIOThreads (h\<lparr>virCHMonitorGetInfo := g\<rparr>) vm = virCHProcessSetupIOThreads h vm"
proof -
  have "virCHProcessSetupIOThread (h\<lparr>virCHMonitorGetInfo := g\<rparr>) vm = virCHProcessSetupIOThread h vm"
    by (rule ext) (simp add: virCHProcessSetupIOThread_def)
  then show ?thesis
    by (simp add: virCHProcessSetupIOThreads_def cong: branch_cong)
qed

lemma virCHProcessSetupVcpus_info [simp]:
  "virCHProcessSetupVcpus (h\<lparr>virCHMonitorGetInfo := g\<rparr>) vm = virCHProcessSetupVcpus h vm"
  by (simp add: virCHProcessSetupVcpus_def virCHProcessSetupVcpu_def Let_def cong: branch_cong)

lemma virCHProcessInitCpuAffinity_info [simp]:
  "virCHProcessInitCpuAffinity (h\<lparr>virCHMonitorGetInfo := g\<rparr>) vm = virCHProcessInitCpuAffinity h vm"
  by (simp add: virCHProcessInitCpuAffinity_def cong: branch_cong)

lemma virCHProcessStartValidate_info [simp]:
  "virCHProcessStartValidate (h\<lparr>virCHMonitorGetInfo := g\<rparr>) driver vm =
   virCHProcessStartValidate h driver vm"
  by (simp add: virCHProcessStartValidate_def cong: branch_cong)

lemma start_cleanup_Inl: "start_cleanup h driver vm e tr \<noteq> (Inr u, vm', tr')"
  by (simp add: start_cleanup_def split: prod.splits)

lemma start_place_threads_info:
  assumes "start_place_threads h driver vm0 mon0 reason tr0 = (Inr u, vm1, tr1)"
  shows "\<exists>vm2. start_place_threads (h\<lparr>virCHMonitorGetInfo := g\<rparr>) driver vm0 mon0 reason tr0 =
                  (Inr (), vm2, tr1) \<and>
               state vm2 = VIR_DOMAIN_RUNNING reason"
proof -
  let ?mon = "mon0\<lparr>threads := virCHDomainRefreshThreadInfo h\<rparr>"
  let ?vm = "vm0\<lparr>monitor := Some ?mon\<rparr>"
  obtain r_emu tr_emu where emu: "virCHProcessSetupEmulatorThreads h ?vm ?mon = (r_emu, tr_emu)"
    by (cases "virCHProcessSetupEmulatorThreads h ?vm ?mon") auto
  obtain r_io tr_io where io: "virCHProcessSetupIOThreads h ?vm = (r_io, tr_io)"
    by (cases "virCHProcessSetupIOThreads h ?vm") auto
  obtain r_v tr_v where v: "virCHProcessSetupVcpus h ?vm = (r_v, tr_v)"
    by (cases "virCHProcessSetupVcpus h ?vm") auto
  note defs = start_place_threads_def Let_def emu io v
  from assms have emu_ok: "r_emu = Inr ()"
    by (cases r_emu) (simp_all add: defs start_cleanup_Inl)
  with assms have io_ok: "r_io = Inr ()"
    by (cases r_io) (simp_all add: defs start_cleanup_Inl)
  with assms emu_ok have glob: "\<not> virDomainCgroupSetupGlobalCpuCgroup h < 0"
    by (auto simp: defs start_cleanup_Inl)
  with assms emu_ok io_ok have v_ok: "r_v = Inr ()"
    by (cases r_v) (simp_all add: defs start_cleanup_Inl)
  from assms emu_ok io_ok glob v_ok
  have tr1: "tr1 = (tr0 @ [E_RefreshThreadInfo]) @ tr_emu @ tr_io @ [E_SetupGlobalCpuCgroup] @ tr_v @
                   [E_MonitorGetInfo]"
    by (auto simp: defs virCHProcessUpdateInfo_def split: prod.splits if_splits)
  have "start_place_threads (h\<lparr>virCHMonitorGetInfo := g\<rparr>) driver vm0 mon0 reason tr0 =
      (Inr (),
       virDomainObjSetState (fst (snd (virCHProcessUpdateInfo (h\<lparr>virCHMonitorGetInfo := g\<rparr>) ?vm)))
         (VIR_DOMAIN_RUNNING reason),
       tr1)"
    using emu_ok io_ok glob v_ok tr1
    by (auto simp: defs virCHProcessUpdateInfo_def split: prod.splits if_splits)
  then show ?thesis
    by (simp add: virDomainObjSetState_def)
qed


lemma start_with_monitor_info:
  assumes "start_with_monitor h driver vm0 mon reason tr0 = Some (Inr u, vm1, tr1)"
  shows "\<exists>vm2. start_with_monitor (h\<lparr>virCHMonitorGetInfo := g\<rparr>) driver vm0 mon reason tr0 =
                  Some (Inr (), vm2, tr1) \<and>
               state vm2 = VIR_DOMAIN_RUNNING reason"
proof -
  let ?h' = "h\<lparr>virCHMonitorGetInfo := g\<rparr>"
  let ?def1 = "(def vm0)\<lparr>def_id := mon_pid mon\<rparr>"
  from assms obtain r_n def2 tr_n where
    net: "chProcessAddNetworkDevices h driver mon ?def1 = Some (r_n, def2, tr_n)"
    by (auto simp: start_with_monitor_def Let_def split: option.splits)
  note defs = start_with_monitor_def Let_def net
  from assms obtain nicindexes where net_ok: "r_n = Inr nicindexes"
    by (cases r_n) (simp_all add: defs start_cleanup_Inl)
  obtain rc_cg cg where cgr: "virDomainCgroupSetupCgroup h nicindexes = (rc_cg, cg)"
    by (cases "virDomainCgroupSetupCgroup h nicindexes") auto
  let ?vm2 = "vm0\<lparr>pid := mon_pid mon, machineName := virCHDomainGetMachineName h,
                  def := def2, cgroup := cg\<rparr>"
  let ?tr2 = "tr0 @ tr_n @ [E_SetupCgroup nicindexes]"
  from assms net_ok cgr have cg_ok: "\<not> rc_cg < 0"
    by (auto simp: defs start_cleanup_Inl)
  obtain r_a tr_a where aff: "virCHProcessInitCpuAffinity h ?vm2 = (r_a, tr_a)"
    by (cases "virCHProcessInitCpuAffinity h ?vm2") auto
  from assms net_ok cgr cg_ok aff have aff_ok: "r_a = Inr ()"
    by (cases r_a) (simp_all add: defs start_cleanup_Inl)
  from assms net_ok cgr cg_ok aff aff_ok have up: "\<not> virDomainInterfaceStartDevices h < 0"
    by (auto simp: defs)
  from assms net_ok cgr cg_ok aff aff_ok up have boot: "\<not> virCHMonitorBootVM h < 0"
    by (auto simp: defs start_cleanup_Inl)
  from assms net_ok cgr cg_ok aff aff_ok up boot
  have place: "start_place_threads h driver ?vm2 mon reason
                 (?tr2 @ tr_a @ [E_InterfaceStartDevices, E_MonitorBootVM]) = (Inr u, vm1, tr1)"
    by (simp add: defs)
  from start_place_threads_info [OF place, of g] obtain vm2 where
    place': "start_place_threads ?h' driver ?vm2 mon reason
                 (?tr2 @ tr_a @ [E_InterfaceStartDevices, E_MonitorBootVM]) = (Inr (), vm2, tr1)"
    and st: "state vm2 = VIR_DOMAIN_RUNNING reason"
    by blast
  have "start_with_monitor ?h' driver vm0 mon reason tr0 = Some (Inr (), vm2, tr1)"
    using net_ok cgr cg_ok aff aff_ok up boot place'
    by (simp add: defs)
  with st show ?thesis by blast
qed

text \<open>
  C10. Whenever virCHProcessStart succeeds, the domain is Running with the reason
  given; and whatever \<^verbatim>\<open>virCHMonitorGetInfo\<close> returns instead (a failure, or any
  document), virCHProcessStart on the same host and domain succeeds as well, with the
  same events, and the domain is Running with the reason given.
\<close>

theorem virCHProcessStart_ignores_info:
  assumes "virCHProcessStart h driver vm reason = Some (Inr u, vm1, tr1)"
  shows "state vm1 = VIR_DOMAIN_RUNNING reason \<and>
         (\<exists>vm2. virCHProcessStart (h\<lparr>virCHMonitorGetInfo := info\<rparr>) driver vm reason =
                   Some (Inr (), vm2, tr1) \<and>
                state vm2 = VIR_DOMAIN_RUNNING reason)"
proof -
  let ?h' = "h\<lparr>virCHMonitorGetInfo := info\<rparr>"
  from assms have active: "\<not> virDomainObjIsActive h vm"
    by (auto simp: virCHProcessStart_def split: if_splits)
  with assms have valid: "virCHProcessStartValidate h driver vm = Inr ()"
    by (cases "virCHProcessStartValidate h driver vm") (simp_all add: virCHProcessStart_def)
  show ?thesis
  proof (cases "monitor vm")
    case (Some mon)
    with assms active valid
    have run: "start_with_monitor h driver vm mon reason [] = Some (Inr u, vm1, tr1)"
      by (simp add: virCHProcessStart_def)
    from start_with_monitor_result [OF run] have st: "state vm1 = VIR_DOMAIN_RUNNING reason"
      by simp
    from start_with_monitor_info [OF run, of info] obtain vm2 where
      "start_with_monitor ?h' driver vm mon reason [] = Some (Inr (), vm2, tr1)"
      "state vm2 = VIR_DOMAIN_RUNNING reason"
      by blast
    with active valid Some have "virCHProcessStart ?h' driver vm reason = Some (Inr (), vm2, tr1) \<and>
        state vm2 = VIR_DOMAIN_RUNNING reason"
      by (simp add: virCHProcessStart_def)
    with st show ?thesis by blast
  next
    case None
    from assms active valid None obtain mon where mon: "virCHMonitorNew h = Some mon"
      by (cases "virCHMonitorNew h") (simp_all add: virCHProcessStart_def start_cleanup_Inl)
    from assms active valid None mon have created: "\<not> virCHMonitorCreateVM h < 0"
      by (auto simp: virCHProcessStart_def start_cleanup_Inl)
    with assms active valid None mon
    have run: "start_with_monitor h driver (vm\<lparr>monitor := Some mon\<rparr>) mon reason
                 [E_MonitorNew, E_MonitorCreateVM] = Some (Inr u, vm1, tr1)"
      by (simp add: virCHProcessStart_def)
    from start_with_monitor_result [OF run] have st: "state vm1 = VIR_DOMAIN_RUNNING reason"
      by simp
    from start_with_monitor_info [OF run, of info] obtain vm2 where
      "start_with_monitor ?h' driver (vm\<lparr>monitor := Some mon\<rparr>) mon reason
         [E_MonitorNew, E_MonitorCreateVM] = Some (Inr (), vm2, tr1)"
      "state vm2 = VIR_DOMAIN_RUNNING reason"
      by blast
    with active valid None mon created
    have "virCHProcessStart ?h' driver vm reason = Some (Inr (), vm2, tr1) \<and>
        state vm2 = VIR_DOMAIN_RUNNING reason"
      by (simp add: virCHProcessStart_def)
    with st show ?thesis by blast
  qed
qed

subsection \<open>Starts on the hosts above\<close>

lemmas eval_start = virCHProcessStart_def virCHProcessStartValidate_def start_with_monitor_def
  chProcessAddNetworkDevices_def virCHProcessInitCpuAffinity_def virCHProcessGetAllCpuAffinity_def
  start_place_threads_def virCHProcessSetupEmulatorThreads_def virCHProcessSetupIOThreads_def
  virCHProcessSetupVcpus_def virCHProcessUpdateInfo_def virDomainObjSetState_def
  virCHProcessUpdateConsole_def virJSONValueObjectGet_def start_cleanup_def virCHProcessStop_def
  cgroup_remove_retry.simps virBitmapEqual_def Let_def

lemmas eval_scen = host_ok_def driver_ok_def vm_ok_def def_ok_def mon_ok_def vm_cgroup_def
  tr_until_ifup_def tr_stop_failed_def

text \<open>
  C1, witness: when the boot fails, virCHProcessStop is called with the reason Failed
  and the domain is left Shutoff; when bringing up the interfaces fails, the function
  returns with the domain as it was at that point (process id set, monitor open) and
  virCHProcessStop is not called.
\<close>

theorem virCHProcessStart_failure_witness:
  "virCHProcessStart host_boot_fails driver_ok vm_ok 1 =
     Some (Inl (Reported VIR_ERR_INTERNAL_ERROR ''failed to boot guest VM''),
           vm_ok\<lparr>cgroup := Some ''machine'', state := VIR_DOMAIN_SHUTOFF VIR_DOMAIN_SHUTOFF_FAILED\<rparr>,
           tr_until_ifup @ [E_MonitorBootVM] @ tr_stop_failed) \<and>
   stop_calls (tr_until_ifup @ [E_MonitorBootVM] @ tr_stop_failed) = [VIR_DOMAIN_SHUTOFF_FAILED] \<and>
   virCHProcessStart host_ifup_fails driver_ok vm_ok 1 =
     Some (Inl (Failed ''virDomainInterfaceStartDevices''),
           vm_ok\<lparr>pid := 4242, def := def_ok\<lparr>def_id := 4242\<rparr>, monitor := Some mon_ok,
                 machineName := Some ''ch-1-vm'', cgroup := Some ''machine''\<rparr>,
           tr_until_ifup) \<and>
   stop_calls tr_until_ifup = []"
proof -
  have boot: "virCHProcessStart host_boot_fails driver_ok vm_ok 1 =
     Some (Inl (Reported VIR_ERR_INTERNAL_ERROR ''failed to boot guest VM''),
           vm_ok\<lparr>cgroup := Some ''machine'', state := VIR_DOMAIN_SHUTOFF VIR_DOMAIN_SHUTOFF_FAILED\<rparr>,
           tr_until_ifup @ [E_MonitorBootVM] @ tr_stop_failed)"
    by (simp add: eval_start eval_scen host_boot_fails_def)
  have ifup: "virCHProcessStart host_ifup_fails driver_ok vm_ok 1 =
     Some (Inl (Failed ''virDomainInterfaceStartDevices''),
           vm_ok\<lparr>pid := 4242, def := def_ok\<lparr>def_id := 4242\<rparr>, monitor := Some mon_ok,
                 machineName := Some ''ch-1-vm'', cgroup := Some ''machine''\<rparr>,
           tr_until_ifup)"
    by (simp add: eval_start eval_scen host_ifup_fails_def)
  have pre: "\<not> (virDomainObjIsActive host_boot_fails vm_ok \<or>
               isl (virCHProcessStartValidate host_boot_fails driver_ok vm_ok))"
    "\<not> (virDomainObjIsActive host_ifup_fails vm_ok \<or>
               isl (virCHProcessStartValidate host_ifup_fails driver_ok vm_ok))"
    by (simp_all add: virCHProcessStartValidate_def eval_scen host_boot_fails_def host_ifup_fails_def)
  from virCHProcessStart_failure [OF boot] virCHProcessStart_failure [OF ifup] pre boot ifup
  show ?thesis
    by simp
qed

text \<open>
  C1, counterexample to "every failure triggers the cleanup, with exactly one
  exception": a start of a domain that is already active fails, and a start on a host
  without KVM fails; neither is a failure of the interface bring-up, and in neither is
  virCHProcessStop called (no event at all, the domain is unchanged).
\<close>

theorem virCHProcessStart_early_return_counterexample:
  "virCHProcessStart host_ok driver_ok vm_active 1 =
     Some (Inl (Reported VIR_ERR_OPERATION_INVALID ''VM is already active''), vm_active, []) \<and>
   virCHProcessStart host_no_kvm driver_ok vm_ok 1 =
     Some (Inl (Reported VIR_ERR_CONFIG_UNSUPPORTED ''Domain requires KVM, but it is not available''),
           vm_ok, [])"
  by (simp add: eval_start eval_scen host_no_kvm_def vm_active_def)

text \<open>
  C10, witness: the info query fails, virCHProcessUpdateInfo returns -1, and the start
  succeeds with the domain Running.
\<close>

theorem virCHProcessStart_ignores_info_witness:
  "virCHProcessUpdateInfo host_info_fails vm_cgroup = (- 1, vm_cgroup, [E_MonitorGetInfo]) \<and>
   map_option (\<lambda>(r, vm', tr). (r, state vm')) (virCHProcessStart host_info_fails driver_ok vm_ok 1) =
     Some (Inr (), VIR_DOMAIN_RUNNING 1)"
  using virCHProcessStart_ignores_info [where h = host_ok and driver = driver_ok and vm = vm_ok
          and reason = 1 and info = "(- 1, JSON_Other)"]
  by (simp add: eval_start eval_scen host_info_fails_def)

lemma virCHProcessStart_success:
  assumes "virCHProcessStart h driver vm reason = Some (Inr u, vm1, tr1)"
  shows "\<exists>vm0 mon tr0. start_with_monitor h driver vm0 mon reason tr0 = Some (Inr u, vm1, tr1) \<and>
           stop_calls tr0 = [] \<and> def vm0 = def vm"
proof -
  from assms have active: "\<not> virDomainObjIsActive h vm"
    by (auto simp: virCHProcessStart_def split: if_splits)
  with assms have valid: "virCHProcessStartValidate h driver vm = Inr ()"
    by (cases "virCHProcessStartValidate h driver vm") (simp_all add: virCHProcessStart_def)
  show ?thesis
  proof (cases "monitor vm")
    case (Some mon)
    with assms active valid
    have "start_with_monitor h driver vm mon reason [] = Some (Inr u, vm1, tr1) \<and>
          stop_calls [] = [] \<and> def vm = def vm"
      by (simp add: virCHProcessStart_def)
    then show ?thesis by blast
  next
    case None
    from assms active valid None obtain mon where mon: "virCHMonitorNew h = Some mon"
      by (cases "virCHMonitorNew h") (simp_all add: virCHProcessStart_def start_cleanup_Inl)
    from assms active valid None mon have created: "\<not> virCHMonitorCreateVM h < 0"
      by (auto simp: virCHProcessStart_def start_cleanup_Inl)
    with assms active valid None mon
    have "start_with_monitor h driver (vm\<lparr>monitor := Some mon\<rparr>) mon reason
                 [E_MonitorNew, E_MonitorCreateVM] = Some (Inr u, vm1, tr1) \<and>
          stop_calls [E_MonitorNew, E_MonitorCreateVM] = [] \<and> def (vm\<lparr>monitor := Some mon\<rparr>) = def vm"
      by (simp add: virCHProcessStart_def)
    then show ?thesis by blast
  qed
qed

text \<open>
  C8, as the code has it. When no thread id of a vCPU is known, virCHProcessSetupVcpus
  makes no placement call at all and its result is decided in this order: it fails with
  \<^verbatim>\<open>VIR_ERR_CONFIG_UNSUPPORTED\<close> when a period or a quota is set for the vCPUs and the
  cgroup lacks the CPU controller; otherwise it fails with \<^verbatim>\<open>VIR_ERR_OPERATION_INVALID\<close>
  when some online vCPU has a mask of its own that differs from the mask of the domain;
  otherwise it succeeds. A domain with such a vCPU is never started: every return of
  virCHProcessStart is a failure.
\<close>

theorem virCHProcessSetupVcpus_without_pids:
  assumes "\<not> virCHDomainHasVcpuPids h"
  shows "virCHProcessSetupVcpus h vm =
           (if (period (cputune (def vm)) \<noteq> 0 \<or> quota (cputune (def vm)) \<noteq> 0) \<and>
               \<not> virCgroupHasController h (cgroup vm) VIR_CGROUP_CONTROLLER_CPU
            then (Inl (Reported VIR_ERR_CONFIG_UNSUPPORTED ''cgroup cpu is required for scheduler tuning''), [])
            else if \<exists>vcpu \<in> set (vcpus (def vm)).
                      online vcpu \<and> vcpu_cpumask vcpu \<noteq> None \<and> vcpu_cpumask vcpu \<noteq> cpumask (def vm)
            then (Inl (Reported VIR_ERR_OPERATION_INVALID ''cpu affinity is not supported''), [])
            else (Inr (), [])) \<and>
         ((\<exists>vcpu \<in> set (vcpus (def vm)).
             online vcpu \<and> vcpu_cpumask vcpu \<noteq> None \<and> vcpu_cpumask vcpu \<noteq> cpumask (def vm)) \<longrightarrow>
          (\<forall>driver reason r vm' tr.
             virCHProcessStart h driver vm reason = Some (r, vm', tr) \<longrightarrow> (\<exists>e. r = Inl e)))"
proof (intro conjI impI allI)
  show "virCHProcessSetupVcpus h vm =
           (if (period (cputune (def vm)) \<noteq> 0 \<or> quota (cputune (def vm)) \<noteq> 0) \<and>
               \<not> virCgroupHasController h (cgroup vm) VIR_CGROUP_CONTROLLER_CPU
            then (Inl (Reported VIR_ERR_CONFIG_UNSUPPORTED ''cgroup cpu is required for scheduler tuning''), [])
            else if \<exists>vcpu \<in> set (vcpus (def vm)).
                      online vcpu \<and> vcpu_cpumask vcpu \<noteq> None \<and> vcpu_cpumask vcpu \<noteq> cpumask (def vm)
            then (Inl (Reported VIR_ERR_OPERATION_INVALID ''cpu affinity is not supported''), [])
            else (Inr (), []))"
    by (rule virCHProcessSetupVcpus_no_pids [OF assms])
next
  fix driver reason r vm' tr
  assume bad: "\<exists>vcpu \<in> set (vcpus (def vm)).
             online vcpu \<and> vcpu_cpumask vcpu \<noteq> None \<and> vcpu_cpumask vcpu \<noteq> cpumask (def vm)"
    and run: "virCHProcessStart h driver vm reason = Some (r, vm', tr)"
  show "\<exists>e. r = Inl e"
  proof (cases r)
    case (Inl e)
    then show ?thesis by blast
  next
    case (Inr u)
    with run have "virCHProcessStart h driver vm reason = Some (Inr u, vm', tr)" by simp
    from virCHProcessStart_success [OF this] obtain vm0 mon tr0 where
      body: "start_with_monitor h driver vm0 mon reason tr0 = Some (Inr u, vm', tr)"
      and quiet: "stop_calls tr0 = []" and same: "def vm0 = def vm"
      by blast
    from start_with_monitor_result [OF body quiet] same obtain vmx where
      vmx: "vcpus (def vmx) = vcpus (def vm)" "cpumask (def vmx) = cpumask (def vm)"
      and ok: "fst (virCHProcessSetupVcpus h vmx) = Inr ()"
      by auto
    from bad vmx have "\<exists>vcpu \<in> set (vcpus (def vmx)).
             online vcpu \<and> vcpu_cpumask vcpu \<noteq> None \<and> vcpu_cpumask vcpu \<noteq> cpumask (def vmx)"
      by simp
    then have "\<exists>e. fst (virCHProcessSetupVcpus h vmx) = Inl e"
      unfolding virCHProcessSetupVcpus_no_pids [OF assms] by simp
    with ok show ?thesis by simp
  qed
qed

text \<open>
  C8, witness: the second vCPU asks for CPU 1, the domain has no mask. The function
  fails with \<^verbatim>\<open>VIR_ERR_OPERATION_INVALID\<close> without any call, and the start fails with
  that error after calling virCHProcessStop; with two vCPUs without masks the function
  succeeds.
\<close>

theorem virCHProcessSetupVcpus_without_pids_witness:
  "\<not> virCHDomainHasVcpuPids host_ok \<and>
   virCHProcessSetupVcpus host_ok vm_pinned_vcpu =
     (Inl (Reported VIR_ERR_OPERATION_INVALID ''cpu affinity is not supported''), []) \<and>
   virCHProcessSetupVcpus host_ok (vm_ok\<lparr>def := def_ok\<lparr>vcpus := [vcpu_plain, vcpu_plain]\<rparr>\<rparr>) = (Inr (), []) \<and>
   virCHProcessStart host_ok driver_ok vm_pinned_vcpu 1 =
     Some (Inl (Reported VIR_ERR_OPERATION_INVALID ''cpu affinity is not supported''),
           vm_pinned_vcpu\<lparr>cgroup := Some ''machine'',
                          state := VIR_DOMAIN_SHUTOFF VIR_DOMAIN_SHUTOFF_FAILED\<rparr>,
           tr_until_ifup @
           [E_MonitorBootVM, E_RefreshThreadInfo, E_MonitorGetIOThreads, E_SetupGlobalCpuCgroup] @
           tr_stop_failed)"
proof -
  have nopids: "\<not> virCHDomainHasVcpuPids host_ok"
    by (simp add: host_ok_def)
  note closed = virCHProcessSetupVcpus_without_pids [OF nopids, THEN conjunct1]
  have 1: "virCHProcessSetupVcpus host_ok vm_pinned_vcpu =
     (Inl (Reported VIR_ERR_OPERATION_INVALID ''cpu affinity is not supported''), [])"
    unfolding closed by (simp add: vm_pinned_vcpu_def vcpu_plain_def eval_scen)
  have 2: "virCHProcessSetupVcpus host_ok (vm_ok\<lparr>def := def_ok\<lparr>vcpus := [vcpu_plain, vcpu_plain]\<rparr>\<rparr>) =
     (Inr (), [])"
    unfolding closed by (simp add: vcpu_plain_def eval_scen)
  have 3: "virCHProcessStart host_ok driver_ok vm_pinned_vcpu 1 =
     Some (Inl (Reported VIR_ERR_OPERATION_INVALID ''cpu affinity is not supported''),
           vm_pinned_vcpu\<lparr>cgroup := Some ''machine'',
                          state := VIR_DOMAIN_SHUTOFF VIR_DOMAIN_SHUTOFF_FAILED\<rparr>,
           tr_until_ifup @
           [E_MonitorBootVM, E_RefreshThreadInfo, E_MonitorGetIOThreads, E_SetupGlobalCpuCgroup] @
           tr_stop_failed)"
    by (simp add: eval_start eval_scen vm_pinned_vcpu_def vcpu_plain_def)
  from nopids 1 2 3 show ?thesis by simp
qed

text \<open>
  C8, counterexample to "succeeds trivially unless some online vCPU has a cpumask
  different from the VM-wide mask": no thread id is known, no vCPU has a mask, the
  domain has a period of 100000 and no CPU controller; the function fails with
  \<^verbatim>\<open>VIR_ERR_CONFIG_UNSUPPORTED\<close>.
\<close>

theorem virCHProcessSetupVcpus_bandwidth_counterexample:
  "\<not> virCHDomainHasVcpuPids host_ok \<and>
   list_all (\<lambda>vcpu. vcpu_cpumask vcpu = None) (vcpus (def vm_period)) \<and>
   virCHProcessSetupVcpus host_ok vm_period =
     (Inl (Reported VIR_ERR_CONFIG_UNSUPPORTED ''cgroup cpu is required for scheduler tuning''), [])"
  by (simp add: virCHProcessSetupVcpus_def vm_period_def vcpu_plain_def eval_scen)

end
